(* ===== verification/Prelude.thy ===== *)
theory Prelude
  imports Main
begin

text \<open>
  Shared vocabulary of the development. The backend is a FastAPI application
  (\<^verbatim>\<open>src/backend/app\<close>); every endpoint either returns a value or raises
  \<^verbatim>\<open>HTTPException(status_code, detail)\<close>. An endpoint is therefore modelled as a
  function into \<open>http_exception + 'a\<close>, with \<open>Inl\<close> the raised exception. User
  identifiers (the \<^verbatim>\<open>id\<close> column of \<^verbatim>\<open>User\<close>) are strings, as in the source;
  row identifiers of the entities this backend owns are natural numbers handed out by
  a counter of the store (the source uses opaque string keys; only their uniqueness
  matters to the endpoints). This theory also holds the generic list lemmas the
  component proofs share.
\<close>

datatype http_exception = HTTPException nat string

type_synonym 'a result = "http_exception + 'a"

type_synonym uid = string

type_synonym rid = nat

named_theorems endpoint_simps
  \<open>unfolding rules of the endpoint handlers, used by the component proofs\<close>

definition raise :: "nat \<Rightarrow> string \<Rightarrow> 'a result" where
  "raise code detail = Inl (HTTPException code detail)"

fun status_code :: "http_exception \<Rightarrow> nat" where
  "status_code (HTTPException c _) = c"

lemma raise_not_Inr [simp]: "raise c d \<noteq> Inr x"
  by (simp add: raise_def)

lemma raise_eq_Inl [simp]: "raise c d = Inl e \<longleftrightarrow> e = HTTPException c d"
  by (auto simp add: raise_def)

text \<open>Finding a row by a key that is unique in the list.\<close>

lemma find_Some_in_set:
  "find P xs = Some x \<Longrightarrow> x \<in> set xs \<and> P x"
  by (induction xs) (auto split: if_splits)

lemma find_None_iff':
  "find P xs = None \<longleftrightarrow> (\<forall>x\<in>set xs. \<not> P x)"
  by (induction xs) auto

lemma find_key_distinct:
  assumes "distinct (map k xs)" and "x \<in> set xs" and "k x = i"
  shows "find (\<lambda>y. k y = i) xs = Some x"
  using assms by (induction xs) (auto simp: rev_image_eqI)

lemma find_filter_none:
  "find (\<lambda>y. k y = i) (filter (\<lambda>y. k y \<noteq> i) xs) = None"
  by (simp add: find_None_iff')

lemma find_append_absent:
  "\<forall>y\<in>set xs. k y \<noteq> i \<Longrightarrow> k x = i \<Longrightarrow> find (\<lambda>y. k y = i) (xs @ [x]) = Some x"
  by (induction xs) auto

text \<open>Updating the rows with a given key.\<close>

lemma map_update_key_map [simp]:
  "map (k \<circ> (\<lambda>y. if P y then f y else y)) xs = map k xs"
  if "\<And>y. k (f y) = k y"
  using that by (induction xs) auto

lemma distinct_filter_map:
  "distinct (map k xs) \<Longrightarrow> distinct (map k (filter P xs))"
  by (induction xs) auto

lemma length_filter_conj_le:
  "length (filter (\<lambda>x. P x \<and> Q x) xs) \<le> length (filter P xs)"
  by (induction xs) auto

end
