(* ===== verification/Mentorship_Store.thy ===== *)
theory Mentorship_Store
  imports Prelude
begin

text \<open>
  The Mentorship Store: the database rows the mentorship endpoints read and write.
  The ORM entities \<^verbatim>\<open>User\<close>, \<^verbatim>\<open>Skill\<close> and \<^verbatim>\<open>Mentorship\<close> (\<^verbatim>\<open>app.models.models\<close>)
  are records; the database session is the record \<open>db\<close> holding the users, the
  mentorship rows in insertion order and the counter that hands out fresh row ids.
  The data-access module \<^verbatim>\<open>app.crud.mentorship\<close> is not among the sources; its
  five operations are modelled from the specification (section 4.4): pure
  persistence, no policy, one atomic write per call.
\<close>

record skill =
  skill_name :: string
  proficiency_level :: nat
  category :: string

record user =
  user_id :: uid
  full_name :: string
  title :: "string option"
  bio :: "string option"
  avatar_url :: "string option"
  skills :: "skill list"

record mentorship =
  mid :: rid
  mentor_id :: uid
  mentee_id :: uid
  skill_focus :: string
  status :: string
  created_at :: nat

record db =
  users :: "user list"
  mentorships :: "mentorship list"
  next_mid :: rid

text \<open>The status the data-access layer gives a new row.\<close>

definition status_pending :: string where
  "status_pending = ''pending''"

definition crud_get_mentorship :: "db \<Rightarrow> rid \<Rightarrow> mentorship option" where
  "crud_get_mentorship s i = find (\<lambda>m. mid m = i) (mentorships s)"

definition crud_get_mentorships_for_user :: "db \<Rightarrow> uid \<Rightarrow> bool \<Rightarrow> mentorship list" where
  "crud_get_mentorships_for_user s u as_mentee =
     filter (\<lambda>m. if as_mentee then mentee_id m = u else mentor_id m = u) (mentorships s)"

definition crud_create_mentorship ::
  "db \<Rightarrow> uid \<Rightarrow> uid \<Rightarrow> string \<Rightarrow> nat \<Rightarrow> mentorship \<times> db" where
  "crud_create_mentorship s mentor mentee focus now =
     (let m = \<lparr>mid = next_mid s, mentor_id = mentor, mentee_id = mentee,
               skill_focus = focus, status = status_pending, created_at = now\<rparr>
      in (m, s\<lparr>mentorships := mentorships s @ [m], next_mid := Suc (next_mid s)\<rparr>))"

definition crud_update_mentorship_status ::
  "db \<Rightarrow> rid \<Rightarrow> string \<Rightarrow> mentorship option \<times> db" where
  "crud_update_mentorship_status s i st =
     (case crud_get_mentorship s i of
        None \<Rightarrow> (None, s)
      | Some m \<Rightarrow> (Some (m\<lparr>status := st\<rparr>),
          s\<lparr>mentorships := map (\<lambda>r. if mid r = i then r\<lparr>status := st\<rparr> else r) (mentorships s)\<rparr>))"

definition crud_delete_mentorship :: "db \<Rightarrow> rid \<Rightarrow> db" where
  "crud_delete_mentorship s i = s\<lparr>mentorships := filter (\<lambda>r. mid r \<noteq> i) (mentorships s)\<rparr>"

text \<open>
  The query \<^verbatim>\<open>get_available_mentors(session, skill_focus)\<close>: every user having a
  skill whose name is exactly \<open>skill_focus\<close> (section 4.3, step 1), in table order.
\<close>

definition crud_get_available_mentors :: "db \<Rightarrow> string \<Rightarrow> user list" where
  "crud_get_available_mentors s sk =
     filter (\<lambda>u. list_ex (\<lambda>k. skill_name k = sk) (skills u)) (users s)"

text \<open>
  Well-formedness of the store: row ids are unique and below the id counter, so the
  next id handed out is fresh.
\<close>

definition store_wf :: "db \<Rightarrow> bool" where
  "store_wf s \<longleftrightarrow> distinct (map mid (mentorships s)) \<and>
     list_all (\<lambda>m. mid m < next_mid s) (mentorships s)"

text \<open>
  The data of the scenario of the specification (section 8): mentor \<open>M\<close> has the
  skill Go at level 8; \<open>A\<close> and \<open>B\<close> are mentees without skills.
\<close>

definition skill_go :: skill where
  "skill_go = \<lparr>skill_name = ''Go'', proficiency_level = 8, category = ''Programming''\<rparr>"

definition user_M :: user where
  "user_M = \<lparr>user_id = ''M'', full_name = ''Mentor M'', title = None, bio = None,
     avatar_url = None, skills = [skill_go]\<rparr>"

definition user_A :: user where
  "user_A = \<lparr>user_id = ''A'', full_name = ''Mentee A'', title = None, bio = None,
     avatar_url = None, skills = []\<rparr>"

definition user_B :: user where
  "user_B = \<lparr>user_id = ''B'', full_name = ''Mentee B'', title = None, bio = None,
     avatar_url = None, skills = []\<rparr>"

definition scenario_db :: db where
  "scenario_db = \<lparr>users = [user_M, user_A, user_B], mentorships = [], next_mid = 0\<rparr>"

lemmas scenario_defs = skill_go_def user_M_def user_A_def user_B_def scenario_db_def

lemmas crud_defs = crud_get_mentorship_def crud_get_mentorships_for_user_def
  crud_create_mentorship_def crud_update_mentorship_status_def crud_delete_mentorship_def

lemma crud_get_mentorship_Some:
  "crud_get_mentorship s i = Some m \<Longrightarrow> m \<in> set (mentorships s) \<and> mid m = i"
  unfolding crud_get_mentorship_def by (rule find_Some_in_set)

lemma crud_get_mentorship_None:
  "crud_get_mentorship s i = None \<longleftrightarrow> i \<notin> mid ` set (mentorships s)"
  by (auto simp: crud_get_mentorship_def find_None_iff')

lemma crud_get_mentorship_row:
  "store_wf s \<Longrightarrow> m \<in> set (mentorships s) \<Longrightarrow> crud_get_mentorship s (mid m) = Some m"
  unfolding crud_get_mentorship_def store_wf_def by (blast intro: find_key_distinct)

subsection \<open>Frame facts: the users table is never written\<close>

lemma users_crud_create [simp]: "users (snd (crud_create_mentorship s a b f n)) = users s"
  by (simp add: crud_create_mentorship_def Let_def)

lemma users_crud_update [simp]: "users (snd (crud_update_mentorship_status s i st)) = users s"
  by (simp add: crud_update_mentorship_status_def split: option.split)

lemma users_crud_delete [simp]: "users (crud_delete_mentorship s i) = users s"
  by (simp add: crud_delete_mentorship_def)

subsection \<open>Each operation keeps the store well-formed\<close>

lemma store_wf_create:
  assumes "store_wf s"
  shows "store_wf (snd (crud_create_mentorship s a b f n))"
proof -
  have "next_mid s \<notin> mid ` set (mentorships s)"
    using assms by (auto simp: store_wf_def list_all_iff)
  then show ?thesis
    using assms by (auto simp: store_wf_def crud_create_mentorship_def Let_def list_all_iff)
qed

lemma store_wf_update:
  "store_wf s \<Longrightarrow> store_wf (snd (crud_update_mentorship_status s i st))"
  by (auto simp: store_wf_def crud_update_mentorship_status_def list_all_iff
      map_update_key_map split: option.split)

lemma store_wf_delete:
  "store_wf s \<Longrightarrow> store_wf (crud_delete_mentorship s i)"
  by (auto simp: store_wf_def crud_delete_mentorship_def list_all_iff distinct_filter_map)

subsection \<open>Reads after writes\<close>

lemma crud_get_after_create:
  assumes "store_wf s" and "crud_create_mentorship s a b f n = (m, s')"
  shows "crud_get_mentorship s' (mid m) = Some m"
proof -
  have "\<forall>y\<in>set (mentorships s). mid y \<noteq> next_mid s"
    using assms(1) by (auto simp: store_wf_def list_all_iff)
  then have "find (\<lambda>y. mid y = next_mid s) (mentorships s @ [m]) = Some m"
    using assms(2) by (intro find_append_absent) (auto simp: crud_create_mentorship_def Let_def)
  with assms(2) show ?thesis
    by (auto simp: crud_create_mentorship_def crud_get_mentorship_def Let_def)
qed

lemma crud_get_after_delete:
  "crud_get_mentorship (crud_delete_mentorship s i) i = None"
  by (simp add: crud_get_mentorship_def crud_delete_mentorship_def find_filter_none)

lemma crud_get_after_update:
  assumes "store_wf s" and "crud_get_mentorship s i = Some m"
  shows "crud_get_mentorship (snd (crud_update_mentorship_status s i st)) i = Some (m\<lparr>status := st\<rparr>)"
proof -
  from assms(2) have m: "m \<in> set (mentorships s)" "mid m = i"
    by (auto dest: crud_get_mentorship_Some)
  let ?rs = "map (\<lambda>r. if mid r = i then r\<lparr>status := st\<rparr> else r) (mentorships s)"
  have "m\<lparr>status := st\<rparr> \<in> set ?rs" using m by force
  moreover have "distinct (map mid ?rs)"
    using assms(1) by (simp add: store_wf_def map_update_key_map)
  ultimately have "find (\<lambda>y. mid y = i) ?rs = Some (m\<lparr>status := st\<rparr>)"
    using m(2) by (intro find_key_distinct) simp_all
  with m assms(2) show ?thesis
    by (simp add: crud_update_mentorship_status_def crud_get_mentorship_def)
qed

end
