(* ===== verification/Access_Guard.thy ===== *)
theory Access_Guard
  imports Mentorship_Store
begin

text \<open>
  The Access Control Guard. The specification (section 4.1) asks for one policy
  function \<open>authorize(mentorship, callerId, action)\<close> over a role-by-action matrix;
  the source instead writes the check inline in each endpoint of
  \<^verbatim>\<open>api/endpoints/mentorship.py\<close>: the participant test of \<^verbatim>\<open>get_mentorship\<close> and
  \<^verbatim>\<open>cancel_mentorship\<close> and the mentor test of \<^verbatim>\<open>update_mentorship\<close>. Both are
  here, and the lemmas show that the inline tests deny exactly what the matrix denies.
\<close>

datatype action = Read | UpdateStatus | Cancel

text \<open>The contract of section 4.1.\<close>

fun authorize :: "mentorship \<Rightarrow> uid \<Rightarrow> action \<Rightarrow> bool" where
  "authorize m u Read \<longleftrightarrow> u = mentor_id m \<or> u = mentee_id m"
| "authorize m u UpdateStatus \<longleftrightarrow> u = mentor_id m"
| "authorize m u Cancel \<longleftrightarrow> u = mentor_id m \<or> u = mentee_id m"

text \<open>
  The inline condition of \<^verbatim>\<open>get_mentorship\<close> and \<^verbatim>\<open>cancel_mentorship\<close>:
  \<^verbatim>\<open>mentorship.mentor_id != current_user.id and mentorship.mentee_id != current_user.id\<close>.
\<close>

definition not_participant :: "mentorship \<Rightarrow> uid \<Rightarrow> bool" where
  "not_participant m u \<longleftrightarrow> mentor_id m \<noteq> u \<and> mentee_id m \<noteq> u"

text \<open>The inline condition of \<^verbatim>\<open>update_mentorship\<close>: \<^verbatim>\<open>mentorship.mentor_id != current_user.id\<close>.\<close>

definition not_mentor :: "mentorship \<Rightarrow> uid \<Rightarrow> bool" where
  "not_mentor m u \<longleftrightarrow> mentor_id m \<noteq> u"

lemma not_participant_authorize_Read:
  "not_participant m u \<longleftrightarrow> \<not> authorize m u Read"
  by (auto simp: not_participant_def)

lemma not_participant_authorize_Cancel:
  "not_participant m u \<longleftrightarrow> \<not> authorize m u Cancel"
  by (auto simp: not_participant_def)

lemma not_mentor_authorize_UpdateStatus:
  "not_mentor m u \<longleftrightarrow> \<not> authorize m u UpdateStatus"
  by (auto simp: not_mentor_def)

lemmas guard_authorize = not_participant_authorize_Read not_mentor_authorize_UpdateStatus

lemma authorize_UpdateStatus_imp:
  "authorize m u UpdateStatus \<Longrightarrow> authorize m u a"
  by (cases a) auto

lemma authorize_Read_Cancel: "authorize m u Read = authorize m u Cancel"
  by simp

end
