(* ===== verification/Mentorship_Endpoints.thy ===== *)
theory Mentorship_Endpoints
  imports Access_Guard
begin

text \<open>
  The Mentorship Lifecycle Manager as the source has it: the handlers of
  \<^verbatim>\<open>api/endpoints/mentorship.py\<close> other than the directory query (theory
  \<open>Mentor_Directory\<close>). Each handler takes the database, the caller's id (what
  \<^verbatim>\<open>deps.get_current_user\<close> resolves) and the request's parameters, and returns the
  response together with the database after the call, or the raised
  \<^verbatim>\<open>HTTPException\<close>. \<^verbatim>\<open>MentorshipResponse.from_orm\<close> copies the row's fields, so a
  response is the row itself. The creation time is a parameter \<open>now\<close>: the clock is
  read by the data-access layer.
\<close>

record mentorship_list =
  ml_mentorships :: "mentorship list"
  total_count :: nat

definition get_my_mentees :: "db \<Rightarrow> uid \<Rightarrow> mentorship_list" where
  "get_my_mentees s cur =
     (let ms = crud_get_mentorships_for_user s cur False
      in \<lparr>ml_mentorships = ms, total_count = length ms\<rparr>)"

definition get_my_mentors :: "db \<Rightarrow> uid \<Rightarrow> mentorship_list" where
  "get_my_mentors s cur =
     (let ms = crud_get_mentorships_for_user s cur True
      in \<lparr>ml_mentorships = ms, total_count = length ms\<rparr>)"

definition create_mentorship ::
  "db \<Rightarrow> uid \<Rightarrow> uid \<Rightarrow> string \<Rightarrow> nat \<Rightarrow> (mentorship \<times> db) result" where
  "create_mentorship s cur mentor focus now =
     (case find (\<lambda>u. user_id u = mentor) (users s) of
        None \<Rightarrow> raise 404 ''Mentor not found''
      | Some _ \<Rightarrow> Inr (crud_create_mentorship s mentor cur focus now))"

definition get_mentorship :: "db \<Rightarrow> uid \<Rightarrow> rid \<Rightarrow> mentorship result" where
  "get_mentorship s cur i =
     (case crud_get_mentorship s i of
        None \<Rightarrow> raise 404 ''Mentorship not found''
      | Some m \<Rightarrow>
          if not_participant m cur then raise 403 ''Access denied'' else Inr m)"

text \<open>
  \<^verbatim>\<open>update_mentorship\<close> writes the requested status string as it is: the source
  checks no transition. The data-access call returns the updated row, or \<^verbatim>\<open>None\<close>
  for an absent id, on which \<^verbatim>\<open>from_orm\<close> fails and the general exception handler
  answers 500; the row was read just before, so that branch is never taken
  (lemma \<open>update_mentorship_no_500\<close>).
\<close>

definition update_mentorship :: "db \<Rightarrow> uid \<Rightarrow> rid \<Rightarrow> string \<Rightarrow> (mentorship \<times> db) result" where
  "update_mentorship s cur i st =
     (case crud_get_mentorship s i of
        None \<Rightarrow> raise 404 ''Mentorship not found''
      | Some m \<Rightarrow>
          if not_mentor m cur then raise 403 ''Only mentor can update status''
          else (case crud_update_mentorship_status s i st of
                  (Some m', s') \<Rightarrow> Inr (m', s')
                | (None, _) \<Rightarrow> raise 500 ''Internal server error''))"

definition cancel_mentorship :: "db \<Rightarrow> uid \<Rightarrow> rid \<Rightarrow> db result" where
  "cancel_mentorship s cur i =
     (case crud_get_mentorship s i of
        None \<Rightarrow> raise 404 ''Mentorship not found''
      | Some m \<Rightarrow>
          if not_participant m cur then raise 403 ''Access denied''
          else Inr (crud_delete_mentorship s i))"

lemmas mentorship_endpoint_defs [endpoint_simps] =
  get_my_mentees_def get_my_mentors_def create_mentorship_def get_mentorship_def
  update_mentorship_def cancel_mentorship_def

subsection \<open>Shape of each handler's outcome\<close>

lemma update_mentorship_no_500:
  "update_mentorship s cur i st \<noteq> raise 500 d"
  by (auto simp: update_mentorship_def crud_update_mentorship_status_def raise_def
      split: option.split)

lemma update_mentorship_Inr_iff:
  "update_mentorship s cur i st = Inr (m', s') \<longleftrightarrow>
     (\<exists>m. crud_get_mentorship s i = Some m \<and> mentor_id m = cur \<and>
          m' = m\<lparr>status := st\<rparr> \<and> s' = snd (crud_update_mentorship_status s i st))"
  by (auto simp: update_mentorship_def crud_update_mentorship_status_def not_mentor_def
      split: option.splits)

lemma get_mentorship_Inr_iff:
  "get_mentorship s cur i = Inr m \<longleftrightarrow>
     crud_get_mentorship s i = Some m \<and> authorize m cur Read"
  by (auto simp: get_mentorship_def not_participant_def split: option.splits)

lemma cancel_mentorship_Inr_iff:
  "cancel_mentorship s cur i = Inr s' \<longleftrightarrow>
     (\<exists>m. crud_get_mentorship s i = Some m \<and> authorize m cur Cancel \<and>
          s' = crud_delete_mentorship s i)"
  by (auto simp: cancel_mentorship_def not_participant_def split: option.splits)

lemma create_mentorship_Inr_iff:
  "create_mentorship s cur mentor focus now = Inr r \<longleftrightarrow>
     (mentor \<in> user_id ` set (users s) \<and> r = crud_create_mentorship s mentor cur focus now)"
  by (auto simp: create_mentorship_def find_None_iff' split: option.splits
      dest: find_Some_in_set)

lemma create_mentorship_Inl_iff:
  "create_mentorship s cur mentor focus now = Inl e \<longleftrightarrow>
     (mentor \<notin> user_id ` set (users s) \<and> e = HTTPException 404 ''Mentor not found'')"
  by (auto simp: create_mentorship_def find_None_iff' split: option.splits
      dest: find_Some_in_set)

text \<open>The error a handler on an existing row raises is decided by the guard alone.\<close>

lemma row_handlers_404:
  "crud_get_mentorship s i = None \<Longrightarrow>
     get_mentorship s cur i = raise 404 ''Mentorship not found'' \<and>
     update_mentorship s cur i st = raise 404 ''Mentorship not found'' \<and>
     cancel_mentorship s cur i = raise 404 ''Mentorship not found''"
  by (simp add: get_mentorship_def update_mentorship_def cancel_mentorship_def)

lemma get_mentorship_existing:
  "crud_get_mentorship s i = Some m \<Longrightarrow>
     get_mentorship s u i = (if authorize m u Read then Inr m else raise 403 ''Access denied'')"
  by (simp add: get_mentorship_def not_participant_authorize_Read)

subsection \<open>Properties of the lifecycle endpoints\<close>

text \<open>
  C1: only the mentor of an existing mentorship can change its status. On an
  existing row, \<^verbatim>\<open>update_mentorship\<close> succeeds for the mentor, with the row's
  status replaced by the requested string, and answers 403 to every other caller.
\<close>

theorem update_mentorship_mentor_only:
  assumes "crud_get_mentorship s i = Some m"
  shows "update_mentorship s cur i st =
           (if cur = mentor_id m
            then Inr (m\<lparr>status := st\<rparr>, snd (crud_update_mentorship_status s i st))
            else raise 403 ''Only mentor can update status'')"
  using assms
  by (simp add: update_mentorship_def not_mentor_def crud_update_mentorship_status_def)

theorem update_mentorship_mentor_only_witness:
  "update_mentorship
     \<lparr>users = [], mentorships = [\<lparr>mid = 0, mentor_id = ''M'', mentee_id = ''A'',
        skill_focus = ''Go'', status = ''pending'', created_at = 1\<rparr>], next_mid = 1\<rparr>
     ''B'' 0 ''accepted'' = raise 403 ''Only mentor can update status''"
  by (subst update_mentorship_mentor_only [where m = "\<lparr>mid = 0, mentor_id = ''M'', mentee_id = ''A'',
        skill_focus = ''Go'', status = ''pending'', created_at = 1\<rparr>"])
     (simp_all add: crud_get_mentorship_def)

text \<open>
  C2: after a successful cancellation the mentorship is gone: any caller, the
  participants included, gets 404 when reading it.
\<close>

theorem cancel_then_get_not_found:
  assumes "cancel_mentorship s cur i = Inr s'"
  shows "get_mentorship s' u i = raise 404 ''Mentorship not found''"
  using assms
  by (auto simp: cancel_mentorship_Inr_iff get_mentorship_def crud_get_after_delete)

theorem cancel_then_get_not_found_witness:
  "cancel_mentorship
     \<lparr>users = [], mentorships = [\<lparr>mid = 0, mentor_id = ''M'', mentee_id = ''A'',
        skill_focus = ''Go'', status = ''pending'', created_at = 1\<rparr>], next_mid = 1\<rparr> ''A'' 0
     = Inr \<lparr>users = [], mentorships = [], next_mid = 1\<rparr> \<and>
   get_mentorship \<lparr>users = [], mentorships = [], next_mid = 1\<rparr> ''A'' 0
     = raise 404 ''Mentorship not found''"
proof -
  have c: "cancel_mentorship
     \<lparr>users = [], mentorships = [\<lparr>mid = 0, mentor_id = ''M'', mentee_id = ''A'',
        skill_focus = ''Go'', status = ''pending'', created_at = 1\<rparr>], next_mid = 1\<rparr> ''A'' 0
     = Inr \<lparr>users = [], mentorships = [], next_mid = 1\<rparr>"
    by (simp add: cancel_mentorship_def crud_get_mentorship_def not_participant_def
        crud_delete_mentorship_def)
  show ?thesis using c cancel_then_get_not_found [OF c, of "''A''"] by simp
qed

text \<open>
  C5: creating a mentorship and reading it back. After a successful
  \<^verbatim>\<open>create_mentorship\<close> the caller reads the new row under its id, and the row
  names the requested mentor, the caller as mentee, the requested skill focus and the
  status pending.
\<close>

theorem create_then_get_roundtrip:
  assumes "store_wf s" and "create_mentorship s cur mentor focus now = Inr (m, s')"
  shows "get_mentorship s' cur (mid m) = Inr m \<and> mentor_id m = mentor \<and>
         mentee_id m = cur \<and> skill_focus m = focus \<and> status m = status_pending"
proof -
  from assms(2) have c: "crud_create_mentorship s mentor cur focus now = (m, s')"
    by (simp add: create_mentorship_Inr_iff)
  from assms(1) c have g: "crud_get_mentorship s' (mid m) = Some m"
    by (rule crud_get_after_create)
  from c have f: "mentor_id m = mentor \<and> mentee_id m = cur \<and> skill_focus m = focus \<and>
      status m = status_pending"
    by (auto simp: crud_create_mentorship_def Let_def)
  with g show ?thesis by (simp add: get_mentorship_Inr_iff)
qed

theorem create_then_get_roundtrip_witness:
  "store_wf scenario_db \<and>
   create_mentorship scenario_db ''A'' ''M'' ''Go'' 5 =
     Inr (\<lparr>mid = 0, mentor_id = ''M'', mentee_id = ''A'', skill_focus = ''Go'',
            status = status_pending, created_at = 5\<rparr>,
          scenario_db\<lparr>mentorships := [\<lparr>mid = 0, mentor_id = ''M'', mentee_id = ''A'',
            skill_focus = ''Go'', status = status_pending, created_at = 5\<rparr>], next_mid := 1\<rparr>) \<and>
   get_mentorship (scenario_db\<lparr>mentorships := [\<lparr>mid = 0, mentor_id = ''M'', mentee_id = ''A'',
            skill_focus = ''Go'', status = status_pending, created_at = 5\<rparr>], next_mid := 1\<rparr>)
     ''A'' 0 = Inr \<lparr>mid = 0, mentor_id = ''M'', mentee_id = ''A'', skill_focus = ''Go'',
            status = status_pending, created_at = 5\<rparr>"
proof -
  have w: "store_wf scenario_db" by (simp add: store_wf_def scenario_db_def)
  have c: "create_mentorship scenario_db ''A'' ''M'' ''Go'' 5 =
     Inr (\<lparr>mid = 0, mentor_id = ''M'', mentee_id = ''A'', skill_focus = ''Go'',
            status = status_pending, created_at = 5\<rparr>,
          scenario_db\<lparr>mentorships := [\<lparr>mid = 0, mentor_id = ''M'', mentee_id = ''A'',
            skill_focus = ''Go'', status = status_pending, created_at = 5\<rparr>], next_mid := 1\<rparr>)"
    by (simp add: create_mentorship_def crud_create_mentorship_def scenario_defs Let_def)
  show ?thesis using w c create_then_get_roundtrip [OF w c] by simp
qed

text \<open>
  C6: reading a mentorship. On an existing row, \<^verbatim>\<open>get_mentorship\<close> returns the row
  to its mentor and to its mentee and raises 403 for everybody else.
\<close>

theorem get_mentorship_outcome:
  assumes "store_wf s" and "m \<in> set (mentorships s)"
  shows "get_mentorship s u (mid m) =
           (if u = mentor_id m \<or> u = mentee_id m then Inr m else raise 403 ''Access denied'')"
  using crud_get_mentorship_row [OF assms] by (auto simp: get_mentorship_existing)

theorem get_mentorship_outcome_witness:
  "get_mentorship \<lparr>users = [], mentorships = [\<lparr>mid = 0, mentor_id = ''M'', mentee_id = ''A'',
        skill_focus = ''Go'', status = ''pending'', created_at = 1\<rparr>], next_mid = 1\<rparr> ''B'' 0
     = raise 403 ''Access denied''"
proof -
  let ?m = "\<lparr>mid = 0, mentor_id = ''M'', mentee_id = ''A'',
        skill_focus = ''Go'', status = ''pending'', created_at = 1::nat\<rparr>"
  let ?s = "\<lparr>users = [], mentorships = [?m], next_mid = 1\<rparr>"
  have "store_wf ?s" by (simp add: store_wf_def)
  from get_mentorship_outcome [OF this, of ?m "''B''"] show ?thesis by simp
qed

text \<open>
  Cancelling a mentorship. On an existing row, \<^verbatim>\<open>cancel_mentorship\<close> deletes
  exactly that row when called by its mentor or its mentee, and raises 403 for
  everybody else.
\<close>

theorem cancel_mentorship_outcome:
  assumes "store_wf s" and "m \<in> set (mentorships s)"
  shows "cancel_mentorship s u (mid m) =
           (if u = mentor_id m \<or> u = mentee_id m
            then Inr (s\<lparr>mentorships := filter (\<lambda>r. mid r \<noteq> mid m) (mentorships s)\<rparr>)
            else raise 403 ''Access denied'')"
  using crud_get_mentorship_row [OF assms]
  by (auto simp: cancel_mentorship_def not_participant_def crud_delete_mentorship_def)

theorem cancel_mentorship_outcome_witness:
  "cancel_mentorship \<lparr>users = [], mentorships = [\<lparr>mid = 0, mentor_id = ''M'', mentee_id = ''A'',
        skill_focus = ''Go'', status = ''pending'', created_at = 1\<rparr>], next_mid = 1\<rparr> ''M'' 0
     = Inr \<lparr>users = [], mentorships = [], next_mid = 1\<rparr>"
proof -
  let ?m = "\<lparr>mid = 0, mentor_id = ''M'', mentee_id = ''A'',
        skill_focus = ''Go'', status = ''pending'', created_at = 1::nat\<rparr>"
  let ?s = "\<lparr>users = [], mentorships = [?m], next_mid = 1\<rparr>"
  have "store_wf ?s" by (simp add: store_wf_def)
  from cancel_mentorship_outcome [OF this, of ?m "''M''"] show ?thesis by simp
qed

text \<open>
  A status update touches nothing but the status of the named row. After a
  successful \<^verbatim>\<open>update_mentorship\<close> the rows are the old rows with the status of
  row \<open>i\<close> replaced; ids, participants, skill focus and creation times of every row,
  the users and the id counter are unchanged.
\<close>

theorem update_mentorship_frame:
  assumes "update_mentorship s cur i st = Inr (m', s')"
  shows "mentorships s' = map (\<lambda>r. if mid r = i then r\<lparr>status := st\<rparr> else r) (mentorships s) \<and>
         users s' = users s \<and> next_mid s' = next_mid s"
  using assms
  by (auto simp: update_mentorship_Inr_iff crud_update_mentorship_status_def)

theorem update_mentorship_frame_witness:
  "update_mentorship \<lparr>users = [], mentorships = [\<lparr>mid = 0, mentor_id = ''M'', mentee_id = ''A'',
        skill_focus = ''Go'', status = ''pending'', created_at = 1\<rparr>], next_mid = 1\<rparr> ''M'' 0 ''accepted''
     = Inr (\<lparr>mid = 0, mentor_id = ''M'', mentee_id = ''A'',
        skill_focus = ''Go'', status = ''accepted'', created_at = 1\<rparr>,
        \<lparr>users = [], mentorships = [\<lparr>mid = 0, mentor_id = ''M'', mentee_id = ''A'',
        skill_focus = ''Go'', status = ''accepted'', created_at = 1\<rparr>], next_mid = 1\<rparr>) \<and>
   mentorships \<lparr>users = [], mentorships = [\<lparr>mid = 0, mentor_id = ''M'', mentee_id = ''A'',
        skill_focus = ''Go'', status = ''accepted'', created_at = 1::nat\<rparr>], next_mid = 1\<rparr> =
     map (\<lambda>r. if mid r = 0 then r\<lparr>status := ''accepted''\<rparr> else r)
       [\<lparr>mid = 0, mentor_id = ''M'', mentee_id = ''A'',
        skill_focus = ''Go'', status = ''pending'', created_at = 1\<rparr>]"
proof -
  have u: "update_mentorship \<lparr>users = [], mentorships = [\<lparr>mid = 0, mentor_id = ''M'', mentee_id = ''A'',
        skill_focus = ''Go'', status = ''pending'', created_at = 1\<rparr>], next_mid = 1\<rparr> ''M'' 0 ''accepted''
     = Inr (\<lparr>mid = 0, mentor_id = ''M'', mentee_id = ''A'',
        skill_focus = ''Go'', status = ''accepted'', created_at = 1\<rparr>,
        \<lparr>users = [], mentorships = [\<lparr>mid = 0, mentor_id = ''M'', mentee_id = ''A'',
        skill_focus = ''Go'', status = ''accepted'', created_at = 1\<rparr>], next_mid = 1\<rparr>)"
    by (simp add: update_mentorship_def crud_update_mentorship_status_def
        crud_get_mentorship_def not_mentor_def)
  show ?thesis using u update_mentorship_frame [OF u] by simp
qed

text \<open>
  Updating and reading back. After a successful \<^verbatim>\<open>update_mentorship\<close> the
  mentor reads the row with exactly the status string that was sent, whatever it is.
\<close>

theorem update_then_get_roundtrip:
  assumes "store_wf s" and "update_mentorship s cur i st = Inr (m', s')"
  shows "get_mentorship s' cur i = Inr m' \<and> status m' = st"
proof -
  from assms(2) obtain m where m: "crud_get_mentorship s i = Some m" "mentor_id m = cur"
    and m': "m' = m\<lparr>status := st\<rparr>" and s': "s' = snd (crud_update_mentorship_status s i st)"
    by (auto simp: update_mentorship_Inr_iff)
  have "crud_get_mentorship s' i = Some m'"
    using crud_get_after_update [OF assms(1) m(1)] m' s' by simp
  with m(2) m' show ?thesis by (simp add: get_mentorship_Inr_iff)
qed

theorem update_then_get_roundtrip_witness:
  "get_mentorship \<lparr>users = [], mentorships = [\<lparr>mid = 0, mentor_id = ''M'', mentee_id = ''A'',
        skill_focus = ''Go'', status = ''on hold'', created_at = 1\<rparr>], next_mid = 1\<rparr> ''M'' 0
   = Inr \<lparr>mid = 0, mentor_id = ''M'', mentee_id = ''A'',
        skill_focus = ''Go'', status = ''on hold'', created_at = 1\<rparr>"
proof -
  let ?m = "\<lparr>mid = 0, mentor_id = ''M'', mentee_id = ''A'',
        skill_focus = ''Go'', status = ''pending'', created_at = 1::nat\<rparr>"
  let ?s = "\<lparr>users = [], mentorships = [?m], next_mid = 1\<rparr>"
  let ?s' = "\<lparr>users = [], mentorships = [?m\<lparr>status := ''on hold''\<rparr>], next_mid = 1\<rparr>"
  have w: "store_wf ?s" by (simp add: store_wf_def)
  have u: "update_mentorship ?s ''M'' 0 ''on hold'' = Inr (?m\<lparr>status := ''on hold''\<rparr>, ?s')"
    by (simp add: update_mentorship_def crud_update_mentorship_status_def
        crud_get_mentorship_def not_mentor_def)
  from update_then_get_roundtrip [OF w u] show ?thesis by simp
qed

text \<open>
  C12: the source accepts a request in which the caller names itself as mentor.
  The specification (sections 3 and 8) requires \<open>mentor_id \<noteq> mentee_id\<close> and a
  \<open>ValidationError\<close> for such a request; \<^verbatim>\<open>create_mentorship\<close> checks only that the
  mentor exists, so every existing user can create a mentorship with itself.
\<close>

theorem self_mentorship_accepted:
  assumes "u \<in> set (users s)"
  shows "\<exists>m s'. create_mentorship s (user_id u) (user_id u) focus now = Inr (m, s') \<and>
                mentor_id m = mentee_id m"
  using assms
  by (auto simp: create_mentorship_Inr_iff crud_create_mentorship_def Let_def)

theorem self_mentorship_accepted_witness:
  "\<exists>m s'. create_mentorship scenario_db ''M'' ''M'' ''Go'' 0 = Inr (m, s') \<and>
          mentor_id m = mentee_id m"
proof -
  have "user_M \<in> set (users scenario_db)" by (simp add: scenario_db_def)
  from self_mentorship_accepted [OF this, of "''Go''" 0] show ?thesis
    by (simp add: user_M_def)
qed

text \<open>
  Requesting a mentorship. \<^verbatim>\<open>create_mentorship\<close> raises 404 when the named
  mentor is no user; otherwise it appends exactly one row, with the next free id, the
  caller as mentee and status pending, and changes nothing else.
\<close>

theorem create_mentorship_outcome:
  "create_mentorship s cur mentor focus now =
     (if mentor \<in> user_id ` set (users s)
      then Inr (\<lparr>mid = next_mid s, mentor_id = mentor, mentee_id = cur, skill_focus = focus,
                 status = status_pending, created_at = now\<rparr>,
                s\<lparr>mentorships := mentorships s @ [\<lparr>mid = next_mid s, mentor_id = mentor,
                   mentee_id = cur, skill_focus = focus, status = status_pending,
                   created_at = now\<rparr>],
                  next_mid := Suc (next_mid s)\<rparr>)
      else raise 404 ''Mentor not found'')"
proof (cases "mentor \<in> user_id ` set (users s)")
  case True
  then show ?thesis
    by (simp add: create_mentorship_Inr_iff [THEN iffD2] crud_create_mentorship_def Let_def)
next
  case False
  then have "find (\<lambda>u. user_id u = mentor) (users s) = None"
    by (auto simp: find_None_iff')
  with False show ?thesis by (simp add: create_mentorship_def)
qed

text \<open>
  The list endpoints see a new request at once. After a successful
  \<^verbatim>\<open>create_mentorship\<close>, the mentor's \<^verbatim>\<open>GET mentees\<close> count grows by one and the
  caller's \<^verbatim>\<open>GET mentors\<close> list holds the new row; both envelopes report the length
  of their list.
\<close>

theorem create_then_lists:
  assumes "create_mentorship s cur mentor focus now = Inr (m, s')"
  shows "total_count (get_my_mentees s' mentor) = Suc (total_count (get_my_mentees s mentor)) \<and>
         m \<in> set (ml_mentorships (get_my_mentors s' cur)) \<and>
         total_count (get_my_mentors s' cur) = length (ml_mentorships (get_my_mentors s' cur))"
  using assms
  by (auto simp: create_mentorship_Inr_iff crud_create_mentorship_def Let_def
      get_my_mentees_def get_my_mentors_def crud_get_mentorships_for_user_def)

theorem create_then_lists_witness:
  "create_mentorship scenario_db ''A'' ''M'' ''Go'' 5 =
     Inr (\<lparr>mid = 0, mentor_id = ''M'', mentee_id = ''A'', skill_focus = ''Go'',
            status = status_pending, created_at = 5\<rparr>,
          scenario_db\<lparr>mentorships := [\<lparr>mid = 0, mentor_id = ''M'', mentee_id = ''A'',
            skill_focus = ''Go'', status = status_pending, created_at = 5\<rparr>], next_mid := 1\<rparr>) \<and>
   total_count (get_my_mentees (scenario_db\<lparr>mentorships := [\<lparr>mid = 0, mentor_id = ''M'',
     mentee_id = ''A'', skill_focus = ''Go'', status = status_pending, created_at = 5\<rparr>],
     next_mid := 1\<rparr>) ''M'') = 1"
proof -
  have c: "create_mentorship scenario_db ''A'' ''M'' ''Go'' 5 =
     Inr (\<lparr>mid = 0, mentor_id = ''M'', mentee_id = ''A'', skill_focus = ''Go'',
            status = status_pending, created_at = 5\<rparr>,
          scenario_db\<lparr>mentorships := [\<lparr>mid = 0, mentor_id = ''M'', mentee_id = ''A'',
            skill_focus = ''Go'', status = status_pending, created_at = 5\<rparr>], next_mid := 1\<rparr>)"
    by (simp add: create_mentorship_def crud_create_mentorship_def scenario_defs Let_def)
  have e: "total_count (get_my_mentees scenario_db ''M'') = 0"
    by (simp add: get_my_mentees_def crud_get_mentorships_for_user_def scenario_db_def)
  show ?thesis using c e create_then_lists [OF c] by simp
qed

end
