(* ===== verification/Mentor_Directory.thy ===== *)
theory Mentor_Directory
  imports Mentorship_Store
begin

text \<open>
  The Mentor Directory Resolver: the handler \<^verbatim>\<open>get_available_mentors\<close> of
  \<^verbatim>\<open>api/endpoints/mentorship.py\<close>. It asks the data-access layer for the users that
  have the requested skill, then runs a \<^verbatim>\<open>for\<close> loop that skips the caller and, for
  every other candidate, builds a \<^verbatim>\<open>MentorAvailableResponse\<close> with the candidate's
  skill names and the number of mentorship rows naming the candidate as mentor. The
  loop is the accumulator function \<open>available_loop\<close>; the \<^verbatim>\<open>Query(...)\<close> parameter
  is required, so a request without it is answered 422 by FastAPI before the body runs.
\<close>

record mentor_available =
  ma_id :: uid
  ma_full_name :: string
  ma_title :: "string option"
  ma_bio :: "string option"
  ma_avatar_url :: "string option"
  expertise_skills :: "string list"
  current_mentees_count :: nat

definition mentor_available_response :: "db \<Rightarrow> user \<Rightarrow> mentor_available" where
  "mentor_available_response s u =
     (let expertise = map skill_name (skills u);
          mentee_count = length (crud_get_mentorships_for_user s (user_id u) False)
      in \<lparr>ma_id = user_id u, ma_full_name = full_name u, ma_title = title u, ma_bio = bio u,
          ma_avatar_url = avatar_url u, expertise_skills = expertise,
          current_mentees_count = mentee_count\<rparr>)"

fun available_loop ::
  "db \<Rightarrow> uid \<Rightarrow> user list \<Rightarrow> mentor_available list \<Rightarrow> mentor_available list" where
  "available_loop s cur [] acc = acc"
| "available_loop s cur (u # us) acc =
     available_loop s cur us
       (if user_id u \<noteq> cur then acc @ [mentor_available_response s u] else acc)"

definition get_available_mentors ::
  "db \<Rightarrow> uid \<Rightarrow> string option \<Rightarrow> mentor_available list result" where
  "get_available_mentors s cur q =
     (case q of
        None \<Rightarrow> raise 422 ''Field required''
      | Some sk \<Rightarrow>
          (let mentors = crud_get_available_mentors s sk
           in Inr (available_loop s cur mentors [])))"

text \<open>The loop computes a filter followed by a map.\<close>

lemma available_loop_eq:
  "available_loop s cur us acc =
     acc @ map (mentor_available_response s) (filter (\<lambda>u. user_id u \<noteq> cur) us)"
  by (induction s cur us acc rule: available_loop.induct) auto

lemma get_available_mentors_Some:
  "get_available_mentors s cur (Some sk) =
     Inr (map (mentor_available_response s)
            (filter (\<lambda>u. user_id u \<noteq> cur) (crud_get_available_mentors s sk)))"
  by (simp add: get_available_mentors_def available_loop_eq)

lemma ma_id_response [simp]: "ma_id (mentor_available_response s u) = user_id u"
  by (simp add: mentor_available_response_def Let_def)

lemma count_response [simp]:
  "current_mentees_count (mentor_available_response s u) =
     length (filter (\<lambda>m. mentor_id m = user_id u) (mentorships s))"
  by (simp add: mentor_available_response_def crud_get_mentorships_for_user_def Let_def)

lemma expertise_response [simp]:
  "expertise_skills (mentor_available_response s u) = map skill_name (skills u)"
  by (simp add: mentor_available_response_def Let_def)

lemma mem_get_available_mentors:
  "get_available_mentors s cur (Some sk) = Inr rs \<Longrightarrow> r \<in> set rs \<Longrightarrow>
     \<exists>u\<in>set (users s). r = mentor_available_response s u \<and> user_id u \<noteq> cur \<and>
       list_ex (\<lambda>k. skill_name k = sk) (skills u)"
  by (auto simp: get_available_mentors_Some crud_get_available_mentors_def)

subsection \<open>Properties of the directory query\<close>

text \<open>
  C3: the directory never lists the caller, even when the caller has the requested
  skill.
\<close>

theorem available_mentors_exclude_requester:
  assumes "get_available_mentors s cur (Some sk) = Inr rs"
  shows "cur \<notin> ma_id ` set rs"
  using assms by (auto simp: get_available_mentors_Some)

theorem available_mentors_exclude_requester_witness:
  "get_available_mentors scenario_db ''M'' (Some ''Go'') = Inr [] \<and>
   ''M'' \<notin> ma_id ` set ([] :: mentor_available list)"
proof -
  have g: "get_available_mentors scenario_db ''M'' (Some ''Go'') = Inr []"
    by (simp add: get_available_mentors_def crud_get_available_mentors_def scenario_defs)
  show ?thesis using g available_mentors_exclude_requester [OF g] by simp
qed

text \<open>
  C4: every listed mentor has the requested skill among its expertise, and its
  \<open>current_mentees_count\<close> is the number of mentorship rows naming it as mentor,
  whatever their status (section 4.3, step 3).
\<close>

theorem available_mentors_count:
  assumes "get_available_mentors s cur (Some sk) = Inr rs" and "r \<in> set rs"
  shows "current_mentees_count r = length (filter (\<lambda>m. mentor_id m = ma_id r) (mentorships s)) \<and>
         sk \<in> set (expertise_skills r)"
  using mem_get_available_mentors [OF assms]
  by (auto simp: list_ex_iff)

theorem available_mentors_count_witness:
  "get_available_mentors
     (scenario_db\<lparr>mentorships := [\<lparr>mid = 0, mentor_id = ''M'', mentee_id = ''A'',
        skill_focus = ''Go'', status = ''cancelled'', created_at = 5\<rparr>], next_mid := 1\<rparr>)
     ''B'' (Some ''Go'') =
     Inr [\<lparr>ma_id = ''M'', ma_full_name = ''Mentor M'', ma_title = None, ma_bio = None,
           ma_avatar_url = None, expertise_skills = [''Go''], current_mentees_count = 1\<rparr>] \<and>
   current_mentees_count \<lparr>ma_id = ''M'', ma_full_name = ''Mentor M'', ma_title = None,
     ma_bio = None, ma_avatar_url = None, expertise_skills = [''Go''], current_mentees_count = 1\<rparr>
   = length (filter (\<lambda>m. mentor_id m = ''M'') [\<lparr>mid = 0, mentor_id = ''M'', mentee_id = ''A'',
        skill_focus = ''Go'', status = ''cancelled'', created_at = 5::nat\<rparr>])"
proof -
  let ?s = "scenario_db\<lparr>mentorships := [\<lparr>mid = 0, mentor_id = ''M'', mentee_id = ''A'',
        skill_focus = ''Go'', status = ''cancelled'', created_at = 5\<rparr>], next_mid := 1\<rparr>"
  let ?r = "\<lparr>ma_id = ''M'', ma_full_name = ''Mentor M'', ma_title = None, ma_bio = None,
           ma_avatar_url = None, expertise_skills = [''Go''], current_mentees_count = 1\<rparr>"
  have g: "get_available_mentors ?s ''B'' (Some ''Go'') = Inr [?r]"
    by (simp add: get_available_mentors_def crud_get_available_mentors_def scenario_defs
        mentor_available_response_def crud_get_mentorships_for_user_def)
  show ?thesis using g available_mentors_count [OF g, of ?r]
    by (simp add: scenario_db_def)
qed

text \<open>
  C13: the directory query against its reference. The handler's loop returns, in the
  order of the users table, one summary for each user other than the caller who has
  a skill named exactly as requested (case-sensitive, no fuzzy match); without the
  \<open>skill_focus\<close> parameter the request is refused with 422.
\<close>

theorem get_available_mentors_reference:
  "get_available_mentors s cur q =
     (case q of
        None \<Rightarrow> raise 422 ''Field required''
      | Some sk \<Rightarrow> Inr (map (mentor_available_response s)
          (filter (\<lambda>u. user_id u \<noteq> cur \<and> (\<exists>k\<in>set (skills u). skill_name k = sk)) (users s))))"
  by (cases q)
     (simp_all add: get_available_mentors_def available_loop_eq
      crud_get_available_mentors_def list_ex_iff conj_commute)

end
