(* ===== verification/Mentorship_System.thy ===== *)
theory Mentorship_System
  imports Mentorship_Lifecycle Mentor_Directory
begin

text \<open>
  The mentorship router as a whole: the seven routes of
  \<^verbatim>\<open>api/endpoints/mentorship.py\<close> as a datatype of requests and one function
  \<open>handle\<close> that dispatches a request of a caller to its handler. A run of the system
  is any sequence of requests by any callers; the reachable databases are those a run
  produces from an empty mentorship table over a fixed users table (users are owned by
  another part of the backend and never written here). A failed request raises and
  leaves the database as it was, so only successful requests are steps.
  \<open>handle_checked\<close> is the same router with the hardened status update of
  \<open>Mentorship_Lifecycle\<close>; its requests are a subset of the source's, so its reachable
  databases are reachable by the source too.
\<close>

datatype request =
    GetMentees
  | GetMentors
  | AvailableMentors "string option"
  | CreateMentorship uid string
  | GetMentorship rid
  | UpdateMentorship rid string
  | CancelMentorship rid

datatype response =
    ListResponse mentorship_list
  | MentorsResponse "mentor_available list"
  | MentorshipResponse mentorship
  | NoContent

fun handle :: "db \<Rightarrow> uid \<Rightarrow> nat \<Rightarrow> request \<Rightarrow> (response \<times> db) result" where
  "handle s cur now GetMentees = Inr (ListResponse (get_my_mentees s cur), s)"
| "handle s cur now GetMentors = Inr (ListResponse (get_my_mentors s cur), s)"
| "handle s cur now (AvailableMentors q) =
     (case get_available_mentors s cur q of
        Inl e \<Rightarrow> Inl e
      | Inr rs \<Rightarrow> Inr (MentorsResponse rs, s))"
| "handle s cur now (CreateMentorship mentor focus) =
     (case create_mentorship s cur mentor focus now of
        Inl e \<Rightarrow> Inl e
      | Inr (m, s') \<Rightarrow> Inr (MentorshipResponse m, s'))"
| "handle s cur now (GetMentorship i) =
     (case get_mentorship s cur i of
        Inl e \<Rightarrow> Inl e
      | Inr m \<Rightarrow> Inr (MentorshipResponse m, s))"
| "handle s cur now (UpdateMentorship i st) =
     (case update_mentorship s cur i st of
        Inl e \<Rightarrow> Inl e
      | Inr (m, s') \<Rightarrow> Inr (MentorshipResponse m, s'))"
| "handle s cur now (CancelMentorship i) =
     (case cancel_mentorship s cur i of
        Inl e \<Rightarrow> Inl e
      | Inr s' \<Rightarrow> Inr (NoContent, s'))"

fun handle_checked :: "db \<Rightarrow> uid \<Rightarrow> nat \<Rightarrow> request \<Rightarrow> (response \<times> db) result" where
  "handle_checked s cur now (UpdateMentorship i st) =
     (case parse_status st of
        None \<Rightarrow> raise 422 ''Invalid transition''
      | Some t \<Rightarrow>
          (case update_status_checked s cur i t of
             Inl e \<Rightarrow> Inl e
           | Inr (m, s') \<Rightarrow> Inr (MentorshipResponse m, s')))"
| "handle_checked s cur now req = handle s cur now req"

definition empty_db :: "user list \<Rightarrow> db" where
  "empty_db us = \<lparr>users = us, mentorships = [], next_mid = 0\<rparr>"

inductive reachable :: "user list \<Rightarrow> db \<Rightarrow> bool" for us where
  init: "reachable us (empty_db us)"
| step: "reachable us s \<Longrightarrow> handle s cur now req = Inr (r, s') \<Longrightarrow> reachable us s'"

inductive reachable_checked :: "user list \<Rightarrow> db \<Rightarrow> bool" for us where
  init: "reachable_checked us (empty_db us)"
| step: "reachable_checked us s \<Longrightarrow> handle_checked s cur now req = Inr (r, s') \<Longrightarrow>
           reachable_checked us s'"

text \<open>The system invariant: a well-formed store whose rows all name an existing mentor.\<close>

definition sys_inv :: "user list \<Rightarrow> db \<Rightarrow> bool" where
  "sys_inv us s \<longleftrightarrow> store_wf s \<and> users s = us \<and>
     list_all (\<lambda>m. mentor_id m \<in> set (map user_id us)) (mentorships s)"

definition statuses_valid :: "db \<Rightarrow> bool" where
  "statuses_valid s \<longleftrightarrow> list_all (\<lambda>m. parse_status (status m) \<noteq> None) (mentorships s)"

text \<open>
  A sequence of requests, each by its caller at its time, run in order: a request that
  raises contributes its exception to the responses and leaves the database as it was.
\<close>

fun run :: "db \<Rightarrow> (uid \<times> nat \<times> request) list \<Rightarrow> (response result) list \<times> db" where
  "run s [] = ([], s)"
| "run s ((cur, now, req) # rs) =
     (case handle s cur now req of
        Inl e \<Rightarrow> (let (os, s'') = run s rs in (Inl e # os, s''))
      | Inr (r, s') \<Rightarrow> (let (os, s'') = run s' rs in (Inr r # os, s'')))"

fun_cases handle_InrE: "handle s cur now req = Inr (r, s')"

subsection \<open>The effect of one request on the database\<close>

lemma handle_effect:
  assumes "handle s cur now req = Inr (r, s')"
  shows "s' = s \<or>
    (\<exists>mentor f. mentor \<in> user_id ` set (users s) \<and>
        s' = snd (crud_create_mentorship s mentor cur f now)) \<or>
    (\<exists>m i st. req = UpdateMentorship i st \<and> crud_get_mentorship s i = Some m \<and>
        mentor_id m = cur \<and> s' = snd (crud_update_mentorship_status s i st)) \<or>
    (\<exists>m i. crud_get_mentorship s i = Some m \<and> authorize m cur Cancel \<and>
        s' = crud_delete_mentorship s i)"
  using assms
proof (cases req)
  case (CreateMentorship mentor f)
  with assms obtain m where "create_mentorship s cur mentor f now = Inr (m, s')"
    by (auto split: sum.splits prod.splits)
  then have "mentor \<in> user_id ` set (users s) \<and>
      s' = snd (crud_create_mentorship s mentor cur f now)"
    by (auto simp: create_mentorship_Inr_iff dest: sym [THEN arg_cong [where f = snd]])
  then show ?thesis by blast
next
  case (UpdateMentorship i st)
  with assms show ?thesis
    by (auto simp: update_mentorship_Inr_iff split: sum.splits prod.splits)
next
  case (CancelMentorship i)
  with assms show ?thesis
    by (auto simp: cancel_mentorship_Inr_iff split: sum.splits)
qed (auto split: sum.splits)

lemma handle_checked_is_handle:
  assumes h: "handle_checked s cur now req = Inr (r, s')"
  shows "\<exists>req'. handle s cur now req' = Inr (r, s')"
proof (cases req)
  case (UpdateMentorship i st)
  with h obtain t m where
    "update_status_checked s cur i t = Inr (m, s')" "r = MentorshipResponse m"
    by (auto split: option.splits sum.splits prod.splits)
  then have "handle s cur now (UpdateMentorship i (status_string t)) = Inr (r, s')"
    by (auto dest!: update_status_checked_Inr)
  then show ?thesis by blast
qed (insert h, auto intro!: exI [of _ req])

lemma store_ids_unique:
  "store_wf s \<Longrightarrow> x \<in> set (mentorships s) \<Longrightarrow> y \<in> set (mentorships s) \<Longrightarrow>
     mid x = mid y \<Longrightarrow> x = y"
  unfolding store_wf_def by (auto dest: inj_onD simp: distinct_map)

lemma sys_inv_empty: "sys_inv us (empty_db us)"
  by (simp add: sys_inv_def empty_db_def store_wf_def)

lemma sys_inv_step:
  assumes "sys_inv us s" and "handle s cur now req = Inr (r, s')"
  shows "sys_inv us s'"
  using handle_effect [OF assms(2)]
proof (elim disjE exE conjE)
  assume "s' = s" with assms(1) show ?thesis by simp
next
  fix mentor f
  assume u: "mentor \<in> user_id ` set (users s)"
    and s': "s' = snd (crud_create_mentorship s mentor cur f now)"
  from assms(1) s' have "store_wf s'" by (simp add: sys_inv_def store_wf_create)
  with assms(1) u s' show ?thesis
    by (auto simp: sys_inv_def crud_create_mentorship_def Let_def)
next
  fix m i st
  assume s': "s' = snd (crud_update_mentorship_status s i st)"
  from assms(1) s' have "store_wf s'" by (simp add: sys_inv_def store_wf_update)
  with assms(1) s' show ?thesis
    by (auto simp: sys_inv_def store_wf_update crud_update_mentorship_status_def list_all_iff
        split: option.splits)
next
  fix m i
  assume s': "s' = crud_delete_mentorship s i"
  from assms(1) s' have "store_wf s'" by (simp add: sys_inv_def store_wf_delete)
  with assms(1) s' show ?thesis
    by (auto simp: sys_inv_def store_wf_delete crud_delete_mentorship_def list_all_iff)
qed

lemma reachable_run: "reachable us s \<Longrightarrow> reachable us (snd (run s rs))"
proof (induction rs arbitrary: s)
  case (Cons x rs)
  obtain cur now req where x: "x = (cur, now, req)" by (cases x)
  show ?case
  proof (cases "handle s cur now req")
    case (Inl e)
    with Cons x show ?thesis by (simp add: split_def Let_def)
  next
    case (Inr p)
    obtain r s' where "p = (r, s')" by (cases p)
    with Inr Cons.prems have "reachable us s'" by (blast intro: reachable.step)
    with Inr \<open>p = (r, s')\<close> Cons.IH x show ?thesis by (simp add: split_def Let_def)
  qed
qed simp

lemma reachable_sys_inv: "reachable us s \<Longrightarrow> sys_inv us s"
  by (induction rule: reachable.induct) (auto intro: sys_inv_empty sys_inv_step)

lemma reachable_checked_step_valid:
  assumes "statuses_valid s" and "handle_checked s cur now req = Inr (r, s')"
  shows "statuses_valid s'"
proof -
  from assms(2) obtain req' where h: "handle s cur now req' = Inr (r, s')"
    by (blast dest: handle_checked_is_handle)
  show ?thesis
  proof (cases "\<exists>i st. req = UpdateMentorship i st")
    case True
    then obtain i st where req: "req = UpdateMentorship i st" by blast
    with assms(2) obtain t m where
      u: "update_status_checked s cur i t = Inr (m, s')"
      by (auto split: option.splits sum.splits prod.splits)
    then have "s' = snd (crud_update_mentorship_status s i (status_string t))"
      by (auto dest!: update_status_checked_Inr simp: update_mentorship_Inr_iff)
    with assms(1) show ?thesis
      by (auto simp: statuses_valid_def crud_update_mentorship_status_def list_all_iff
          split: option.splits)
  next
    case False
    then have "handle s cur now req = Inr (r, s')"
      using assms(2) by (cases req) auto
    from handle_effect [OF this] False assms(1) show ?thesis
      by (elim disjE exE conjE)
         (auto simp: statuses_valid_def crud_create_mentorship_def Let_def list_all_iff
           crud_delete_mentorship_def)
  qed
qed

text \<open>What one request does to one row that existed before it.\<close>

lemma handle_row_cases:
  assumes wf: "store_wf s" and h: "handle s cur now req = Inr (r, s')"
    and m: "m \<in> set (mentorships s)" and m': "m' \<in> set (mentorships s')"
    and eq: "mid m' = mid m"
  shows "m' = m \<or>
    (\<exists>st. req = UpdateMentorship (mid m) st \<and> mentor_id m = cur \<and> m' = m\<lparr>status := st\<rparr>)"
  using handle_effect [OF h]
proof (elim disjE exE conjE)
  assume "s' = s"
  with wf m m' eq show ?thesis by (auto intro: store_ids_unique)
next
  fix mentor f
  assume s': "s' = snd (crud_create_mentorship s mentor cur f now)"
  from wf m have "mid m < next_mid s" by (auto simp: store_wf_def list_all_iff)
  with s' m' eq have "m' \<in> set (mentorships s)"
    by (auto simp: crud_create_mentorship_def Let_def)
  with wf m eq show ?thesis by (auto intro: store_ids_unique)
next
  fix m0 i st
  assume req: "req = UpdateMentorship i st" and g: "crud_get_mentorship s i = Some m0"
    and c: "mentor_id m0 = cur" and s': "s' = snd (crud_update_mentorship_status s i st)"
  from s' m' g obtain x where x: "x \<in> set (mentorships s)"
    and x': "m' = (if mid x = i then x\<lparr>status := st\<rparr> else x)"
    by (auto simp: crud_update_mentorship_status_def)
  from x' eq have "mid x = mid m" by (simp split: if_splits)
  with wf x m have xm: "x = m" by (rule store_ids_unique)
  show ?thesis
  proof (cases "mid m = i")
    case True
    with g wf m have "m0 = m"
      using crud_get_mentorship_row by fastforce
    with True req c x' xm show ?thesis by auto
  next
    case False
    with x' xm show ?thesis by simp
  qed
next
  fix m0 i
  assume "s' = crud_delete_mentorship s i"
  with m' have "m' \<in> set (mentorships s)" by (auto simp: crud_delete_mentorship_def)
  with wf m eq show ?thesis by (auto intro: store_ids_unique)
qed

lemma checked_update_terminal_row:
  assumes u: "update_status_checked s cur i t = Inr (r0, s')" and wf: "store_wf s"
    and m: "m \<in> set (mentorships s)" and a: "parse_status (status m) = Some a"
    and tm: "terminal a"
    and m': "m' \<in> set (mentorships s')" and eq: "mid m' = mid m"
  shows "m' = m"
proof -
  from update_status_checked_Inr [OF u] obtain m0 a0 where
    g: "crud_get_mentorship s i = Some m0" and a0: "parse_status (status m0) = Some a0"
    and st: "lifecycle_step a0 t" and h0: "update_mentorship s cur i (status_string t) = Inr (r0, s')"
    by blast
  from h0 have h: "handle s cur now (UpdateMentorship i (status_string t)) =
      Inr (MentorshipResponse r0, s')" by simp
  from handle_row_cases [OF wf h m m' eq] show ?thesis
  proof
    assume "\<exists>st. UpdateMentorship i (status_string t) = UpdateMentorship (mid m) st \<and>
      mentor_id m = cur \<and> m' = m\<lparr>status := st\<rparr>"
    then have "i = mid m" by auto
    with g wf m have "m0 = m" using crud_get_mentorship_row by fastforce
    with a a0 st tm show ?thesis by (auto simp: terminal_no_step)
  qed
qed

subsection \<open>Properties of the whole router\<close>

lemma reachable_checked_inv:
  assumes "reachable_checked us s"
  shows "reachable us s \<and> statuses_valid s"
  using assms
proof (induction rule: reachable_checked.induct)
  case init
  have "statuses_valid (empty_db us)" by (simp add: statuses_valid_def empty_db_def)
  with reachable.init show ?case ..
next
  case (step s cur now req r s')
  from handle_checked_is_handle [OF step.hyps(2)] obtain req' where
    "handle s cur now req' = Inr (r, s')" by blast
  with step.IH have "reachable us s'" by (blast intro: reachable.step)
  moreover from step.IH step.hyps(2) have "statuses_valid s'"
    by (blast intro: reachable_checked_step_valid)
  ultimately show ?case ..
qed

text \<open>
  C8: the system invariant. In every database reachable from an empty mentorship
  table by any sequence of requests, row ids are unique and below the id counter, the
  users table is the initial one, and every row names an existing user as mentor.
\<close>

theorem reachable_invariant:
  assumes "reachable us s"
  shows "store_wf s \<and> users s = us \<and> (\<forall>m\<in>set (mentorships s). mentor_id m \<in> user_id ` set us)"
  using reachable_sys_inv [OF assms] by (auto simp: sys_inv_def list_all_iff)

theorem reachable_invariant_witness:
  "store_wf \<lparr>users = [user_M, user_A], mentorships = [\<lparr>mid = 0, mentor_id = ''M'',
      mentee_id = ''A'', skill_focus = ''Go'', status = status_pending, created_at = 1\<rparr>],
      next_mid = 1\<rparr> \<and>
   ''M'' \<in> user_id ` set [user_M, user_A]"
proof -
  let ?us = "[user_M, user_A]"
  let ?m = "\<lparr>mid = 0, mentor_id = ''M'', mentee_id = ''A'', skill_focus = ''Go'',
              status = status_pending, created_at = 1::nat\<rparr>"
  let ?s1 = "\<lparr>users = ?us, mentorships = [?m], next_mid = 1\<rparr>"
  have h1: "handle (empty_db ?us) ''A'' 1 (CreateMentorship ''M'' ''Go'') =
      Inr (MentorshipResponse ?m, ?s1)"
    by (simp add: create_mentorship_def crud_create_mentorship_def empty_db_def user_M_def Let_def)
  have "reachable ?us ?s1" using reachable.step [OF reachable.init h1] .
  from reachable_invariant [OF this] show ?thesis by simp
qed

text \<open>
  C9: rows are immutable but for their status, and only the mentor moves it. For any
  request by any caller on a well-formed store, a row that exists before and after the
  request keeps its mentor, mentee, skill focus and creation time; if its status
  changed, the caller was the row's mentor.
\<close>

theorem handle_row_frame:
  assumes "store_wf s" and "handle s cur now req = Inr (r, s')"
    and "m \<in> set (mentorships s)" and "m' \<in> set (mentorships s')" and "mid m' = mid m"
  shows "m' = m\<lparr>status := status m'\<rparr> \<and> (status m' \<noteq> status m \<longrightarrow> cur = mentor_id m)"
  using handle_row_cases [OF assms] by auto

theorem handle_row_frame_witness:
  "\<lparr>mid = 0, mentor_id = ''M'', mentee_id = ''A'', skill_focus = ''Go'',
      status = ''accepted'', created_at = 1::nat\<rparr> =
   \<lparr>mid = 0, mentor_id = ''M'', mentee_id = ''A'', skill_focus = ''Go'',
      status = ''pending'', created_at = 1::nat\<rparr>\<lparr>status := ''accepted''\<rparr> \<and>
   ''M'' = mentor_id \<lparr>mid = 0, mentor_id = ''M'',
      mentee_id = ''A'', skill_focus = ''Go'', status = ''pending'', created_at = 1::nat\<rparr>"
proof -
  let ?m = "\<lparr>mid = 0, mentor_id = ''M'', mentee_id = ''A'', skill_focus = ''Go'',
              status = ''pending'', created_at = 1::nat\<rparr>"
  let ?m' = "?m\<lparr>status := ''accepted''\<rparr>"
  let ?s = "\<lparr>users = [], mentorships = [?m], next_mid = 1\<rparr>"
  have wf: "store_wf ?s" by (simp add: store_wf_def)
  have h: "handle ?s ''M'' 2 (UpdateMentorship 0 ''accepted'') =
      Inr (MentorshipResponse ?m', ?s\<lparr>mentorships := [?m']\<rparr>)"
    by (simp add: update_mentorship_def crud_update_mentorship_status_def
        crud_get_mentorship_def not_mentor_def)
  from handle_row_frame [OF wf h, of ?m ?m'] show ?thesis by simp
qed

text \<open>
  C14: under the hardened router a row in a terminal status (declined, completed,
  cancelled) never changes: after any successful request, the row with its id, if
  still present, is the same row.
\<close>

theorem checked_terminal_stable:
  assumes wf: "store_wf s" and h: "handle_checked s cur now req = Inr (r, s')"
    and m: "m \<in> set (mentorships s)" and a: "parse_status (status m) = Some a"
    and tm: "terminal a"
    and m': "m' \<in> set (mentorships s')" and eq: "mid m' = mid m"
  shows "m' = m"
proof (cases "\<exists>i st. req = UpdateMentorship i st")
  case True
  then obtain i st where "req = UpdateMentorship i st" by blast
  with h obtain t r0 where "update_status_checked s cur i t = Inr (r0, s')"
    by (auto split: option.splits sum.splits prod.splits)
  from checked_update_terminal_row [OF this wf m a tm m' eq] show ?thesis .
next
  case False
  then have "handle s cur now req = Inr (r, s')"
    using h by (cases req) auto
  from handle_row_cases [OF wf this m m' eq] False show ?thesis by auto
qed

theorem checked_terminal_stable_witness:
  "handle_checked
     \<lparr>users = [], mentorships =
        [\<lparr>mid = 0, mentor_id = ''M'', mentee_id = ''A'', skill_focus = ''Go'',
           status = ''completed'', created_at = 1::nat\<rparr>,
         \<lparr>mid = 1, mentor_id = ''M'', mentee_id = ''B'', skill_focus = ''Go'',
           status = ''pending'', created_at = 2\<rparr>], next_mid = 2\<rparr>
     ''M'' 3 (UpdateMentorship 1 ''accepted'') =
     Inr (MentorshipResponse
            \<lparr>mid = 1, mentor_id = ''M'', mentee_id = ''B'', skill_focus = ''Go'',
             status = ''accepted'', created_at = 2\<rparr>,
          \<lparr>users = [], mentorships =
             [\<lparr>mid = 0, mentor_id = ''M'', mentee_id = ''A'', skill_focus = ''Go'',
                status = ''completed'', created_at = 1\<rparr>,
              \<lparr>mid = 1, mentor_id = ''M'', mentee_id = ''B'', skill_focus = ''Go'',
                status = ''accepted'', created_at = 2\<rparr>], next_mid = 2\<rparr>) \<and>
   find (\<lambda>m'. mid m' = 0)
     [\<lparr>mid = 0, mentor_id = ''M'', mentee_id = ''A'', skill_focus = ''Go'',
        status = ''completed'', created_at = 1::nat\<rparr>,
      \<lparr>mid = 1, mentor_id = ''M'', mentee_id = ''B'', skill_focus = ''Go'',
        status = ''accepted'', created_at = 2\<rparr>] =
   Some \<lparr>mid = 0, mentor_id = ''M'', mentee_id = ''A'', skill_focus = ''Go'',
          status = ''completed'', created_at = 1\<rparr>"
proof -
  let ?m0 = "\<lparr>mid = 0, mentor_id = ''M'', mentee_id = ''A'', skill_focus = ''Go'',
              status = ''completed'', created_at = 1::nat\<rparr>"
  let ?m1 = "\<lparr>mid = 1, mentor_id = ''M'', mentee_id = ''B'', skill_focus = ''Go'',
              status = ''pending'', created_at = 2::nat\<rparr>"
  let ?m1' = "?m1\<lparr>status := ''accepted''\<rparr>"
  let ?s = "\<lparr>users = [], mentorships = [?m0, ?m1], next_mid = 2\<rparr>"
  let ?s' = "\<lparr>users = [], mentorships = [?m0, ?m1'], next_mid = 2\<rparr>"
  have wf: "store_wf ?s" by (simp add: store_wf_def)
  have h: "handle_checked ?s ''M'' 3 (UpdateMentorship 1 ''accepted'') =
      Inr (MentorshipResponse ?m1', ?s')"
    by (simp add: update_status_checked_def update_mentorship_def crud_update_mentorship_status_def
        crud_get_mentorship_def not_mentor_def parse_status_def)
  have a: "parse_status (status ?m0) = Some Completed" by (simp add: parse_status_def)
  have tm: "terminal Completed" by (simp add: terminal_def)
  have "m' = ?m0" if "m' \<in> set [?m0, ?m1']" "mid m' = 0" for m'
    using checked_terminal_stable [OF wf h _ a tm, of m'] that by simp
  then have "find (\<lambda>m'. mid m' = 0) [?m0, ?m1'] = Some ?m0" by simp
  with h show ?thesis by simp
qed

text \<open>
  C30: progress of the lifecycle under the hardened router. In every database it
  reaches, every mentorship has a lifecycle status, and a mentorship that is not
  finished can be finished: its mentor moves it to a terminal status in one request
  the router accepts (declined from pending, completed from accepted), and its mentee
  can always cancel it, after which it is gone.
\<close>

theorem lifecycle_progress:
  assumes r: "reachable_checked us s" and m: "m \<in> set (mentorships s)"
  shows "(\<exists>a. parse_status (status m) = Some a \<and>
           (terminal a \<or>
            (\<exists>t s'. terminal t \<and>
               handle_checked s (mentor_id m) now (UpdateMentorship (mid m) (status_string t)) =
                 Inr (MentorshipResponse (m\<lparr>status := status_string t\<rparr>), s')))) \<and>
         (\<exists>s'. handle_checked s (mentee_id m) now (CancelMentorship (mid m)) = Inr (NoContent, s') \<and>
              crud_get_mentorship s' (mid m) = None)"
proof -
  from reachable_checked_inv [OF r] have "reachable us s" and v: "statuses_valid s" by auto
  then have wf: "store_wf s" by (auto dest: reachable_sys_inv simp: sys_inv_def)
  have g: "crud_get_mentorship s (mid m) = Some m" by (rule crud_get_mentorship_row [OF wf m])
  from v m obtain a where a: "parse_status (status m) = Some a"
    by (auto simp: statuses_valid_def list_all_iff)
  have upd: "handle_checked s (mentor_id m) now (UpdateMentorship (mid m) (status_string t)) =
      Inr (MentorshipResponse (m\<lparr>status := status_string t\<rparr>),
           snd (crud_update_mentorship_status s (mid m) (status_string t)))"
    if "lifecycle_step a t" for t
  proof -
    have "update_mentorship s (mentor_id m) (mid m) (status_string t) =
        Inr (m\<lparr>status := status_string t\<rparr>, snd (crud_update_mentorship_status s (mid m) (status_string t)))"
      using g by (simp add: update_mentorship_Inr_iff)
    then show ?thesis
      using g a that by (simp add: update_status_checked_def allowed_transition_iff)
  qed
  have "terminal a \<or> (\<exists>t. terminal t \<and> lifecycle_step a t)"
    by (cases a) (auto simp: terminal_def intro: lifecycle_step.intros)
  then have fin: "terminal a \<or>
      (\<exists>t s'. terminal t \<and>
         handle_checked s (mentor_id m) now (UpdateMentorship (mid m) (status_string t)) =
           Inr (MentorshipResponse (m\<lparr>status := status_string t\<rparr>), s'))"
    using upd by blast
  have "cancel_mentorship s (mentee_id m) (mid m) = Inr (crud_delete_mentorship s (mid m))"
    using g by (simp add: cancel_mentorship_Inr_iff)
  then have "handle_checked s (mentee_id m) now (CancelMentorship (mid m)) =
      Inr (NoContent, crud_delete_mentorship s (mid m))" by simp
  with crud_get_after_delete [of s "mid m"] fin a show ?thesis by blast
qed

theorem lifecycle_progress_witness:
  "handle_checked \<lparr>users = [user_M, user_A], mentorships = [\<lparr>mid = 0, mentor_id = ''M'',
      mentee_id = ''A'', skill_focus = ''Go'', status = status_pending, created_at = 1\<rparr>],
      next_mid = 1\<rparr> ''A'' 2 (CancelMentorship 0) =
     Inr (NoContent, \<lparr>users = [user_M, user_A], mentorships = [], next_mid = 1\<rparr>) \<and>
   (\<exists>t s'. terminal t \<and>
      handle_checked \<lparr>users = [user_M, user_A], mentorships = [\<lparr>mid = 0, mentor_id = ''M'',
        mentee_id = ''A'', skill_focus = ''Go'', status = status_pending, created_at = 1\<rparr>],
        next_mid = 1\<rparr> ''M'' 2 (UpdateMentorship 0 (status_string t)) =
      Inr (MentorshipResponse \<lparr>mid = 0, mentor_id = ''M'', mentee_id = ''A'', skill_focus = ''Go'',
        status = status_string t, created_at = 1\<rparr>, s'))"
proof -
  let ?us = "[user_M, user_A]"
  let ?m = "\<lparr>mid = 0, mentor_id = ''M'', mentee_id = ''A'', skill_focus = ''Go'',
              status = status_pending, created_at = 1::nat\<rparr>"
  let ?s1 = "\<lparr>users = ?us, mentorships = [?m], next_mid = 1\<rparr>"
  have h1: "handle_checked (empty_db ?us) ''A'' 1 (CreateMentorship ''M'' ''Go'') =
      Inr (MentorshipResponse ?m, ?s1)"
    by (simp add: create_mentorship_def crud_create_mentorship_def empty_db_def user_M_def Let_def)
  have r: "reachable_checked ?us ?s1" using reachable_checked.step [OF reachable_checked.init h1] .
  from lifecycle_progress [OF r, of ?m 2] have
    "\<exists>s'. handle_checked ?s1 ''A'' 2 (CancelMentorship 0) = Inr (NoContent, s')"
    "parse_status (status ?m) = Some Pending \<Longrightarrow>
       \<exists>t s'. terminal t \<and> handle_checked ?s1 ''M'' 2 (UpdateMentorship 0 (status_string t)) =
         Inr (MentorshipResponse (?m\<lparr>status := status_string t\<rparr>), s')"
    by (auto simp: terminal_def)
  moreover have "parse_status (status ?m) = Some Pending" by simp
  moreover have "handle_checked ?s1 ''A'' 2 (CancelMentorship 0) =
      Inr (NoContent, \<lparr>users = ?us, mentorships = [], next_mid = 1\<rparr>)"
    by (simp add: cancel_mentorship_def crud_get_mentorship_def crud_delete_mentorship_def
        not_participant_def)
  ultimately show ?thesis by simp
qed

end
