(* ===== verification/User_Settings.thy ===== *)
theory User_Settings
  imports Prelude
begin

text \<open>
  The settings router (\<^verbatim>\<open>api/endpoints/settings.py\<close>) and the user schemas it and the
  profile endpoints use (\<^verbatim>\<open>schemas/user.py\<close>). The schemas are Pydantic models:
  records here, with their defaults as definitions, and the constraint
  \<^verbatim>\<open>Field(ge=1, le=10)\<close> of \<^verbatim>\<open>Skill.level\<close> as a validating constructor that
  answers 422 as FastAPI does. The four settings handlers keep no state: reading
  returns the defaults, the two updates echo their input, and the password change
  answers success without looking at the passwords.
\<close>

record skill_schema =
  sk_id :: string
  sk_name :: string
  sk_level :: int
  sk_category :: string

definition validate_skill :: "string \<Rightarrow> string \<Rightarrow> int \<Rightarrow> string \<Rightarrow> skill_schema result" where
  "validate_skill i n lvl c =
     (if 1 \<le> lvl \<and> lvl \<le> 10
      then Inr \<lparr>sk_id = i, sk_name = n, sk_level = lvl, sk_category = c\<rparr>
      else raise 422 ''Validation error'')"

text \<open>
  \<^verbatim>\<open>UserBase\<close> and the models deriving from it, as extensible records. Their
  validating constructors take each field as Pydantic finds it in the input: a
  required field that is absent answers 422, an absent optional field takes its
  default, and every skill of a profile is validated as a \<^verbatim>\<open>Skill\<close>.
\<close>

record user_base =
  ub_email :: string
  ub_full_name :: string
  ub_title :: "string option"

record user_profile = user_base +
  up_id :: string
  up_skills :: "skill_schema list"
  is_partial_data :: bool
  details :: "string option"

record user_create = user_base +
  password :: string

record user_update =
  uu_full_name :: "string option"
  uu_title :: "string option"
  uu_skills :: "string list option"

definition validate_user_base ::
  "string option \<Rightarrow> string option \<Rightarrow> string option \<Rightarrow> user_base result" where
  "validate_user_base email full_name title =
     (case (email, full_name) of
        (Some e, Some n) \<Rightarrow> Inr \<lparr>ub_email = e, ub_full_name = n, ub_title = title\<rparr>
      | _ \<Rightarrow> raise 422 ''Validation error'')"

fun validate_skills :: "(string \<times> string \<times> int \<times> string) list \<Rightarrow> skill_schema list result" where
  "validate_skills [] = Inr []"
| "validate_skills ((i, n, lvl, c) # ss) =
     (case validate_skill i n lvl c of
        Inl x \<Rightarrow> Inl x
      | Inr k \<Rightarrow> (case validate_skills ss of Inl x \<Rightarrow> Inl x | Inr ks \<Rightarrow> Inr (k # ks)))"

definition validate_user_profile ::
  "string option \<Rightarrow> string option \<Rightarrow> string option \<Rightarrow> string option \<Rightarrow>
     (string \<times> string \<times> int \<times> string) list option \<Rightarrow> bool option \<Rightarrow> string option \<Rightarrow>
     user_profile result" where
  "validate_user_profile email full_name title uid skills_in partial details_in =
     (case (validate_user_base email full_name title, uid) of
        (Inr b, Some i) \<Rightarrow>
          (case validate_skills (case skills_in of None \<Rightarrow> [] | Some ss \<Rightarrow> ss) of
             Inl x \<Rightarrow> Inl x
           | Inr ks \<Rightarrow>
               Inr \<lparr>ub_email = ub_email b, ub_full_name = ub_full_name b, ub_title = ub_title b,
                    up_id = i, up_skills = ks,
                    is_partial_data = (case partial of None \<Rightarrow> False | Some f \<Rightarrow> f),
                    details = details_in\<rparr>)
      | (Inl x, _) \<Rightarrow> Inl x
      | _ \<Rightarrow> raise 422 ''Validation error'')"

definition validate_user_create ::
  "string option \<Rightarrow> string option \<Rightarrow> string option \<Rightarrow> string option \<Rightarrow> user_create result" where
  "validate_user_create email full_name title pw =
     (case (validate_user_base email full_name title, pw) of
        (Inr b, Some q) \<Rightarrow>
          Inr \<lparr>ub_email = ub_email b, ub_full_name = ub_full_name b, ub_title = ub_title b,
               password = q\<rparr>
      | (Inl x, _) \<Rightarrow> Inl x
      | _ \<Rightarrow> raise 422 ''Validation error'')"

record notification_settings =
  email_achievements :: bool
  email_mentorship :: bool
  email_courses :: bool
  email_connections :: bool
  push_enabled :: bool

record privacy_settings =
  profile_public :: bool
  show_achievements :: bool
  show_projects :: bool
  show_skills :: bool

record user_settings_response =
  us_notifications :: notification_settings
  us_privacy :: privacy_settings

definition default_notification_settings :: notification_settings where
  "default_notification_settings =
     \<lparr>email_achievements = True, email_mentorship = True, email_courses = True,
      email_connections = True, push_enabled = True\<rparr>"

definition default_privacy_settings :: privacy_settings where
  "default_privacy_settings =
     \<lparr>profile_public = True, show_achievements = True, show_projects = True, show_skills = True\<rparr>"

definition get_user_settings :: "uid \<Rightarrow> user_settings_response" where
  "get_user_settings cur =
     \<lparr>us_notifications =
        \<lparr>email_achievements = True, email_mentorship = True, email_courses = True,
         email_connections = True, push_enabled = True\<rparr>,
      us_privacy =
        \<lparr>profile_public = True, show_achievements = True, show_projects = True,
         show_skills = True\<rparr>\<rparr>"

definition update_notification_settings ::
  "uid \<Rightarrow> notification_settings \<Rightarrow> notification_settings" where
  "update_notification_settings cur settings_in = settings_in"

definition update_privacy_settings :: "uid \<Rightarrow> privacy_settings \<Rightarrow> privacy_settings" where
  "update_privacy_settings cur settings_in = settings_in"

definition change_password :: "uid \<Rightarrow> string \<Rightarrow> string \<Rightarrow> string" where
  "change_password cur current_password new_password = ''Password changed successfully''"

text \<open>A request to the settings router, and a run of requests by one user.\<close>

datatype settings_request =
    GetSettings
  | UpdateNotifications notification_settings
  | UpdatePrivacy privacy_settings
  | ChangePassword string string

datatype settings_response =
    SettingsResponse user_settings_response
  | NotificationsResponse notification_settings
  | PrivacyResponse privacy_settings
  | MessageResponse string

fun settings_handle :: "uid \<Rightarrow> settings_request \<Rightarrow> settings_response" where
  "settings_handle cur GetSettings = SettingsResponse (get_user_settings cur)"
| "settings_handle cur (UpdateNotifications x) =
     NotificationsResponse (update_notification_settings cur x)"
| "settings_handle cur (UpdatePrivacy x) = PrivacyResponse (update_privacy_settings cur x)"
| "settings_handle cur (ChangePassword p q) = MessageResponse (change_password cur p q)"

definition settings_run :: "uid \<Rightarrow> settings_request list \<Rightarrow> settings_response list" where
  "settings_run cur rs = map (settings_handle cur) rs"

lemma get_user_settings_defaults:
  "get_user_settings cur =
     \<lparr>us_notifications = default_notification_settings, us_privacy = default_privacy_settings\<rparr>"
  by (simp add: get_user_settings_def default_notification_settings_def default_privacy_settings_def)

lemma validate_skills_result:
  "(case validate_skills ss of
      Inr ks \<Rightarrow> map sk_level ks = map (\<lambda>(_, _, l, _). l) ss \<and> map sk_id ks = map fst ss
    | Inl e \<Rightarrow> e = HTTPException 422 ''Validation error'') \<and>
   isl (validate_skills ss) = (\<not> list_all (\<lambda>(_, _, l, _). 1 \<le> l \<and> l \<le> 10) ss)"
  by (induction ss rule: validate_skills.induct)
    (auto simp: validate_skill_def raise_def split: sum.splits)

end
