(* ===== verification/App_Config.thy ===== *)
theory App_Config
  imports Prelude
begin

text \<open>
  The configuration (\<^verbatim>\<open>core/config.py\<close>): the Pydantic settings class \<^verbatim>\<open>Settings\<close>
  and its instance \<^verbatim>\<open>settings = Settings()\<close>, built once when the module is loaded.
  Pydantic validates the fields one by one in declaration order; a field validator
  receives in \<^verbatim>\<open>info.data\<close> the fields validated before it, and a field that is
  not given keeps its default without validation (\<^verbatim>\<open>validate_default\<close> is off). The
  model follows that loop: \<open>validate_fields\<close> threads the validated data through the
  field list \<open>settings_fields\<close>, written in the order of the class body. Values come
  from a source (environment or \<^verbatim>\<open>.env\<close>) already coerced to the field's type;
  string-to-int coercion and URL syntax are not modelled.
\<close>

datatype field_value = VStr string | VInt int | VStrs "string list"

datatype field_type = TStr | TInt | TStrList | TLiteral "string list"

type_synonym validated_data = "(string \<times> field_value) list"

record field_spec =
  f_name :: string
  f_type :: field_type
  f_default :: field_value
  f_after :: "validated_data \<Rightarrow> field_value \<Rightarrow> string + field_value"

record settings =
  API_V1_STR :: string
  PROJECT_NAME :: string
  SECRET_KEY :: string
  ACCESS_TOKEN_EXPIRE_MINUTES :: int
  BACKEND_CORS_ORIGINS :: "string list"
  DATABASE_URL :: string
  ENVIRONMENT :: string

text \<open>Type validation of one value, as Pydantic's core validators do for these types.\<close>

fun check_type :: "field_type \<Rightarrow> field_value \<Rightarrow> string + field_value" where
  "check_type TStr (VStr s) = Inr (VStr s)"
| "check_type TInt (VInt n) = Inr (VInt n)"
| "check_type TStrList (VStrs xs) = Inr (VStrs xs)"
| "check_type (TLiteral ls) (VStr s) =
     (if s \<in> set ls then Inr (VStr s) else Inl ''Input should be one of the literal values'')"
| "check_type _ _ = Inl ''Input should be a valid value of the field type''"

definition no_after :: "validated_data \<Rightarrow> field_value \<Rightarrow> string + field_value" where
  "no_after d v = Inr v"

definition secret_error :: string where
  "secret_error = ''SECRET_KEY must be at least 32 characters in production''"

definition environment_literals :: "string list" where
  "environment_literals = [''local'', ''staging'', ''production'']"

definition check_min_length_secret :: "validated_data \<Rightarrow> field_value \<Rightarrow> string + field_value" where
  "check_min_length_secret d v =
     (case v of
        VStr s \<Rightarrow>
          if map_of d ''ENVIRONMENT'' = Some (VStr ''production'') \<and> length s < 32
          then Inl secret_error
          else Inr v
      | _ \<Rightarrow> Inr v)"

definition settings_fields :: "field_spec list" where
  "settings_fields =
     [\<lparr>f_name = ''API_V1_STR'', f_type = TStr, f_default = VStr ''/api/v1'', f_after = no_after\<rparr>,
      \<lparr>f_name = ''PROJECT_NAME'', f_type = TStr, f_default = VStr ''Skill Intelligence Platform'',
       f_after = no_after\<rparr>,
      \<lparr>f_name = ''SECRET_KEY'', f_type = TStr,
       f_default = VStr ''dev-secret-key-change-this-in-prod-unsafe-unsafe-unsafe'',
       f_after = check_min_length_secret\<rparr>,
      \<lparr>f_name = ''ACCESS_TOKEN_EXPIRE_MINUTES'', f_type = TInt, f_default = VInt (60 * 24 * 8),
       f_after = no_after\<rparr>,
      \<lparr>f_name = ''BACKEND_CORS_ORIGINS'', f_type = TStrList,
       f_default = VStrs [''http://localhost:5173'', ''http://localhost:3000''], f_after = no_after\<rparr>,
      \<lparr>f_name = ''DATABASE_URL'', f_type = TStr, f_default = VStr ''sqlite+aiosqlite:///./sql_app.db'',
       f_after = no_after\<rparr>,
      \<lparr>f_name = ''ENVIRONMENT'', f_type = TLiteral environment_literals,
       f_default = VStr ''local'', f_after = no_after\<rparr>]"

text \<open>
  The validation loop. A given value is type-checked and then passed to the field's
  validator with the data validated so far; a failing field is recorded as an error and
  left out of the data; a missing field takes its default unvalidated.
\<close>

fun validate_fields ::
  "(string \<Rightarrow> field_value option) \<Rightarrow> field_spec list \<Rightarrow> validated_data \<Rightarrow> (string \<times> string) list \<Rightarrow>
     (string \<times> string) list \<times> validated_data" where
  "validate_fields src [] d errs = (errs, d)"
| "validate_fields src (f # fs) d errs =
     (case src (f_name f) of
        None \<Rightarrow> validate_fields src fs (d @ [(f_name f, f_default f)]) errs
      | Some v \<Rightarrow>
          (case check_type (f_type f) v of
             Inl e \<Rightarrow> validate_fields src fs d (errs @ [(f_name f, e)])
           | Inr v' \<Rightarrow>
               (case f_after f d v' of
                  Inl e \<Rightarrow> validate_fields src fs d (errs @ [(f_name f, e)])
                | Inr v'' \<Rightarrow> validate_fields src fs (d @ [(f_name f, v'')]) errs)))"

fun str_of :: "field_value option \<Rightarrow> string" where
  "str_of (Some (VStr s)) = s"
| "str_of _ = []"

fun int_of :: "field_value option \<Rightarrow> int" where
  "int_of (Some (VInt n)) = n"
| "int_of _ = 0"

fun strs_of :: "field_value option \<Rightarrow> string list" where
  "strs_of (Some (VStrs xs)) = xs"
| "strs_of _ = []"

definition settings_of_data :: "validated_data \<Rightarrow> settings" where
  "settings_of_data d =
     \<lparr>API_V1_STR = str_of (map_of d ''API_V1_STR''),
      PROJECT_NAME = str_of (map_of d ''PROJECT_NAME''),
      SECRET_KEY = str_of (map_of d ''SECRET_KEY''),
      ACCESS_TOKEN_EXPIRE_MINUTES = int_of (map_of d ''ACCESS_TOKEN_EXPIRE_MINUTES''),
      BACKEND_CORS_ORIGINS = strs_of (map_of d ''BACKEND_CORS_ORIGINS''),
      DATABASE_URL = str_of (map_of d ''DATABASE_URL''),
      ENVIRONMENT = str_of (map_of d ''ENVIRONMENT'')\<rparr>"

text \<open>\<^verbatim>\<open>Settings()\<close>: a \<^verbatim>\<open>ValidationError\<close> listing every failed field, or the instance.\<close>

definition build_settings :: "(string \<Rightarrow> field_value option) \<Rightarrow> (string \<times> string) list + settings" where
  "build_settings src =
     (case validate_fields src settings_fields [] [] of
        ([], d) \<Rightarrow> Inr (settings_of_data d)
      | (errs, _) \<Rightarrow> Inl errs)"

lemma check_type_Inr: "check_type t v = Inr w \<Longrightarrow> w = v"
  by (cases "(t, v)" rule: check_type.cases) (auto split: if_splits)

lemma validate_fields_append:
  "validate_fields src (fs @ gs) d errs =
     (case validate_fields src fs d errs of (errs', d') \<Rightarrow> validate_fields src gs d' errs')"
  by (induction fs arbitrary: d errs) (auto split: option.splits sum.splits)

text \<open>One field's step: it adds an entry or an error under its own name.\<close>

lemma validate_fields_Cons_cases:
  obtains (entry) v where
    "validate_fields src (f # fs) d errs = validate_fields src fs (d @ [(f_name f, v)]) errs"
  | (error) m where
    "validate_fields src (f # fs) d errs = validate_fields src fs d (errs @ [(f_name f, m)])"
  by (cases "src (f_name f)"; cases "check_type (f_type f) (the (src (f_name f)))";
      cases "f_after f d (projr (check_type (f_type f) (the (src (f_name f)))))") auto

lemma validate_fields_errs_mono:
  "set errs \<subseteq> set (fst (validate_fields src fs d errs))"
proof (induction fs arbitrary: d errs)
  case Nil
  then show ?case by simp
next
  case (Cons f fs)
  show ?case
  proof (cases rule: validate_fields_Cons_cases [of src f fs d errs])
    case (entry v)
    show ?thesis unfolding entry using Cons.IH [where d = "d @ [(f_name f, v)]" and errs = errs] by simp
  next
    case (error m)
    show ?thesis unfolding error using Cons.IH [where d = d and errs = "errs @ [(f_name f, m)]"] by auto
  qed
qed

lemma validate_fields_names:
  "fst ` set (snd (validate_fields src fs d errs)) \<subseteq> fst ` set d \<union> f_name ` set fs \<and>
   fst ` set (fst (validate_fields src fs d errs)) \<subseteq> fst ` set errs \<union> f_name ` set fs"
proof (induction fs arbitrary: d errs)
  case Nil
  then show ?case by simp
next
  case (Cons f fs)
  show ?case
  proof (cases rule: validate_fields_Cons_cases [of src f fs d errs])
    case (entry v)
    show ?thesis unfolding entry using Cons.IH [where d = "d @ [(f_name f, v)]" and errs = errs] by auto
  next
    case (error m)
    show ?thesis unfolding error using Cons.IH [where d = d and errs = "errs @ [(f_name f, m)]"] by auto
  qed
qed

lemma validate_fields_complete:
  "f_name ` set fs \<union> fst ` set d \<subseteq>
     fst ` set (snd (validate_fields src fs d errs)) \<union> fst ` set (fst (validate_fields src fs d errs))"
proof (induction fs arbitrary: d errs)
  case Nil
  then show ?case by simp
next
  case (Cons f fs)
  show ?case
  proof (cases rule: validate_fields_Cons_cases [of src f fs d errs])
    case (entry v)
    show ?thesis unfolding entry using Cons.IH [where d = "d @ [(f_name f, v)]" and errs = errs] by auto
  next
    case (error m)
    have "set (errs @ [(f_name f, m)]) \<subseteq>
        set (fst (validate_fields src fs d (errs @ [(f_name f, m)])))"
      by (rule validate_fields_errs_mono)
    then have "f_name f \<in> fst ` set (fst (validate_fields src fs d (errs @ [(f_name f, m)])))"
      by (metis fst_conv image_eqI in_set_conv_decomp subsetD)
    then show ?thesis unfolding error using Cons.IH [where d = d and errs = "errs @ [(f_name f, m)]"] by auto
  qed
qed

text \<open>Every validated entry has the type of a field of the list it came from.\<close>

definition typed_data :: "field_spec list \<Rightarrow> validated_data \<Rightarrow> bool" where
  "typed_data S d \<longleftrightarrow>
     list_all (\<lambda>(n, v). list_ex (\<lambda>f. f_name f = n \<and> check_type (f_type f) v = Inr v) S) d"

lemma validate_fields_typed:
  assumes "typed_data S d" and "set fs \<subseteq> set S"
    and "\<forall>f\<in>set fs. check_type (f_type f) (f_default f) = Inr (f_default f)"
    and "\<forall>f\<in>set fs. \<forall>d v w. f_after f d v = Inr w \<longrightarrow> w = v"
  shows "typed_data S (snd (validate_fields src fs d errs))"
  using assms
proof (induction fs arbitrary: d errs)
  case Nil
  then show ?case by simp
next
  case (Cons f fs)
  have f: "f \<in> set S" using Cons.prems(2) by simp
  have step: "typed_data S (d @ [(f_name f, v)])" if "check_type (f_type f) v = Inr v" for v
    using Cons.prems(1) f that by (auto simp: typed_data_def list_ex_iff)
  show ?case
  proof (cases "src (f_name f)")
    case None
    then show ?thesis using Cons step by simp
  next
    case (Some v)
    show ?thesis
    proof (cases "check_type (f_type f) v")
      case (Inl e)
      then show ?thesis using Cons Some by simp
    next
      case (Inr v')
      then have v': "v' = v" by (rule check_type_Inr)
      show ?thesis
      proof (cases "f_after f d v'")
        case (Inl e)
        then show ?thesis using Cons Some Inr by simp
      next
        case (Inr v'')
        then have "v'' = v" using Cons.prems(4) v' by auto
        then show ?thesis using Cons Some Inr \<open>check_type (f_type f) v = Inr v'\<close> v' step
          \<open>f_after f d v' = Inr v''\<close> by simp
      qed
    qed
  qed
qed

lemma settings_fields_split:
  "settings_fields = take 2 settings_fields @ [settings_fields ! 2] @ drop 3 settings_fields"
  by (simp add: settings_fields_def)

lemma settings_fields_wf:
  "\<forall>f\<in>set settings_fields. check_type (f_type f) (f_default f) = Inr (f_default f)"
  "\<forall>f\<in>set settings_fields. \<forall>d v w. f_after f d v = Inr w \<longrightarrow> w = v"
  by (auto simp: settings_fields_def no_after_def check_min_length_secret_def
      environment_literals_def split: field_value.splits if_splits)

lemma validate_fields_errs_from:
  "set (fst (validate_fields src fs d errs)) \<subseteq> set errs \<union> {x. fst x \<in> f_name ` set fs}"
proof (induction fs arbitrary: d errs)
  case Nil
  then show ?case by simp
next
  case (Cons f fs)
  show ?case
  proof (cases rule: validate_fields_Cons_cases [of src f fs d errs])
    case (entry v)
    show ?thesis unfolding entry using Cons.IH [where d = "d @ [(f_name f, v)]" and errs = errs]
      by auto
  next
    case (error m)
    show ?thesis unfolding error using Cons.IH [where d = d and errs = "errs @ [(f_name f, m)]"]
      by auto
  qed
qed

lemma map_of_typed:
  assumes "typed_data S d" and "map_of d n = Some v"
  shows "\<exists>f\<in>set S. f_name f = n \<and> check_type (f_type f) v = Inr v"
proof -
  from assms(2) have "(n, v) \<in> set d" by (rule map_of_SomeD)
  with assms(1) show ?thesis by (auto simp: typed_data_def list_all_iff list_ex_iff)
qed

text \<open>After the first two fields, the data that the \<^verbatim>\<open>SECRET_KEY\<close> validator sees.\<close>

lemma secret_key_sees_no_environment:
  "map_of (snd (validate_fields src (take 2 settings_fields) [] e0)) ''ENVIRONMENT'' = None"
proof -
  have "fst ` set (snd (validate_fields src (take 2 settings_fields) [] e0)) \<subseteq>
      {''API_V1_STR'', ''PROJECT_NAME''}"
    using validate_fields_names [of src "take 2 settings_fields" "[]" e0]
    by (simp add: settings_fields_def)
  then show ?thesis by (auto simp: map_of_eq_None_iff)
qed

lemma check_type_not_secret_error: "check_type t v \<noteq> Inl secret_error"
  by (cases "(t, v)" rule: check_type.cases) (auto simp: secret_error_def)

lemma validate_fields_Cons_split:
  "validate_fields src (f # fs) d e =
     (case validate_fields src [f] d e of (e', d') \<Rightarrow> validate_fields src fs d' e')"
  using validate_fields_append [of src "[f]" fs d e] by simp

lemma secret_key_step:
  assumes "map_of d ''ENVIRONMENT'' = None"
  shows "(''SECRET_KEY'', secret_error) \<notin>
           set (fst (validate_fields src [settings_fields ! 2] d e)) - set e"
  using assms check_type_not_secret_error [of TStr]
  by (auto simp: settings_fields_def check_min_length_secret_def
      split: option.splits sum.splits field_value.splits)

lemma secret_error_not_raised:
  "(''SECRET_KEY'', secret_error) \<notin> set (fst (validate_fields src settings_fields [] []))"
proof -
  obtain e2 d2 where p: "validate_fields src (take 2 settings_fields) [] [] = (e2, d2)"
    by fastforce
  obtain e3 d3 where q: "validate_fields src [settings_fields ! 2] d2 e2 = (e3, d3)"
    by fastforce
  have e2: "fst ` set e2 \<subseteq> {''API_V1_STR'', ''PROJECT_NAME''}"
    using validate_fields_names [of src "take 2 settings_fields" "[]" "[]"] p
    by (simp add: settings_fields_def)
  have "map_of d2 ''ENVIRONMENT'' = None"
    using secret_key_sees_no_environment [of src "[]"] p by simp
  then have e3: "(''SECRET_KEY'', secret_error) \<notin> set e3 - set e2"
    using secret_key_step [of d2 src e2] q by simp
  have post: "set (fst (validate_fields src (drop 3 settings_fields) d3 e3)) \<subseteq>
      set e3 \<union> {x. fst x \<in> f_name ` set (drop 3 settings_fields)}"
    by (rule validate_fields_errs_from)
  have "''SECRET_KEY'' \<notin> f_name ` set (drop 3 settings_fields)"
    by (simp add: settings_fields_def)
  moreover have "validate_fields src settings_fields [] [] =
      validate_fields src (drop 3 settings_fields) d3 e3"
  proof -
    have "validate_fields src settings_fields [] [] =
        validate_fields src (take 2 settings_fields @ (settings_fields ! 2 # drop 3 settings_fields)) [] []"
      by (subst settings_fields_split) simp
    also have "\<dots> = validate_fields src (settings_fields ! 2 # drop 3 settings_fields) d2 e2"
      by (simp only: validate_fields_append p prod.case)
    also have "\<dots> = validate_fields src (drop 3 settings_fields) d3 e3"
      by (subst validate_fields_Cons_split) (simp only: q prod.case)
    finally show ?thesis .
  qed
  ultimately show ?thesis using post e2 e3 by force
qed

lemma build_settings_Inr:
  assumes "build_settings src = Inr s"
  obtains d where "validate_fields src settings_fields [] [] = ([], d)" and "s = settings_of_data d"
  using assms by (auto simp: build_settings_def split: prod.splits list.splits)

lemma build_settings_typed:
  assumes "validate_fields src settings_fields [] [] = (errs, d)"
  shows "typed_data settings_fields d"
  using validate_fields_typed [where S = settings_fields and fs = settings_fields and d = "[]",
      OF _ _ settings_fields_wf, of src "[]"] assms
  by (simp add: typed_data_def)

subsection \<open>Properties of the configuration\<close>

text \<open>
  C25: the weak-key check of \<^verbatim>\<open>SECRET_KEY\<close> never fires. The validator itself
  rejects a key shorter than 32 characters when it sees \<^verbatim>\<open>ENVIRONMENT = production\<close>,
  but \<^verbatim>\<open>ENVIRONMENT\<close> is declared after \<^verbatim>\<open>SECRET_KEY\<close>, so it is never in
  \<^verbatim>\<open>info.data\<close> when the validator runs: no source makes \<^verbatim>\<open>Settings()\<close> report the
  weak key, and a production configuration with any key, however short, is accepted.
\<close>

theorem weak_secret_accepted_in_production:
  "(''SECRET_KEY'', secret_error) \<notin> set (fst (validate_fields src settings_fields [] [])) \<and>
   check_min_length_secret [(''ENVIRONMENT'', VStr ''production'')] (VStr k) =
     (if length k < 32 then Inl secret_error else Inr (VStr k)) \<and>
   build_settings (\<lambda>n. if n = ''ENVIRONMENT'' then Some (VStr ''production'')
                       else if n = ''SECRET_KEY'' then Some (VStr k) else None) =
     Inr \<lparr>API_V1_STR = ''/api/v1'', PROJECT_NAME = ''Skill Intelligence Platform'',
          SECRET_KEY = k, ACCESS_TOKEN_EXPIRE_MINUTES = 11520,
          BACKEND_CORS_ORIGINS = [''http://localhost:5173'', ''http://localhost:3000''],
          DATABASE_URL = ''sqlite+aiosqlite:///./sql_app.db'', ENVIRONMENT = ''production''\<rparr>"
proof (intro conjI)
  show "(''SECRET_KEY'', secret_error) \<notin> set (fst (validate_fields src settings_fields [] []))"
    by (rule secret_error_not_raised)
  show "check_min_length_secret [(''ENVIRONMENT'', VStr ''production'')] (VStr k) =
      (if length k < 32 then Inl secret_error else Inr (VStr k))"
    by (simp add: check_min_length_secret_def)
  show "build_settings (\<lambda>n. if n = ''ENVIRONMENT'' then Some (VStr ''production'')
                       else if n = ''SECRET_KEY'' then Some (VStr k) else None) =
     Inr \<lparr>API_V1_STR = ''/api/v1'', PROJECT_NAME = ''Skill Intelligence Platform'',
          SECRET_KEY = k, ACCESS_TOKEN_EXPIRE_MINUTES = 11520,
          BACKEND_CORS_ORIGINS = [''http://localhost:5173'', ''http://localhost:3000''],
          DATABASE_URL = ''sqlite+aiosqlite:///./sql_app.db'', ENVIRONMENT = ''production''\<rparr>"
    by (simp add: build_settings_def settings_fields_def check_min_length_secret_def no_after_def
        environment_literals_def settings_of_data_def)
qed

text \<open>
  C26: the type of the environment. Whenever \<^verbatim>\<open>Settings()\<close> succeeds, its
  \<^verbatim>\<open>ENVIRONMENT\<close> is one of the literals \<^verbatim>\<open>local\<close>, \<^verbatim>\<open>staging\<close>,
  \<^verbatim>\<open>production\<close>, whatever the source held.
\<close>

theorem settings_environment_typed:
  assumes "build_settings src = Inr s"
  shows "ENVIRONMENT s \<in> set environment_literals"
proof -
  obtain d where r: "validate_fields src settings_fields [] [] = ([], d)"
    and s: "s = settings_of_data d"
    using assms by (rule build_settings_Inr)
  have "''ENVIRONMENT'' \<in> fst ` set d"
    using validate_fields_complete [where src = src and fs = settings_fields and d = "[]"
        and errs = "[]"] r
    by (simp add: settings_fields_def)
  then obtain v where m: "map_of d ''ENVIRONMENT'' = Some v"
    by (metis map_of_eq_None_iff not_None_eq)
  from map_of_typed [OF build_settings_typed [OF r] m] obtain f
    where "f \<in> set settings_fields" "f_name f = ''ENVIRONMENT''" "check_type (f_type f) v = Inr v"
    by blast
  then have "check_type (TLiteral environment_literals) v = Inr v"
    by (auto simp: settings_fields_def)
  then obtain x where "v = VStr x" "x \<in> set environment_literals"
    by (cases v) (auto split: if_splits)
  with s m show ?thesis by (simp add: settings_of_data_def)
qed

theorem settings_environment_typed_witness:
  "build_settings (\<lambda>n. if n = ''ENVIRONMENT'' then Some (VStr ''staging'') else None) =
     Inr \<lparr>API_V1_STR = ''/api/v1'', PROJECT_NAME = ''Skill Intelligence Platform'',
          SECRET_KEY = ''dev-secret-key-change-this-in-prod-unsafe-unsafe-unsafe'',
          ACCESS_TOKEN_EXPIRE_MINUTES = 11520,
          BACKEND_CORS_ORIGINS = [''http://localhost:5173'', ''http://localhost:3000''],
          DATABASE_URL = ''sqlite+aiosqlite:///./sql_app.db'', ENVIRONMENT = ''staging''\<rparr> \<and>
   ''staging'' \<in> set environment_literals"
proof -
  let ?src = "\<lambda>n. if n = ''ENVIRONMENT'' then Some (VStr ''staging'') else None"
  let ?s = "\<lparr>API_V1_STR = ''/api/v1'', PROJECT_NAME = ''Skill Intelligence Platform'',
          SECRET_KEY = ''dev-secret-key-change-this-in-prod-unsafe-unsafe-unsafe'',
          ACCESS_TOKEN_EXPIRE_MINUTES = 11520,
          BACKEND_CORS_ORIGINS = [''http://localhost:5173'', ''http://localhost:3000''],
          DATABASE_URL = ''sqlite+aiosqlite:///./sql_app.db'', ENVIRONMENT = ''staging''\<rparr>"
  have b: "build_settings ?src = Inr ?s"
    by (simp add: build_settings_def settings_fields_def no_after_def environment_literals_def
        settings_of_data_def)
  from settings_environment_typed [OF b] b show ?thesis by simp
qed

text \<open>
  The defaults and a rejected environment. With nothing set, \<^verbatim>\<open>Settings()\<close>
  holds the class defaults (tokens expire after 8 days, the development secret, the
  local environment); an environment outside the literals makes it fail with a
  validation error naming that field.
\<close>

theorem settings_defaults:
  "build_settings (\<lambda>_. None) =
     Inr \<lparr>API_V1_STR = ''/api/v1'', PROJECT_NAME = ''Skill Intelligence Platform'',
          SECRET_KEY = ''dev-secret-key-change-this-in-prod-unsafe-unsafe-unsafe'',
          ACCESS_TOKEN_EXPIRE_MINUTES = 60 * 24 * 8,
          BACKEND_CORS_ORIGINS = [''http://localhost:5173'', ''http://localhost:3000''],
          DATABASE_URL = ''sqlite+aiosqlite:///./sql_app.db'', ENVIRONMENT = ''local''\<rparr> \<and>
   build_settings (\<lambda>n. if n = ''ENVIRONMENT'' then Some (VStr ''prod'') else None) =
     Inl [(''ENVIRONMENT'', ''Input should be one of the literal values'')]"
  by (simp add: build_settings_def settings_fields_def no_after_def environment_literals_def
      settings_of_data_def)

end
