(* ===== verification/App_Routing.thy ===== *)
theory App_Routing
  imports Mentorship_System App_Config "HOL-Library.Sublist"
begin

text \<open>
  The application (\<^verbatim>\<open>main.py\<close>): \<^verbatim>\<open>create_application\<close> builds a FastAPI app
  whose route list is the documentation routes followed by the routes of each router
  in the order of the \<^verbatim>\<open>include_router\<close> calls, each path prefixed with the mount
  prefix (FastAPI copies the routes, so the app has one flat list). Requests pass the
  timing middleware, then CORS, then the router. The route tables of the routers under
  \<^verbatim>\<open>src\<close> are read from their decorators (method, path template, success status);
  the routers of \<^verbatim>\<open>system\<close>, \<^verbatim>\<open>users\<close>, \<^verbatim>\<open>auth\<close>, \<^verbatim>\<open>assessments\<close>,
  \<^verbatim>\<open>courses\<close> and \<^verbatim>\<open>quiz\<close> are not among the sources: their route lists are a
  parameter \<open>other\<close>, and every theorem holds for all of them.

  The framework behaviour the app relies on is modelled after Starlette's
  \<^verbatim>\<open>routing.py\<close>: a template \<^verbatim>\<open>{name}\<close> matches \<^verbatim>\<open>[^/]+\<close> (greedy, with
  backtracking) and the rest literally, over the whole path; the router takes the first
  route matching path and method, else answers 405 if some route matches the path
  only, else redirects (307) when the path with its trailing slash toggled matches,
  else 404.
\<close>

datatype http_method = GET | POST | PUT | PATCH | DELETE | OPTIONS

text \<open>The method as Starlette's \<^verbatim>\<open>Request.method\<close> spells it.\<close>

fun method_name :: "http_method \<Rightarrow> string" where
  "method_name GET = ''GET''"
| "method_name POST = ''POST''"
| "method_name PUT = ''PUT''"
| "method_name PATCH = ''PATCH''"
| "method_name DELETE = ''DELETE''"
| "method_name OPTIONS = ''OPTIONS''"

datatype endpoint =
    E_openapi | E_docs | E_docs_oauth2_redirect | E_redoc
  | E_get_my_achievements | E_create_achievement | E_get_achievement | E_delete_achievement
  | E_get_my_projects | E_create_project | E_get_project | E_update_project
  | E_delete_project | E_endorse_project
  | E_get_my_mentees | E_get_my_mentors | E_get_available_mentors | E_create_mentorship
  | E_get_mentorship | E_update_mentorship | E_cancel_mentorship
  | E_get_notifications | E_mark_notifications_read | E_mark_notification_read
  | E_delete_notification | E_get_unread_count
  | E_get_user_settings | E_update_notification_settings | E_update_privacy_settings
  | E_change_password
  | E_external string string

record route =
  rt_method :: http_method
  rt_path :: string
  rt_endpoint :: endpoint
  rt_status :: nat

subsection \<open>Path templates and matching\<close>

datatype tok = TChar char | TParam string

function (domintros) parse_template :: "string \<Rightarrow> tok list" where
  "parse_template [] = []"
| "parse_template (c # cs) =
     (if c = CHR ''{'' \<and> CHR ''}'' \<in> set cs
      then TParam (takeWhile (\<lambda>x. x \<noteq> CHR ''}'') cs) #
             parse_template (drop 1 (dropWhile (\<lambda>x. x \<noteq> CHR ''}'') cs))
      else TChar c # parse_template cs)"
  by pat_completeness auto
termination
  by (relation "measure length")
    (auto intro: le_imp_less_Suc le_trans [OF diff_le_self length_dropWhile_le])

text \<open>The template a token list stands for: the inverse of the parser.\<close>

fun render_template :: "tok list \<Rightarrow> string" where
  "render_template [] = []"
| "render_template (TChar c # ts) = c # render_template ts"
| "render_template (TParam n # ts) = CHR ''{'' # n @ CHR ''}'' # render_template ts"

fun tmatch :: "tok list \<Rightarrow> string \<Rightarrow> (string \<times> string) list option"
and try_param :: "string \<Rightarrow> tok list \<Rightarrow> string \<Rightarrow> nat \<Rightarrow> (string \<times> string) list option" where
  "tmatch [] xs = (if xs = [] then Some [] else None)"
| "tmatch (TChar c # ts) xs =
     (case xs of [] \<Rightarrow> None | x # xs' \<Rightarrow> if x = c then tmatch ts xs' else None)"
| "tmatch (TParam n # ts) xs = try_param n ts xs (length (takeWhile (\<lambda>x. x \<noteq> CHR ''/'') xs))"
| "try_param n ts xs 0 = None"
| "try_param n ts xs (Suc k) =
     (case tmatch ts (drop (Suc k) xs) of
        Some ps \<Rightarrow> Some ((n, take (Suc k) xs) # ps)
      | None \<Rightarrow> try_param n ts xs k)"

definition path_params :: "string \<Rightarrow> string \<Rightarrow> (string \<times> string) list option" where
  "path_params template path = tmatch (parse_template template) path"

datatype route_match = Full "(string \<times> string) list" | Partial | NoMatch

definition route_matches :: "route \<Rightarrow> http_method \<Rightarrow> string \<Rightarrow> route_match" where
  "route_matches r m path =
     (case path_params (rt_path r) path of
        None \<Rightarrow> NoMatch
      | Some ps \<Rightarrow> if rt_method r = m then Full ps else Partial)"

fun first_full :: "route list \<Rightarrow> http_method \<Rightarrow> string \<Rightarrow> (route \<times> (string \<times> string) list) option" where
  "first_full [] m path = None"
| "first_full (r # rs) m path =
     (case route_matches r m path of
        Full ps \<Rightarrow> Some (r, ps)
      | _ \<Rightarrow> first_full rs m path)"

definition rstrip_slash :: "string \<Rightarrow> string" where
  "rstrip_slash p = rev (dropWhile (\<lambda>c. c = CHR ''/'') (rev p))"

definition toggle_slash :: "string \<Rightarrow> string" where
  "toggle_slash p = (if p \<noteq> [] \<and> last p = CHR ''/'' then rstrip_slash p else p @ ''/'')"

datatype dispatch_result =
    Matched route "(string \<times> string) list"
  | MethodNotAllowed route
  | RedirectTo string
  | NotFound

definition dispatch :: "route list \<Rightarrow> http_method \<Rightarrow> string \<Rightarrow> dispatch_result" where
  "dispatch rs m path =
     (case first_full rs m path of
        Some (r, ps) \<Rightarrow> Matched r ps
      | None \<Rightarrow>
          (case find (\<lambda>r. route_matches r m path = Partial) rs of
             Some r \<Rightarrow> MethodNotAllowed r
           | None \<Rightarrow>
               if path \<noteq> ''/'' \<and> list_ex (\<lambda>r. route_matches r m (toggle_slash path) \<noteq> NoMatch) rs
               then RedirectTo (toggle_slash path)
               else NotFound))"

subsection \<open>The route tables of the routers and the application\<close>

definition achievements_routes :: "route list" where
  "achievements_routes =
     [\<lparr>rt_method = GET, rt_path = ''/me'', rt_endpoint = E_get_my_achievements, rt_status = 200\<rparr>,
      \<lparr>rt_method = POST, rt_path = '''', rt_endpoint = E_create_achievement, rt_status = 201\<rparr>,
      \<lparr>rt_method = GET, rt_path = ''/{achievement_id}'', rt_endpoint = E_get_achievement,
       rt_status = 200\<rparr>,
      \<lparr>rt_method = DELETE, rt_path = ''/{achievement_id}'', rt_endpoint = E_delete_achievement,
       rt_status = 204\<rparr>]"

definition projects_routes :: "route list" where
  "projects_routes =
     [\<lparr>rt_method = GET, rt_path = ''/me'', rt_endpoint = E_get_my_projects, rt_status = 200\<rparr>,
      \<lparr>rt_method = POST, rt_path = '''', rt_endpoint = E_create_project, rt_status = 201\<rparr>,
      \<lparr>rt_method = GET, rt_path = ''/{project_id}'', rt_endpoint = E_get_project, rt_status = 200\<rparr>,
      \<lparr>rt_method = PATCH, rt_path = ''/{project_id}'', rt_endpoint = E_update_project,
       rt_status = 200\<rparr>,
      \<lparr>rt_method = DELETE, rt_path = ''/{project_id}'', rt_endpoint = E_delete_project,
       rt_status = 204\<rparr>,
      \<lparr>rt_method = POST, rt_path = ''/{project_id}/endorse'', rt_endpoint = E_endorse_project,
       rt_status = 200\<rparr>]"

definition mentorship_routes :: "route list" where
  "mentorship_routes =
     [\<lparr>rt_method = GET, rt_path = ''/mentees'', rt_endpoint = E_get_my_mentees, rt_status = 200\<rparr>,
      \<lparr>rt_method = GET, rt_path = ''/mentors'', rt_endpoint = E_get_my_mentors, rt_status = 200\<rparr>,
      \<lparr>rt_method = GET, rt_path = ''/available-mentors'', rt_endpoint = E_get_available_mentors,
       rt_status = 200\<rparr>,
      \<lparr>rt_method = POST, rt_path = '''', rt_endpoint = E_create_mentorship, rt_status = 201\<rparr>,
      \<lparr>rt_method = GET, rt_path = ''/{mentorship_id}'', rt_endpoint = E_get_mentorship,
       rt_status = 200\<rparr>,
      \<lparr>rt_method = PATCH, rt_path = ''/{mentorship_id}'', rt_endpoint = E_update_mentorship,
       rt_status = 200\<rparr>,
      \<lparr>rt_method = DELETE, rt_path = ''/{mentorship_id}'', rt_endpoint = E_cancel_mentorship,
       rt_status = 204\<rparr>]"

definition notifications_routes :: "route list" where
  "notifications_routes =
     [\<lparr>rt_method = GET, rt_path = '''', rt_endpoint = E_get_notifications, rt_status = 200\<rparr>,
      \<lparr>rt_method = POST, rt_path = ''/mark-read'', rt_endpoint = E_mark_notifications_read,
       rt_status = 200\<rparr>,
      \<lparr>rt_method = PATCH, rt_path = ''/{notification_id}/read'', rt_endpoint = E_mark_notification_read,
       rt_status = 200\<rparr>,
      \<lparr>rt_method = DELETE, rt_path = ''/{notification_id}'', rt_endpoint = E_delete_notification,
       rt_status = 204\<rparr>,
      \<lparr>rt_method = GET, rt_path = ''/unread-count'', rt_endpoint = E_get_unread_count,
       rt_status = 200\<rparr>]"

definition settings_routes :: "route list" where
  "settings_routes =
     [\<lparr>rt_method = GET, rt_path = ''/settings'', rt_endpoint = E_get_user_settings, rt_status = 200\<rparr>,
      \<lparr>rt_method = PATCH, rt_path = ''/settings/notifications'',
       rt_endpoint = E_update_notification_settings, rt_status = 200\<rparr>,
      \<lparr>rt_method = PATCH, rt_path = ''/settings/privacy'', rt_endpoint = E_update_privacy_settings,
       rt_status = 200\<rparr>,
      \<lparr>rt_method = POST, rt_path = ''/settings/password'', rt_endpoint = E_change_password,
       rt_status = 200\<rparr>]"

text \<open>\<^verbatim>\<open>FastAPI(docs_url="/docs", openapi_url="/openapi.json")\<close> registers these first.\<close>

definition docs_routes :: "route list" where
  "docs_routes =
     [\<lparr>rt_method = GET, rt_path = ''/openapi.json'', rt_endpoint = E_openapi, rt_status = 200\<rparr>,
      \<lparr>rt_method = GET, rt_path = ''/docs'', rt_endpoint = E_docs, rt_status = 200\<rparr>,
      \<lparr>rt_method = GET, rt_path = ''/docs/oauth2-redirect'', rt_endpoint = E_docs_oauth2_redirect,
       rt_status = 200\<rparr>,
      \<lparr>rt_method = GET, rt_path = ''/redoc'', rt_endpoint = E_redoc, rt_status = 200\<rparr>]"

definition include_router :: "string \<Rightarrow> route list \<Rightarrow> route list" where
  "include_router pfx rs = map (\<lambda>r. r\<lparr>rt_path := pfx @ rt_path r\<rparr>) rs"

text \<open>The mounts of \<^verbatim>\<open>create_application\<close>, in order: prefix and route list.\<close>

definition app_mounts :: "settings \<Rightarrow> (string \<Rightarrow> route list) \<Rightarrow> (string \<times> route list) list" where
  "app_mounts cfg other =
     [(''/system'', other ''system''),
      (''/users'', other ''users''),
      (API_V1_STR cfg @ ''/auth'', other ''auth''),
      (API_V1_STR cfg @ ''/assessments'', other ''assessments''),
      (API_V1_STR cfg @ ''/achievements'', achievements_routes),
      (API_V1_STR cfg @ ''/projects'', projects_routes),
      (API_V1_STR cfg @ ''/courses'', other ''courses''),
      (API_V1_STR cfg @ ''/mentorships'', mentorship_routes),
      (API_V1_STR cfg @ ''/notifications'', notifications_routes),
      (API_V1_STR cfg @ ''/quizzes'', other ''quiz''),
      (API_V1_STR cfg @ ''/users'', settings_routes)]"

definition app_routes :: "settings \<Rightarrow> (string \<Rightarrow> route list) \<Rightarrow> route list" where
  "app_routes cfg other = docs_routes @ concat (map (\<lambda>(p, rs). include_router p rs) (app_mounts cfg other))"

text \<open>The routers under \<^verbatim>\<open>src\<close> with their resource prefixes below \<^verbatim>\<open>API_V1_STR\<close>.\<close>

definition src_mounts :: "(string \<times> route list) list" where
  "src_mounts =
     [(''/achievements'', achievements_routes), (''/projects'', projects_routes),
      (''/mentorships'', mentorship_routes), (''/notifications'', notifications_routes),
      (''/users'', settings_routes)]"

subsection \<open>Dispatch over mounted routers\<close>

lemma parse_template_literal:
  "CHR ''{'' \<notin> set q \<Longrightarrow> parse_template (q @ t) = map TChar q @ parse_template t"
  by (induction q) auto

lemma tmatch_literal:
  "tmatch (map TChar q @ ts) p = (if prefix q p then tmatch ts (drop (length q) p) else None)"
  by (induction q arbitrary: p) (auto split: list.splits)

lemma path_params_foreign:
  "CHR ''{'' \<notin> set q \<Longrightarrow> \<not> prefix q p \<Longrightarrow> path_params (q @ t) p = None"
  by (simp add: path_params_def parse_template_literal tmatch_literal)

lemma prefix_incomparable:
  "prefix P p \<Longrightarrow> \<not> prefix Q P \<Longrightarrow> \<not> prefix P Q \<Longrightarrow> \<not> prefix Q p"
  using prefix_same_cases by blast

lemma rstrip_slash_prefix:
  assumes "P \<noteq> []" and "last P \<noteq> CHR ''/''"
  shows "prefix P (rstrip_slash (P @ R))"
proof -
  have h: "hd (rev P) \<noteq> CHR ''/''" using assms by (simp add: hd_rev)
  have "dropWhile (\<lambda>c. c = CHR ''/'') (rev P) = rev P"
    using assms(1) h by (cases "rev P") auto
  then show ?thesis
    by (auto simp: rstrip_slash_def dropWhile_append)
qed

lemma toggle_slash_prefix:
  assumes "prefix P p" and "P \<noteq> []" and "last P \<noteq> CHR ''/''"
  shows "prefix P (toggle_slash p)"
proof -
  from assms(1) obtain R where p: "p = P @ R" by (auto simp: prefix_def)
  show ?thesis
    using rstrip_slash_prefix [OF assms(2,3), of R] by (simp add: toggle_slash_def p)
qed

lemma first_full_append:
  "first_full (A @ B) m p = (case first_full A m p of None \<Rightarrow> first_full B m p | x \<Rightarrow> x)"
  by (induction A) (auto split: route_match.splits)

lemma find_append_first:
  "find P (A @ B) = (case find P A of None \<Rightarrow> find P B | x \<Rightarrow> x)"
  by (induction A) auto

lemma first_full_none:
  "\<forall>r\<in>set A. path_params (rt_path r) p = None \<Longrightarrow> first_full A m p = None"
  by (induction A) (auto simp: route_matches_def)

lemma dispatch_frame:
  assumes "\<forall>r\<in>set A \<union> set C. path_params (rt_path r) p = None \<and>
             path_params (rt_path r) (toggle_slash p) = None"
  shows "dispatch (A @ B @ C) m p = dispatch B m p"
proof -
  have nm: "route_matches r m q = NoMatch" if "r \<in> set A \<union> set C" "q = p \<or> q = toggle_slash p" for r q
    using assms that by (auto simp: route_matches_def)
  have "first_full A m p = None" "first_full C m p = None"
    using assms by (auto intro: first_full_none)
  then have ff: "first_full (A @ B @ C) m p = first_full B m p"
    by (simp add: first_full_append split: option.splits)
  have "find (\<lambda>r. route_matches r m p = Partial) A = None"
    "find (\<lambda>r. route_matches r m p = Partial) C = None"
    using nm by (auto simp: find_None_iff)
  then have fp: "find (\<lambda>r. route_matches r m p = Partial) (A @ B @ C) =
      find (\<lambda>r. route_matches r m p = Partial) B"
    by (simp add: find_append_first split: option.split)
  have le: "list_ex (\<lambda>r. route_matches r m (toggle_slash p) \<noteq> NoMatch) (A @ B @ C) =
      list_ex (\<lambda>r. route_matches r m (toggle_slash p) \<noteq> NoMatch) B"
    using nm by (auto simp: list_ex_iff)
  show ?thesis
    unfolding dispatch_def ff fp le ..
qed


lemma dispatch_mount:
  assumes ms: "ms = pre @ (P, rs) # post"
    and lit: "\<forall>(Q, xs)\<in>set (pre @ post). CHR ''{'' \<notin> set Q \<and> \<not> prefix Q P \<and> \<not> prefix P Q"
    and docs: "\<forall>r\<in>set D. CHR ''{'' \<notin> set (rt_path r) \<and> \<not> prefix (rt_path r) P \<and> \<not> prefix P (rt_path r)"
    and P: "P \<noteq> []" "last P \<noteq> CHR ''/''" and p: "prefix P path"
  shows "dispatch (D @ concat (map (\<lambda>(q, xs). include_router q xs) ms)) m path =
         dispatch (include_router P rs) m path"
proof -
  have pt: "prefix P (toggle_slash path)" using toggle_slash_prefix [OF p P] .
  have foreign: "path_params (Q @ t) path = None \<and> path_params (Q @ t) (toggle_slash path) = None"
    if "CHR ''{'' \<notin> set Q" "\<not> prefix Q P" "\<not> prefix P Q" for Q t
    using that p pt by (blast intro: path_params_foreign dest: prefix_incomparable)
  let ?A = "D @ concat (map (\<lambda>(q, xs). include_router q xs) pre)"
  let ?C = "concat (map (\<lambda>(q, xs). include_router q xs) post)"
  have "\<forall>r\<in>set ?A \<union> set ?C. path_params (rt_path r) path = None \<and>
      path_params (rt_path r) (toggle_slash path) = None"
  proof
    fix r assume r: "r \<in> set ?A \<union> set ?C"
    show "path_params (rt_path r) path = None \<and> path_params (rt_path r) (toggle_slash path) = None"
    proof (cases "r \<in> set D")
      case True
      then show ?thesis using docs foreign [of "rt_path r" "[]"] by simp
    next
      case False
      with r obtain Q xs x where "(Q, xs) \<in> set (pre @ post)" "x \<in> set xs"
        "r = x\<lparr>rt_path := Q @ rt_path x\<rparr>"
        by (auto simp: include_router_def)
      then show ?thesis using lit foreign [of Q "rt_path x"] by auto
    qed
  qed
  then have "dispatch (?A @ include_router P rs @ ?C) m path = dispatch (include_router P rs) m path"
    by (rule dispatch_frame)
  then show ?thesis by (simp add: ms)
qed

lemma app_mounts_split:
  "k < length ms \<Longrightarrow> ms = take k ms @ (fst (ms ! k), snd (ms ! k)) # drop (Suc k) ms"
  by (simp add: id_take_nth_drop)

lemma app_dispatch_src_mount:
  assumes cfg: "API_V1_STR cfg = ''/api/v1''" and mnt: "(res, rs) \<in> set src_mounts"
    and p: "prefix (''/api/v1'' @ res) path"
  shows "dispatch (app_routes cfg other) m path = dispatch (include_router (''/api/v1'' @ res) rs) m path"
proof -
  let ?ms = "app_mounts cfg other"
  have docs: "\<forall>r\<in>set docs_routes. CHR ''{'' \<notin> set (rt_path r) \<and>
      \<not> prefix (rt_path r) (''/api/v1'' @ res) \<and> \<not> prefix (''/api/v1'' @ res) (rt_path r)"
    using mnt by (auto simp: docs_routes_def src_mounts_def)
  obtain k where k: "k < length ?ms" "?ms ! k = (''/api/v1'' @ res, rs)"
    and lit: "\<forall>(Q, xs)\<in>set (take k ?ms @ drop (Suc k) ?ms). CHR ''{'' \<notin> set Q \<and>
        \<not> prefix Q (''/api/v1'' @ res) \<and> \<not> prefix (''/api/v1'' @ res) Q"
  proof -
    from mnt consider "res = ''/achievements''" "rs = achievements_routes"
      | "res = ''/projects''" "rs = projects_routes"
      | "res = ''/mentorships''" "rs = mentorship_routes"
      | "res = ''/notifications''" "rs = notifications_routes"
      | "res = ''/users''" "rs = settings_routes"
      by (auto simp: src_mounts_def)
    then show ?thesis
    proof cases
      case 1 then show ?thesis using that [of 4] cfg by (simp add: app_mounts_def)
    next
      case 2 then show ?thesis using that [of 5] cfg by (simp add: app_mounts_def)
    next
      case 3 then show ?thesis using that [of 7] cfg by (simp add: app_mounts_def)
    next
      case 4 then show ?thesis using that [of 8] cfg by (simp add: app_mounts_def)
    next
      case 5 then show ?thesis using that [of 10] cfg by (simp add: app_mounts_def)
    qed
  qed
  have ms: "?ms = take k ?ms @ (''/api/v1'' @ res, rs) # drop (Suc k) ?ms"
    using app_mounts_split [OF k(1)] k(2) by simp
  have l: "last (''/api/v1'' @ res) \<noteq> CHR ''/''"
    using mnt by (auto simp: src_mounts_def)
  show ?thesis
    using dispatch_mount [OF ms lit docs _ l p]
    by (simp add: app_routes_def)
qed

subsection \<open>Termination of the template parser\<close>

lemma parse_template_dom_all: "parse_template_dom u"
proof (induction u rule: length_induct)
  case (1 t)
  show ?case
  proof (cases t)
    case Nil
    then show ?thesis by (auto intro: parse_template.domintros)
  next
    case (Cons c cs)
    have "length (drop 1 (dropWhile (\<lambda>x. x \<noteq> CHR ''}'') cs)) < length t"
      using Cons by (simp add: le_imp_less_Suc le_trans [OF diff_le_self length_dropWhile_le])
    with 1 Cons show ?thesis by (auto intro: parse_template.domintros)
  qed
qed

lemma render_parse_template:
  "render_template (parse_template u) = u \<and> length (parse_template u) \<le> length u"
proof (induction u rule: parse_template.induct)
  case 1
  then show ?case by simp
next
  case (2 c cs)
  show ?case
  proof (cases "c = CHR ''{'' \<and> CHR ''}'' \<in> set cs")
    case True
    let ?n = "takeWhile (\<lambda>x. x \<noteq> CHR ''}'') cs"
    let ?r = "dropWhile (\<lambda>x. x \<noteq> CHR ''}'') cs"
    have ne: "?r \<noteq> []" using True by (auto simp: dropWhile_eq_Nil_conv)
    then have "hd ?r = CHR ''}''" using hd_dropWhile [OF ne] by simp
    with ne have r: "?r = CHR ''}'' # drop 1 ?r" by (cases ?r) auto
    have cs: "cs = ?n @ ?r" by simp
    have "length (drop 1 ?r) \<le> length cs" by (simp add: le_trans [OF diff_le_self length_dropWhile_le])
    with 2(1) [OF True] True r cs show ?thesis
      by (simp del: takeWhile_dropWhile_id)
  next
    case False
    then have "parse_template (c # cs) = TChar c # parse_template cs"
      by (simp only: parse_template.simps if_not_P [OF False] if_False)
    with 2(2) [OF False] show ?thesis by simp
  qed
qed

end
