(* ===== verification/App_Main.thy ===== *)
theory App_Main
  imports App_Routing
begin

text \<open>
  The application of \<^verbatim>\<open>main.py\<close> around its routers: FastAPI's answer for a
  handler's result or a routing failure, the two middlewares of
  \<^verbatim>\<open>create_application\<close> (CORS and the request timer), the whole application
  on one request (\<open>app_call\<close>), and the bridge between the requests of the
  mentorship model (\<open>Mentorship_System\<close>) and HTTP. The lemmas show that FastAPI
  delivers every mentorship request to the handler the model's router uses, that a
  path under a router's prefix is answered by that router alone whatever the other
  routers hold, and what the application answers for routing failures and
  cross-origin requests.
\<close>

subsection \<open>Responses and the middleware stack\<close>

text \<open>A JSON value of a request body.\<close>

datatype json = JStr string | JInt int | JBool bool | JNull | JArr "json list"

record http_request =
  hr_method :: http_method
  hr_path :: string
  hr_headers :: "(string \<times> string) list"
  hr_query :: "(string \<times> string) list"
  hr_body :: "(string \<times> json) list option"

text \<open>
  A field of the JSON body and a query parameter as the handlers receive them. A
  request without a body has no field. \<^verbatim>\<open>json.loads\<close> and Starlette's
  \<^verbatim>\<open>QueryParams\<close> both keep the last of repeated keys, so lookup is in the
  reversed list. Headers are read with \<open>map_of\<close>, the first match, as Starlette's
  \<^verbatim>\<open>Headers.get\<close> does.
\<close>

definition body_field :: "http_request \<Rightarrow> string \<Rightarrow> json option" where
  "body_field req k = (case hr_body req of None \<Rightarrow> None | Some kvs \<Rightarrow> map_of (rev kvs) k)"

definition query_str :: "http_request \<Rightarrow> string \<Rightarrow> string option" where
  "query_str req k = map_of (rev (hr_query req)) k"

datatype 'a resp_body = Detail string | Payload 'a | PlainText string | NoBody

record 'a http_response =
  resp_status :: nat
  resp_headers :: "(string \<times> string) list"
  resp_body :: "'a resp_body"

text \<open>
  A handler's result as FastAPI sends it: the decorator's status with the payload, or
  the status and detail of the raised \<^verbatim>\<open>HTTPException\<close>.
\<close>

definition endpoint_response :: "route \<Rightarrow> 'a result \<Rightarrow> 'a http_response" where
  "endpoint_response r res =
     (case res of
        Inl (HTTPException c d) \<Rightarrow> \<lparr>resp_status = c, resp_headers = [], resp_body = Detail d\<rparr>
      | Inr v \<Rightarrow> \<lparr>resp_status = rt_status r, resp_headers = [], resp_body = Payload v\<rparr>)"

definition router_response ::
  "route list \<Rightarrow> (route \<Rightarrow> (string \<times> string) list \<Rightarrow> http_request \<Rightarrow> 'a result) \<Rightarrow>
     http_request \<Rightarrow> 'a http_response" where
  "router_response rs call req =
     (case dispatch rs (hr_method req) (hr_path req) of
        Matched r ps \<Rightarrow> endpoint_response r (call r ps req)
      | MethodNotAllowed p \<Rightarrow>
          \<lparr>resp_status = 405, resp_headers = [(''allow'', method_name (rt_method p))],
           resp_body = Detail ''Method Not Allowed''\<rparr>
      | RedirectTo p \<Rightarrow> \<lparr>resp_status = 307, resp_headers = [(''location'', p)], resp_body = NoBody\<rparr>
      | NotFound \<Rightarrow> \<lparr>resp_status = 404, resp_headers = [], resp_body = Detail ''Not Found''\<rparr>)"

text \<open>
  \<^verbatim>\<open>CORSMiddleware(allow_origins=["*"], allow_credentials=True, allow_methods=["*"],
  allow_headers=["*"])\<close>: a request without an \<^verbatim>\<open>origin\<close> header passes unchanged;
  a preflight is answered by the middleware itself (\<^verbatim>\<open>preflight_response\<close>);
  any other response gets the wildcard origin, or the request's own origin and
  \<^verbatim>\<open>Vary: Origin\<close> when it carries cookies, and the credentials flag. Starlette
  expands \<^verbatim>\<open>allow_methods=["*"]\<close> to its seven methods, so a preflight asking for
  another method is refused with 400. With credentials allowed, the preflight echoes
  the origin and varies on it; with \<^verbatim>\<open>allow_headers=["*"]\<close> it echoes the
  requested headers. Header names are lower case, as Starlette sends them; the
  \<^verbatim>\<open>content-length\<close> and \<^verbatim>\<open>content-type\<close> of plain-text bodies are not modelled.
\<close>

definition cors_allow_methods :: "string list" where
  "cors_allow_methods = [''DELETE'', ''GET'', ''HEAD'', ''OPTIONS'', ''PATCH'', ''POST'', ''PUT'']"

definition cors_preflight_response :: "http_request \<Rightarrow> string \<Rightarrow> string \<Rightarrow> 'a http_response" where
  "cors_preflight_response req origin requested =
     (let hs = [(''vary'', ''Origin''),
                (''access-control-allow-methods'', ''DELETE, GET, HEAD, OPTIONS, PATCH, POST, PUT''),
                (''access-control-max-age'', ''600''), (''access-control-allow-credentials'', ''true''),
                (''access-control-allow-origin'', origin)] @
               (case map_of (hr_headers req) ''access-control-request-headers'' of
                  None \<Rightarrow> [] | Some h \<Rightarrow> [(''access-control-allow-headers'', h)])
      in if requested \<in> set cors_allow_methods
         then \<lparr>resp_status = 200, resp_headers = hs, resp_body = PlainText ''OK''\<rparr>
         else \<lparr>resp_status = 400, resp_headers = hs, resp_body = PlainText ''Disallowed CORS method''\<rparr>)"

definition cors_middleware :: "http_request \<Rightarrow> 'a http_response \<Rightarrow> 'a http_response" where
  "cors_middleware req inner =
     (case map_of (hr_headers req) ''origin'' of
        None \<Rightarrow> inner
      | Some origin \<Rightarrow>
          (case (hr_method req, map_of (hr_headers req) ''access-control-request-method'') of
             (OPTIONS, Some requested) \<Rightarrow> cors_preflight_response req origin requested
           | _ \<Rightarrow>
               (let cookie = map_of (hr_headers req) ''cookie'' \<noteq> None
                in inner\<lparr>resp_headers := resp_headers inner @
                     [(''access-control-allow-origin'', if cookie then origin else ''*''),
                      (''access-control-allow-credentials'', ''true'')] @
                     (if cookie then [(''vary'', ''Origin'')] else [])\<rparr>)))"

definition add_request_timing :: "string \<Rightarrow> 'a http_response \<Rightarrow> 'a http_response" where
  "add_request_timing duration response =
     response\<lparr>resp_headers := resp_headers response @ [(''X-Process-Time'', duration)]\<rparr>"

text \<open>
  The application on one request: timing outside, CORS inside it, the router inside
  both. The handlers are the parameter \<open>call\<close>; the elapsed time, formatted by
  Python's \<^verbatim>\<open>str\<close>, is the parameter \<open>duration\<close>.
\<close>

definition app_call ::
  "settings \<Rightarrow> (string \<Rightarrow> route list) \<Rightarrow>
     (route \<Rightarrow> (string \<times> string) list \<Rightarrow> http_request \<Rightarrow> 'a result) \<Rightarrow> string \<Rightarrow>
     http_request \<Rightarrow> 'a http_response" where
  "app_call cfg other call duration req =
     add_request_timing duration
       (cors_middleware req (router_response (app_routes cfg other) call req))"

subsection \<open>The mentorship router behind the application\<close>

text \<open>
  The bridge between the requests of \<open>Mentorship_System\<close> and HTTP: a request is
  sent as the method and path of its decorator, with its data in the query or the JSON
  body as the handler's signature takes it; a mentorship id travels as its decimal
  digits. \<open>from_http\<close> is FastAPI's parameter binding for the seven endpoints.
\<close>

definition digit_char :: "nat \<Rightarrow> char" where
  "digit_char k = ''0123456789'' ! k"

fun decimal :: "nat \<Rightarrow> string" where
  "decimal n = (if n < 10 then [digit_char n] else decimal (n div 10) @ [digit_char (n mod 10)])"

declare decimal.simps [simp del]

definition digit_val :: "char \<Rightarrow> nat" where
  "digit_val c = of_char c - 48"

definition parse_decimal :: "string \<Rightarrow> nat option" where
  "parse_decimal s =
     (if s \<noteq> [] \<and> set s \<subseteq> set ''0123456789''
      then Some (foldl (\<lambda>a c. 10 * a + digit_val c) 0 s) else None)"

definition mentorships_prefix :: "settings \<Rightarrow> string" where
  "mentorships_prefix cfg = API_V1_STR cfg @ ''/mentorships''"

fun to_http :: "settings \<Rightarrow> request \<Rightarrow> http_request" where
  "to_http cfg GetMentees =
     \<lparr>hr_method = GET, hr_path = mentorships_prefix cfg @ ''/mentees'', hr_headers = [],
      hr_query = [], hr_body = None\<rparr>"
| "to_http cfg GetMentors =
     \<lparr>hr_method = GET, hr_path = mentorships_prefix cfg @ ''/mentors'', hr_headers = [],
      hr_query = [], hr_body = None\<rparr>"
| "to_http cfg (AvailableMentors q) =
     \<lparr>hr_method = GET, hr_path = mentorships_prefix cfg @ ''/available-mentors'', hr_headers = [],
      hr_query = (case q of None \<Rightarrow> [] | Some f \<Rightarrow> [(''skill_focus'', f)]), hr_body = None\<rparr>"
| "to_http cfg (CreateMentorship mentor focus) =
     \<lparr>hr_method = POST, hr_path = mentorships_prefix cfg, hr_headers = [], hr_query = [],
      hr_body = Some [(''mentor_id'', JStr mentor), (''skill_focus'', JStr focus)]\<rparr>"
| "to_http cfg (GetMentorship i) =
     \<lparr>hr_method = GET, hr_path = mentorships_prefix cfg @ ''/'' @ decimal i, hr_headers = [],
      hr_query = [], hr_body = None\<rparr>"
| "to_http cfg (UpdateMentorship i st) =
     \<lparr>hr_method = PATCH, hr_path = mentorships_prefix cfg @ ''/'' @ decimal i, hr_headers = [],
      hr_query = [], hr_body = Some [(''status'', JStr st)]\<rparr>"
| "to_http cfg (CancelMentorship i) =
     \<lparr>hr_method = DELETE, hr_path = mentorships_prefix cfg @ ''/'' @ decimal i, hr_headers = [],
      hr_query = [], hr_body = None\<rparr>"

text \<open>A required string field of the body: present and a JSON string.\<close>

definition body_str :: "http_request \<Rightarrow> string \<Rightarrow> string option" where
  "body_str req k = (case body_field req k of Some (JStr v) \<Rightarrow> Some v | _ \<Rightarrow> None)"

text \<open>
  A path id is a string that the handlers compare with the table's ids, which are the
  decimal forms of the counter: a string names a row only in that form.
\<close>

definition canonical_id :: "string \<Rightarrow> nat option" where
  "canonical_id v = (case parse_decimal v of Some i \<Rightarrow> if decimal i = v then Some i else None | None \<Rightarrow> None)"

definition mentorship_id_param :: "(string \<times> string) list \<Rightarrow> nat option" where
  "mentorship_id_param ps = (case map_of ps ''mentorship_id'' of None \<Rightarrow> None | Some v \<Rightarrow> canonical_id v)"

fun from_http :: "endpoint \<Rightarrow> (string \<times> string) list \<Rightarrow> http_request \<Rightarrow> request option" where
  "from_http E_get_my_mentees ps req = Some GetMentees"
| "from_http E_get_my_mentors ps req = Some GetMentors"
| "from_http E_get_available_mentors ps req =
     Some (AvailableMentors (query_str req ''skill_focus''))"
| "from_http E_create_mentorship ps req =
     (case (body_str req ''mentor_id'', body_str req ''skill_focus'') of
        (Some m, Some f) \<Rightarrow> Some (CreateMentorship m f)
      | _ \<Rightarrow> None)"
| "from_http E_get_mentorship ps req = map_option GetMentorship (mentorship_id_param ps)"
| "from_http E_update_mentorship ps req =
     (case (mentorship_id_param ps, body_str req ''status'') of
        (Some i, Some st) \<Rightarrow> Some (UpdateMentorship i st)
      | _ \<Rightarrow> None)"
| "from_http E_cancel_mentorship ps req = map_option CancelMentorship (mentorship_id_param ps)"
| "from_http _ ps req = None"

text \<open>The request the application hands to a mentorship handler, if any.\<close>

definition app_request :: "settings \<Rightarrow> (string \<Rightarrow> route list) \<Rightarrow> http_request \<Rightarrow> request option" where
  "app_request cfg other req =
     (case dispatch (app_routes cfg other) (hr_method req) (hr_path req) of
        Matched r ps \<Rightarrow> from_http (rt_endpoint r) ps req
      | _ \<Rightarrow> None)"

definition plain_request :: "http_method \<Rightarrow> string \<Rightarrow> (string \<times> string) list \<Rightarrow> http_request" where
  "plain_request m p hs = \<lparr>hr_method = m, hr_path = p, hr_headers = hs, hr_query = [], hr_body = None\<rparr>"

subsection \<open>Lemmas\<close>

lemma digit_char_val:
  assumes "k < 10"
  shows "digit_char k \<in> set ''0123456789'' \<and> digit_val (digit_char k) = k"
proof -
  from assms have "k \<in> {0, 1, 2, 3, 4, 5, 6, 7, 8, 9}" by auto
  then show ?thesis by (auto simp: digit_char_def digit_val_def)
qed

lemma decimal_digits: "decimal n \<noteq> [] \<and> set (decimal n) \<subseteq> set ''0123456789''"
proof (induction n rule: decimal.induct)
  case (1 n)
  then show ?case
    using digit_char_val [of n] digit_char_val [of "n mod 10"]
    by (auto simp add: decimal.simps [of n])
qed

lemma foldl_decimal: "foldl (\<lambda>a c. 10 * a + digit_val c) 0 (decimal n) = n"
proof (induction n rule: decimal.induct)
  case (1 n)
  then show ?case
    using digit_char_val [of n] digit_char_val [of "n mod 10"]
    by (auto simp add: decimal.simps [of n])
qed

lemma parse_decimal_decimal: "parse_decimal (decimal n) = Some n"
  using decimal_digits [of n] foldl_decimal [of n] by (simp add: parse_decimal_def)

lemma canonical_id_decimal: "canonical_id (decimal n) = Some n"
  by (simp add: canonical_id_def parse_decimal_decimal)

lemma decimal_Cons:
  obtains c cs where "decimal n = c # cs" and "c \<noteq> CHR ''m''" and "c \<noteq> CHR ''a''"
    and "CHR ''/'' \<notin> set (c # cs)"
proof -
  obtain c cs where d: "decimal n = c # cs" using decimal_digits [of n] by (cases "decimal n") auto
  with decimal_digits [of n] have "set (c # cs) \<subseteq> set ''0123456789''" by simp
  then have "c \<noteq> CHR ''m''" "c \<noteq> CHR ''a''" "CHR ''/'' \<notin> set (c # cs)" by auto
  with d that show ?thesis by blast
qed

lemma tmatch_param_segment:
  assumes "CHR ''/'' \<notin> set xs" and "xs \<noteq> []"
  shows "tmatch [TParam n] xs = Some [(n, xs)]"
proof -
  have t: "takeWhile (\<lambda>x. x \<noteq> CHR ''/'') xs = xs"
    using assms(1) by (auto simp: takeWhile_eq_all_conv)
  obtain k where k: "length xs = Suc k" using assms(2) by (cases xs) auto
  show ?thesis by (simp add: t k)
qed

lemma mentorship_dispatch:
  assumes "API_V1_STR cfg = ''/api/v1''"
  shows "dispatch (app_routes cfg other) (hr_method (to_http cfg req)) (hr_path (to_http cfg req)) =
    dispatch (include_router ''/api/v1/mentorships'' mentorship_routes)
      (hr_method (to_http cfg req)) (hr_path (to_http cfg req))"
proof -
  have "prefix (''/api/v1'' @ ''/mentorships'') (hr_path (to_http cfg req))"
    using assms by (cases req) (auto simp: mentorships_prefix_def)
  from app_dispatch_src_mount [OF assms _ this] show ?thesis
    by (simp add: src_mounts_def)
qed

lemma path_params_literal:
  "CHR ''{'' \<notin> set q \<Longrightarrow> path_params q p = (if p = q then Some [] else None)"
  using parse_template_literal [of q "[]"] tmatch_literal [of q "[]" p]
  by (auto simp: path_params_def prefix_def)

lemma path_params_mounted:
  assumes "CHR ''{'' \<notin> set P"
  shows "path_params (P @ t) (P @ s) = path_params t s"
    "path_params P (P @ s) = path_params [] s"
    "path_params (P @ t) P = path_params t []"
    "path_params P P = Some []"
  using path_params_literal [OF assms] parse_template_literal [OF assms, of t]
  by (simp_all add: path_params_def tmatch_literal)

lemma path_params_mentorship_id:
  "path_params ''/{mentorship_id}'' (CHR ''/'' # x) = tmatch [TParam ''mentorship_id''] x"
  "path_params ''/{mentorship_id}'' [] = None"
  by (simp_all add: path_params_def)

lemma map_of_optional_param:
  "map_of (rev (case q of None \<Rightarrow> [] | Some f \<Rightarrow> [(k, f)])) k = q"
  by (cases q) simp_all

lemma mentorships_prefix_literal:
  "API_V1_STR cfg = ''/api/v1'' \<Longrightarrow> CHR ''{'' \<notin> set (mentorships_prefix cfg)"
  by (simp add: mentorships_prefix_def)

lemma app_dispatch_mentorships:
  assumes cfg: "API_V1_STR cfg = ''/api/v1''"
  shows "dispatch (app_routes cfg other) m (mentorships_prefix cfg @ s) =
           dispatch (include_router (mentorships_prefix cfg) mentorship_routes) m (mentorships_prefix cfg @ s)"
  using app_dispatch_src_mount [OF cfg, of "''/mentorships''" mentorship_routes "mentorships_prefix cfg @ s"]
    cfg by (simp add: src_mounts_def mentorships_prefix_def)


lemma toggle_mentorships_slash:
  "API_V1_STR cfg = ''/api/v1'' \<Longrightarrow> toggle_slash (mentorships_prefix cfg @ ''/'') = mentorships_prefix cfg"
  by (simp add: mentorships_prefix_def toggle_slash_def rstrip_slash_def)

lemmas mounted_mentorship_simps =
  include_router_def mentorship_routes_def dispatch_def route_matches_def
  path_params_literal path_params_mentorship_id

lemma mentorships_prefix_nonempty: "API_V1_STR cfg = ''/api/v1'' \<Longrightarrow> mentorships_prefix cfg \<noteq> []"
  by (simp add: mentorships_prefix_def)

lemma mentorship_dispatch_examples:
  assumes cfg: "API_V1_STR cfg = ''/api/v1''"
  shows "dispatch (app_routes cfg other) GET ''/api/v1/mentorships/available-mentors'' =
      Matched \<lparr>rt_method = GET, rt_path = ''/api/v1/mentorships/available-mentors'',
           rt_endpoint = E_get_available_mentors, rt_status = 200\<rparr> []"
    "dispatch (app_routes cfg other) PUT ''/api/v1/mentorships/7'' =
      MethodNotAllowed \<lparr>rt_method = GET, rt_path = ''/api/v1/mentorships/{mentorship_id}'',
           rt_endpoint = E_get_mentorship, rt_status = 200\<rparr>"
    "dispatch (app_routes cfg other) GET ''/api/v1/mentorships/'' = RedirectTo ''/api/v1/mentorships''"
proof -
  note pm = path_params_mounted [OF mentorships_prefix_literal [OF cfg]]
  have "dispatch (app_routes cfg other) GET (mentorships_prefix cfg @ ''/available-mentors'') =
      Matched \<lparr>rt_method = GET, rt_path = mentorships_prefix cfg @ ''/available-mentors'',
           rt_endpoint = E_get_available_mentors, rt_status = 200\<rparr> []"
    using pm by (simp only: app_dispatch_mentorships [OF cfg]) (simp add: mounted_mentorship_simps)
  then show "dispatch (app_routes cfg other) GET ''/api/v1/mentorships/available-mentors'' =
      Matched \<lparr>rt_method = GET, rt_path = ''/api/v1/mentorships/available-mentors'',
           rt_endpoint = E_get_available_mentors, rt_status = 200\<rparr> []"
    using cfg by (simp add: mentorships_prefix_def)
  have "dispatch (app_routes cfg other) PUT (mentorships_prefix cfg @ ''/7'') =
      MethodNotAllowed \<lparr>rt_method = GET, rt_path = mentorships_prefix cfg @ ''/{mentorship_id}'',
           rt_endpoint = E_get_mentorship, rt_status = 200\<rparr>"
    using pm by (simp only: app_dispatch_mentorships [OF cfg]) (simp add: mounted_mentorship_simps)
  then show "dispatch (app_routes cfg other) PUT ''/api/v1/mentorships/7'' =
      MethodNotAllowed \<lparr>rt_method = GET, rt_path = ''/api/v1/mentorships/{mentorship_id}'',
           rt_endpoint = E_get_mentorship, rt_status = 200\<rparr>"
    using cfg by (simp add: mentorships_prefix_def)
  have "dispatch (app_routes cfg other) GET (mentorships_prefix cfg @ ''/'') =
      RedirectTo (mentorships_prefix cfg)"
    using pm toggle_mentorships_slash [OF cfg] mentorships_prefix_nonempty [OF cfg]
    by (simp only: app_dispatch_mentorships [OF cfg]) (simp add: mounted_mentorship_simps)
  then show "dispatch (app_routes cfg other) GET ''/api/v1/mentorships/'' = RedirectTo ''/api/v1/mentorships''"
    using cfg by (simp add: mentorships_prefix_def)
qed

lemma default_settings_api: "API_V1_STR (projr (build_settings (\<lambda>_. None))) = ''/api/v1''"
  by (simp add: build_settings_def settings_fields_def no_after_def environment_literals_def
      settings_of_data_def)

subsection \<open>Properties of the application\<close>

text \<open>
  C27: the mentorship API behind FastAPI. With the default API prefix and whatever
  routes the routers outside \<^verbatim>\<open>src\<close> hold, the HTTP form of every request of the
  mentorship model (method, path, query and body as the handlers' signatures take
  them) is routed to the endpoint of that request and bound back to the same request:
  the literal routes \<^verbatim>\<open>/mentees\<close>, \<^verbatim>\<open>/mentors\<close>, \<^verbatim>\<open>/available-mentors\<close> are
  not shadowed by \<^verbatim>\<open>/{mentorship_id}\<close>, and an id travels through the path intact.
\<close>

theorem mentorship_http_roundtrip:
  assumes cfg: "API_V1_STR cfg = ''/api/v1''"
  shows "app_request cfg other (to_http cfg req) = Some req"
proof -
  have d: "app_request cfg other (to_http cfg req) =
     (case dispatch (include_router (mentorships_prefix cfg) mentorship_routes)
         (hr_method (to_http cfg req)) (hr_path (to_http cfg req)) of
        Matched r ps \<Rightarrow> from_http (rt_endpoint r) ps (to_http cfg req) | _ \<Rightarrow> None)"
    using mentorship_dispatch [OF cfg] cfg by (simp add: app_request_def mentorships_prefix_def)
  let ?i = "case req of GetMentorship i \<Rightarrow> i | UpdateMentorship i _ \<Rightarrow> i
      | CancelMentorship i \<Rightarrow> i | _ \<Rightarrow> 0"
  obtain c cs where dec: "decimal ?i = c # cs" and c: "c \<noteq> CHR ''m''" "c \<noteq> CHR ''a''"
    and sl: "CHR ''/'' \<notin> set (c # cs)"
    by (rule decimal_Cons)
  have seg: "tmatch [TParam n] (c # cs) = Some [(n, c # cs)]" for n
    using sl by (rule tmatch_param_segment) simp
  note pm = path_params_mounted [OF mentorships_prefix_literal [OF cfg]]
  show ?thesis
    unfolding d
    using dec c seg canonical_id_decimal [of ?i]
    by (cases req)
      (simp_all add: include_router_def mentorship_routes_def dispatch_def
        route_matches_def pm path_params_literal path_params_mentorship_id mentorship_id_param_def
        body_str_def body_field_def query_str_def
        map_of_optional_param)
qed

text \<open>
  C28: the routers under \<^verbatim>\<open>src\<close> are isolated. For a path under the prefix of the
  achievements, projects, mentorships, notifications or settings router, the
  application's answer is that router's answer alone, and it does not depend on the
  routes of the routers that are not among the sources.
\<close>

theorem app_router_isolation:
  assumes cfg: "API_V1_STR cfg = ''/api/v1''" and mnt: "(res, rs) \<in> set src_mounts"
    and p: "prefix (''/api/v1'' @ res) path"
  shows "dispatch (app_routes cfg other) m path =
           dispatch (include_router (''/api/v1'' @ res) rs) m path \<and>
         dispatch (app_routes cfg other) m path = dispatch (app_routes cfg other') m path"
  using app_dispatch_src_mount [OF cfg mnt p, of other m] app_dispatch_src_mount [OF cfg mnt p, of other' m]
  by simp

text \<open>
  C29: what the application answers around its handlers. A literal route is reached
  before a parameter route of the same router; a path that only a route of another
  method matches is answered 405 with an \<^verbatim>\<open>Allow\<close> header naming that route's
  method; a path with a trailing slash is redirected (307) to the path without it;
  every response carries the timing header last; and the CORS middleware grants any
  origin with credentials, echoing it (with \<^verbatim>\<open>Vary: Origin\<close>) on requests with
  cookies and on preflights, which it answers 200 for the seven methods Starlette
  knows and 400 \<^verbatim>\<open>Disallowed CORS method\<close> for any other, although the configuration
  lists two allowed origins.
\<close>

theorem app_call_outcomes:
  assumes cfg: "API_V1_STR cfg = ''/api/v1''"
  shows
   "app_call cfg other call dur (plain_request GET ''/api/v1/mentorships/available-mentors'' []) =
      add_request_timing dur
        (endpoint_response
          \<lparr>rt_method = GET, rt_path = ''/api/v1/mentorships/available-mentors'',
           rt_endpoint = E_get_available_mentors, rt_status = 200\<rparr>
          (call \<lparr>rt_method = GET, rt_path = ''/api/v1/mentorships/available-mentors'',
                 rt_endpoint = E_get_available_mentors, rt_status = 200\<rparr> []
             (plain_request GET ''/api/v1/mentorships/available-mentors'' []))) \<and>
    app_call cfg other call dur (plain_request PUT ''/api/v1/mentorships/7'' [(''origin'', origin)]) =
      \<lparr>resp_status = 405,
       resp_headers = [(''allow'', ''GET''), (''access-control-allow-origin'', ''*''),
                       (''access-control-allow-credentials'', ''true''), (''X-Process-Time'', dur)],
       resp_body = Detail ''Method Not Allowed''\<rparr> \<and>
    app_call cfg other call dur
      (plain_request GET ''/api/v1/mentorships/'' [(''origin'', origin), (''cookie'', k)]) =
      \<lparr>resp_status = 307,
       resp_headers = [(''location'', ''/api/v1/mentorships''),
                       (''access-control-allow-origin'', origin),
                       (''access-control-allow-credentials'', ''true''), (''vary'', ''Origin''),
                       (''X-Process-Time'', dur)],
       resp_body = NoBody\<rparr> \<and>
    app_call cfg other call dur
      (plain_request OPTIONS path [(''origin'', origin), (''access-control-request-method'', meth)]) =
      \<lparr>resp_status = (if meth \<in> set cors_allow_methods then 200 else 400),
       resp_headers = [(''vary'', ''Origin''),
                       (''access-control-allow-methods'', ''DELETE, GET, HEAD, OPTIONS, PATCH, POST, PUT''),
                       (''access-control-max-age'', ''600''), (''access-control-allow-credentials'', ''true''),
                       (''access-control-allow-origin'', origin), (''X-Process-Time'', dur)],
       resp_body = PlainText (if meth \<in> set cors_allow_methods then ''OK'' else ''Disallowed CORS method'')\<rparr>"
  using mentorship_dispatch_examples [OF cfg, of other]
  by (simp add: app_call_def router_response_def cors_middleware_def cors_preflight_response_def
      plain_request_def add_request_timing_def Let_def)

theorem mentorship_http_roundtrip_witness:
  "app_request (projr (build_settings (\<lambda>_. None))) (\<lambda>_. [])
     (to_http (projr (build_settings (\<lambda>_. None))) (UpdateMentorship 42 ''accepted'')) =
   Some (UpdateMentorship 42 ''accepted'')"
  using mentorship_http_roundtrip [OF default_settings_api] .

theorem app_router_isolation_witness:
  "dispatch (app_routes (projr (build_settings (\<lambda>_. None)))
       (\<lambda>_. [\<lparr>rt_method = GET, rt_path = ''/{anything}'', rt_endpoint = E_external ''users'' ''catch_all'',
              rt_status = 200\<rparr>]))
     GET ''/api/v1/mentorships/7'' =
   dispatch (include_router ''/api/v1/mentorships'' mentorship_routes) GET ''/api/v1/mentorships/7''"
proof -
  have mem: "(''/mentorships'', mentorship_routes) \<in> set src_mounts" by (simp add: src_mounts_def)
  have pre: "prefix (''/api/v1'' @ ''/mentorships'') ''/api/v1/mentorships/7''" by simp
  from app_router_isolation [OF default_settings_api mem pre] show ?thesis by simp
qed

theorem app_call_outcomes_witness:
  "app_call (projr (build_settings (\<lambda>_. None))) (\<lambda>_. []) (\<lambda>_ _ _. Inr (0::nat)) ''0.0012''
     (plain_request PUT ''/api/v1/mentorships/7'' [(''origin'', ''https://evil.example'')]) =
   \<lparr>resp_status = 405,
    resp_headers = [(''allow'', ''GET''), (''access-control-allow-origin'', ''*''),
                    (''access-control-allow-credentials'', ''true''), (''X-Process-Time'', ''0.0012'')],
    resp_body = Detail ''Method Not Allowed''\<rparr>"
  using app_call_outcomes [OF default_settings_api] by blast

end
