(* ===== verification/Achievements.thy ===== *)
theory Achievements
  imports Prelude
begin

text \<open>
  The achievements router (\<^verbatim>\<open>api/endpoints/achievements.py\<close>): a user lists, creates,
  reads and deletes achievements; reading and deleting check that the caller owns the
  row (404 before 403, as in the mentorship handlers). The data-access module
  \<^verbatim>\<open>app.crud.achievement\<close> and the schemas are not among the sources; they are the
  specification's CRUD collaborator (section 1: create, get, list, delete), modelled as
  operations on a list of rows with an id counter.
\<close>

record achievement =
  ach_id :: rid
  ach_user_id :: uid
  ach_title :: string
  ach_description :: "string option"
  badge_name :: "string option"
  icon_url :: "string option"

record ach_db =
  achievements :: "achievement list"
  next_aid :: rid

record achievement_create =
  ac_title :: string
  ac_description :: "string option"
  ac_badge_name :: "string option"
  ac_icon_url :: "string option"

record achievement_list =
  al_achievements :: "achievement list"
  al_total_count :: nat

definition crud_get_user_achievements :: "ach_db \<Rightarrow> uid \<Rightarrow> achievement list" where
  "crud_get_user_achievements s u = filter (\<lambda>a. ach_user_id a = u) (achievements s)"

definition crud_get_achievement :: "ach_db \<Rightarrow> rid \<Rightarrow> achievement option" where
  "crud_get_achievement s i = find (\<lambda>a. ach_id a = i) (achievements s)"

definition crud_create_achievement ::
  "ach_db \<Rightarrow> uid \<Rightarrow> string \<Rightarrow> string option \<Rightarrow> string option \<Rightarrow> string option \<Rightarrow>
     achievement \<times> ach_db" where
  "crud_create_achievement s u t d b ic =
     (let a = \<lparr>ach_id = next_aid s, ach_user_id = u, ach_title = t, ach_description = d,
               badge_name = b, icon_url = ic\<rparr>
      in (a, s\<lparr>achievements := achievements s @ [a], next_aid := Suc (next_aid s)\<rparr>))"

definition crud_delete_achievement :: "ach_db \<Rightarrow> rid \<Rightarrow> ach_db" where
  "crud_delete_achievement s i = s\<lparr>achievements := filter (\<lambda>a. ach_id a \<noteq> i) (achievements s)\<rparr>"

definition ach_wf :: "ach_db \<Rightarrow> bool" where
  "ach_wf s \<longleftrightarrow> distinct (map ach_id (achievements s)) \<and>
     list_all (\<lambda>a. ach_id a < next_aid s) (achievements s)"

definition get_my_achievements :: "ach_db \<Rightarrow> uid \<Rightarrow> achievement_list" where
  "get_my_achievements s cur =
     (let xs = crud_get_user_achievements s cur
      in \<lparr>al_achievements = xs, al_total_count = length xs\<rparr>)"

definition create_achievement ::
  "ach_db \<Rightarrow> uid \<Rightarrow> achievement_create \<Rightarrow> achievement \<times> ach_db" where
  "create_achievement s cur a_in =
     crud_create_achievement s cur (ac_title a_in) (ac_description a_in)
       (ac_badge_name a_in) (ac_icon_url a_in)"

definition get_achievement :: "ach_db \<Rightarrow> uid \<Rightarrow> rid \<Rightarrow> achievement result" where
  "get_achievement s cur i =
     (case crud_get_achievement s i of
        None \<Rightarrow> raise 404 ''Achievement not found''
      | Some a \<Rightarrow> if ach_user_id a \<noteq> cur then raise 403 ''Access denied'' else Inr a)"

definition delete_achievement :: "ach_db \<Rightarrow> uid \<Rightarrow> rid \<Rightarrow> ach_db result" where
  "delete_achievement s cur i =
     (case crud_get_achievement s i of
        None \<Rightarrow> raise 404 ''Achievement not found''
      | Some a \<Rightarrow>
          if ach_user_id a \<noteq> cur then raise 403 ''Access denied''
          else Inr (crud_delete_achievement s i))"

lemmas achievement_endpoint_defs [endpoint_simps] =
  get_my_achievements_def create_achievement_def get_achievement_def delete_achievement_def

lemma crud_get_achievement_row:
  "ach_wf s \<Longrightarrow> a \<in> set (achievements s) \<Longrightarrow> crud_get_achievement s (ach_id a) = Some a"
  unfolding crud_get_achievement_def ach_wf_def by (blast intro: find_key_distinct)

lemma crud_get_achievement_Some:
  "crud_get_achievement s i = Some a \<Longrightarrow> a \<in> set (achievements s) \<and> ach_id a = i"
  unfolding crud_get_achievement_def by (rule find_Some_in_set)

lemma ach_wf_create: "ach_wf s \<Longrightarrow> ach_wf (snd (create_achievement s u a_in))"
  by (auto simp: ach_wf_def create_achievement_def crud_create_achievement_def Let_def
      list_all_iff)

lemma ach_wf_delete: "ach_wf s \<Longrightarrow> ach_wf (crud_delete_achievement s i)"
  by (auto simp: ach_wf_def crud_delete_achievement_def list_all_iff distinct_filter_map)

lemma crud_get_achievement_after_delete:
  "crud_get_achievement (crud_delete_achievement s i) i = None"
  by (simp add: crud_get_achievement_def crud_delete_achievement_def find_filter_none)

subsection \<open>Properties of the achievements router\<close>

text \<open>
  C16: achievements are private to their owner. On an existing row, reading and
  deleting succeed for the owner (the delete removes exactly that row) and raise 403
  for every other caller.
\<close>

theorem achievement_owner_only:
  assumes "ach_wf s" and "a \<in> set (achievements s)"
  shows "get_achievement s u (ach_id a) =
           (if u = ach_user_id a then Inr a else raise 403 ''Access denied'') \<and>
         delete_achievement s u (ach_id a) =
           (if u = ach_user_id a
            then Inr (s\<lparr>achievements := filter (\<lambda>b. ach_id b \<noteq> ach_id a) (achievements s)\<rparr>)
            else raise 403 ''Access denied'')"
  using crud_get_achievement_row [OF assms]
  by (auto simp: get_achievement_def delete_achievement_def crud_delete_achievement_def)

theorem achievement_owner_only_witness:
  "get_achievement \<lparr>achievements = [\<lparr>ach_id = 0, ach_user_id = ''A'', ach_title = ''First PR'',
      ach_description = None, badge_name = None, icon_url = None\<rparr>], next_aid = 1\<rparr> ''B'' 0
     = raise 403 ''Access denied''"
proof -
  let ?a = "\<lparr>ach_id = 0, ach_user_id = ''A'', ach_title = ''First PR'',
      ach_description = None, badge_name = None, icon_url = None\<rparr>"
  let ?s = "\<lparr>achievements = [?a], next_aid = 1\<rparr>"
  have "ach_wf ?s" by (simp add: ach_wf_def)
  from achievement_owner_only [OF this, of ?a "''B''"] show ?thesis by simp
qed

text \<open>
  C17: creating an achievement and reading it back. The created row carries the
  submitted fields, belongs to the caller, is readable by the caller under its id, is
  in the caller's list, and the store stays well-formed.
\<close>

theorem achievement_create_roundtrip:
  assumes "ach_wf s" and "create_achievement s cur x = (a, s')"
  shows "get_achievement s' cur (ach_id a) = Inr a \<and>
         a \<in> set (al_achievements (get_my_achievements s' cur)) \<and>
         ach_title a = ac_title x \<and> ach_user_id a = cur \<and> ach_wf s'"
proof -
  have wf': "ach_wf s'" using ach_wf_create [OF assms(1), of cur x] assms(2) by simp
  from assms(2) have a: "a \<in> set (achievements s')" "ach_user_id a = cur" "ach_title a = ac_title x"
    by (auto simp: create_achievement_def crud_create_achievement_def Let_def)
  from crud_get_achievement_row [OF wf' a(1)] a wf' show ?thesis
    by (simp add: get_achievement_def get_my_achievements_def crud_get_user_achievements_def Let_def)
qed

theorem achievement_create_roundtrip_witness:
  "get_achievement \<lparr>achievements = [\<lparr>ach_id = 0, ach_user_id = ''A'', ach_title = ''First PR'',
      ach_description = None, badge_name = None, icon_url = None\<rparr>], next_aid = 1\<rparr> ''A'' 0
   = Inr \<lparr>ach_id = 0, ach_user_id = ''A'', ach_title = ''First PR'',
      ach_description = None, badge_name = None, icon_url = None\<rparr>"
proof -
  let ?x = "\<lparr>ac_title = ''First PR'', ac_description = None, ac_badge_name = None,
      ac_icon_url = None\<rparr>"
  let ?a = "\<lparr>ach_id = 0, ach_user_id = ''A'', ach_title = ''First PR'',
      ach_description = None, badge_name = None, icon_url = None\<rparr>"
  have wf: "ach_wf \<lparr>achievements = [], next_aid = 0\<rparr>" by (simp add: ach_wf_def)
  have c: "create_achievement \<lparr>achievements = [], next_aid = 0\<rparr> ''A'' ?x =
      (?a, \<lparr>achievements = [?a], next_aid = 1\<rparr>)"
    by (simp add: create_achievement_def crud_create_achievement_def Let_def)
  from achievement_create_roundtrip [OF wf c] show ?thesis by simp
qed

end
