(* ===== verification/Projects.thy ===== *)
theory Projects
  imports Prelude
begin

text \<open>
  The projects router (\<^verbatim>\<open>api/endpoints/projects.py\<close>): a portfolio of projects per
  user. Listing and creating act on the caller's own projects; updating and deleting
  check ownership (404, then 403); reading a single project and endorsing one check
  nothing but existence. \<^verbatim>\<open>update_project\<close> sends only the fields the client set
  (\<^verbatim>\<open>project_in.dict(exclude_unset=True)\<close>): the update payload has one option per
  field, \<open>None\<close> for a field left unset, and for a nullable field \<open>Some None\<close> for an
  explicit null. The data-access module \<^verbatim>\<open>app.crud.project\<close> and the schemas are not
  among the sources and are modelled from the specification's CRUD collaborator.
\<close>

record project =
  proj_id :: rid
  proj_user_id :: uid
  proj_title :: string
  proj_description :: "string option"
  skills_used :: "string list"
  github_url :: "string option"
  demo_url :: "string option"
  image_url :: "string option"
  start_date :: "nat option"
  endorsements :: nat

record project_db =
  projects :: "project list"
  next_pid :: rid

record project_create =
  pc_title :: string
  pc_description :: "string option"
  pc_skills_used :: "string list"
  pc_github_url :: "string option"
  pc_demo_url :: "string option"
  pc_image_url :: "string option"
  pc_start_date :: "nat option"

record project_update =
  pu_title :: "string option"
  pu_description :: "string option option"
  pu_skills_used :: "string list option"
  pu_github_url :: "string option option"
  pu_demo_url :: "string option option"
  pu_image_url :: "string option option"
  pu_start_date :: "nat option option"

record project_list =
  pl_projects :: "project list"
  pl_total_count :: nat

text \<open>\<^verbatim>\<open>setattr\<close> of every field present in the update dictionary.\<close>

definition set_if :: "'a option \<Rightarrow> 'a \<Rightarrow> 'a" where
  "set_if u v = (case u of None \<Rightarrow> v | Some x \<Rightarrow> x)"

definition apply_project_update :: "project_update \<Rightarrow> project \<Rightarrow> project" where
  "apply_project_update u p =
     p\<lparr>proj_title := set_if (pu_title u) (proj_title p),
       proj_description := set_if (pu_description u) (proj_description p),
       skills_used := set_if (pu_skills_used u) (skills_used p),
       github_url := set_if (pu_github_url u) (github_url p),
       demo_url := set_if (pu_demo_url u) (demo_url p),
       image_url := set_if (pu_image_url u) (image_url p),
       start_date := set_if (pu_start_date u) (start_date p)\<rparr>"

definition crud_get_user_projects :: "project_db \<Rightarrow> uid \<Rightarrow> project list" where
  "crud_get_user_projects s u = filter (\<lambda>p. proj_user_id p = u) (projects s)"

definition crud_get_project :: "project_db \<Rightarrow> rid \<Rightarrow> project option" where
  "crud_get_project s i = find (\<lambda>p. proj_id p = i) (projects s)"

definition crud_create_project :: "project_db \<Rightarrow> uid \<Rightarrow> project_create \<Rightarrow> project \<times> project_db" where
  "crud_create_project s u c =
     (let p = \<lparr>proj_id = next_pid s, proj_user_id = u, proj_title = pc_title c,
               proj_description = pc_description c, skills_used = pc_skills_used c,
               github_url = pc_github_url c, demo_url = pc_demo_url c,
               image_url = pc_image_url c, start_date = pc_start_date c, endorsements = 0\<rparr>
      in (p, s\<lparr>projects := projects s @ [p], next_pid := Suc (next_pid s)\<rparr>))"

definition crud_modify_project ::
  "project_db \<Rightarrow> rid \<Rightarrow> (project \<Rightarrow> project) \<Rightarrow> project option \<times> project_db" where
  "crud_modify_project s i f =
     (case crud_get_project s i of
        None \<Rightarrow> (None, s)
      | Some p \<Rightarrow> (Some (f p),
          s\<lparr>projects := map (\<lambda>q. if proj_id q = i then f q else q) (projects s)\<rparr>))"

definition crud_update_project ::
  "project_db \<Rightarrow> rid \<Rightarrow> project_update \<Rightarrow> project option \<times> project_db" where
  "crud_update_project s i u = crud_modify_project s i (apply_project_update u)"

definition crud_increment_endorsements :: "project_db \<Rightarrow> rid \<Rightarrow> project option \<times> project_db" where
  "crud_increment_endorsements s i =
     crud_modify_project s i (\<lambda>p. p\<lparr>endorsements := Suc (endorsements p)\<rparr>)"

definition crud_delete_project :: "project_db \<Rightarrow> rid \<Rightarrow> project_db" where
  "crud_delete_project s i = s\<lparr>projects := filter (\<lambda>p. proj_id p \<noteq> i) (projects s)\<rparr>"

definition proj_wf :: "project_db \<Rightarrow> bool" where
  "proj_wf s \<longleftrightarrow> distinct (map proj_id (projects s)) \<and>
     list_all (\<lambda>p. proj_id p < next_pid s) (projects s)"

definition get_my_projects :: "project_db \<Rightarrow> uid \<Rightarrow> project_list" where
  "get_my_projects s cur =
     (let ps = crud_get_user_projects s cur in \<lparr>pl_projects = ps, pl_total_count = length ps\<rparr>)"

definition create_project :: "project_db \<Rightarrow> uid \<Rightarrow> project_create \<Rightarrow> project \<times> project_db" where
  "create_project s cur c = crud_create_project s cur c"

definition get_project :: "project_db \<Rightarrow> uid \<Rightarrow> rid \<Rightarrow> project result" where
  "get_project s cur i =
     (case crud_get_project s i of
        None \<Rightarrow> raise 404 ''Project not found''
      | Some p \<Rightarrow> Inr p)"

definition update_project ::
  "project_db \<Rightarrow> uid \<Rightarrow> rid \<Rightarrow> project_update \<Rightarrow> (project \<times> project_db) result" where
  "update_project s cur i u =
     (case crud_get_project s i of
        None \<Rightarrow> raise 404 ''Project not found''
      | Some p \<Rightarrow>
          if proj_user_id p \<noteq> cur then raise 403 ''Access denied''
          else (case crud_update_project s i u of
                  (Some p', s') \<Rightarrow> Inr (p', s')
                | (None, _) \<Rightarrow> raise 500 ''Internal server error''))"

definition delete_project :: "project_db \<Rightarrow> uid \<Rightarrow> rid \<Rightarrow> project_db result" where
  "delete_project s cur i =
     (case crud_get_project s i of
        None \<Rightarrow> raise 404 ''Project not found''
      | Some p \<Rightarrow>
          if proj_user_id p \<noteq> cur then raise 403 ''Access denied''
          else Inr (crud_delete_project s i))"

definition endorse_project :: "project_db \<Rightarrow> uid \<Rightarrow> rid \<Rightarrow> (project \<times> project_db) result" where
  "endorse_project s cur i =
     (case crud_increment_endorsements s i of
        (None, _) \<Rightarrow> raise 404 ''Project not found''
      | (Some p, s') \<Rightarrow> Inr (p, s'))"

text \<open>Endorsements by a sequence of callers, one request each, stopping at an error.\<close>

fun endorse_all :: "project_db \<Rightarrow> uid list \<Rightarrow> rid \<Rightarrow> project_db result" where
  "endorse_all s [] i = Inr s"
| "endorse_all s (c # cs) i =
     (case endorse_project s c i of
        Inl e \<Rightarrow> Inl e
      | Inr (_, s') \<Rightarrow> endorse_all s' cs i)"

lemmas project_endpoint_defs [endpoint_simps] =
  get_my_projects_def create_project_def get_project_def update_project_def
  delete_project_def endorse_project_def

lemma crud_get_project_row:
  "proj_wf s \<Longrightarrow> p \<in> set (projects s) \<Longrightarrow> crud_get_project s (proj_id p) = Some p"
  unfolding crud_get_project_def proj_wf_def by (blast intro: find_key_distinct)

lemma crud_get_project_Some:
  "crud_get_project s i = Some p \<Longrightarrow> p \<in> set (projects s) \<and> proj_id p = i"
  unfolding crud_get_project_def by (rule find_Some_in_set)

lemma proj_id_apply_update [simp]: "proj_id (apply_project_update u p) = proj_id p"
  by (simp add: apply_project_update_def)

lemma proj_user_id_apply_update [simp]: "proj_user_id (apply_project_update u p) = proj_user_id p"
  by (simp add: apply_project_update_def)

lemma endorsements_apply_update [simp]: "endorsements (apply_project_update u p) = endorsements p"
  by (simp add: apply_project_update_def)

text \<open>A key-preserving modification keeps the store well-formed and is read back.\<close>

lemma proj_wf_modify:
  assumes "proj_wf s" and "\<And>q. proj_id (f q) = proj_id q"
  shows "proj_wf (snd (crud_modify_project s i f))"
  using assms by (auto simp: proj_wf_def crud_modify_project_def list_all_iff split: option.split)

lemma crud_get_after_modify:
  assumes "proj_wf s" and "crud_get_project s i = Some p" and "\<And>q. proj_id (f q) = proj_id q"
  shows "crud_get_project (snd (crud_modify_project s i f)) i = Some (f p)"
proof -
  from assms(2) have p: "p \<in> set (projects s)" "proj_id p = i" by (auto dest: crud_get_project_Some)
  let ?ps = "map (\<lambda>q. if proj_id q = i then f q else q) (projects s)"
  have "f p \<in> set ?ps" using p by force
  moreover have "distinct (map proj_id ?ps)" using assms(1,3) by (simp add: proj_wf_def)
  ultimately have "find (\<lambda>q. proj_id q = i) ?ps = Some (f p)"
    using p(2) assms(3) by (intro find_key_distinct) simp_all
  with assms(2) show ?thesis by (simp add: crud_modify_project_def crud_get_project_def)
qed

lemma crud_modify_project_others:
  assumes "\<And>q. proj_id (f q) = proj_id q"
  shows "filter (\<lambda>q. proj_id q \<noteq> i) (projects (snd (crud_modify_project s i f))) =
           filter (\<lambda>q. proj_id q \<noteq> i) (projects s)"
proof -
  have "filter (\<lambda>q. proj_id q \<noteq> i) (map (\<lambda>q. if proj_id q = i then f q else q) qs) =
          filter (\<lambda>q. proj_id q \<noteq> i) qs" for qs
    by (induction qs) (simp_all add: assms)
  then show ?thesis by (simp add: crud_modify_project_def split: option.split)
qed

lemma endorse_project_existing:
  "crud_get_project s i = Some p \<Longrightarrow>
     endorse_project s c i = Inr (p\<lparr>endorsements := Suc (endorsements p)\<rparr>,
       snd (crud_increment_endorsements s i))"
  by (simp add: endorse_project_def crud_increment_endorsements_def crud_modify_project_def)

lemma endorse_all_existing:
  assumes "proj_wf s" and "crud_get_project s i = Some p"
  shows "\<exists>s'. endorse_all s cs i = Inr s' \<and> proj_wf s' \<and>
           crud_get_project s' i = Some (p\<lparr>endorsements := endorsements p + length cs\<rparr>)"
  using assms
proof (induction cs arbitrary: s p)
  case Nil
  then show ?case by simp
next
  case (Cons c cs)
  let ?f = "\<lambda>q. q\<lparr>endorsements := Suc (endorsements q)\<rparr>"
  let ?s1 = "snd (crud_increment_endorsements s i)"
  have wf1: "proj_wf ?s1"
    using proj_wf_modify [OF Cons.prems(1), of ?f i] by (simp add: crud_increment_endorsements_def)
  have g1: "crud_get_project ?s1 i = Some (?f p)"
    using crud_get_after_modify [OF Cons.prems, of ?f] by (simp add: crud_increment_endorsements_def)
  from Cons.IH [OF wf1 g1] obtain s' where
    "endorse_all ?s1 cs i = Inr s'" "proj_wf s'"
    "crud_get_project s' i = Some ((?f p)\<lparr>endorsements := endorsements (?f p) + length cs\<rparr>)"
    by blast
  with endorse_project_existing [OF Cons.prems(2), of c] show ?case by simp
qed

subsection \<open>Properties of the projects router\<close>

text \<open>
  C18: single projects are readable by anybody. On an existing project, a caller who
  does not own it reads it with 200, while updating and deleting it are refused with
  403; the achievements router, by contrast, checks ownership on reads (C16).
\<close>

theorem project_read_unguarded:
  assumes "proj_wf s" and "p \<in> set (projects s)" and "u \<noteq> proj_user_id p"
  shows "get_project s u (proj_id p) = Inr p \<and>
         update_project s u (proj_id p) upd = raise 403 ''Access denied'' \<and>
         delete_project s u (proj_id p) = raise 403 ''Access denied''"
  using crud_get_project_row [OF assms(1,2)] assms(3)
  by (simp add: get_project_def update_project_def delete_project_def)

theorem project_read_unguarded_witness:
  "get_project \<lparr>projects = [\<lparr>proj_id = 0, proj_user_id = ''A'', proj_title = ''Compass'',
      proj_description = None, skills_used = [''Go''], github_url = None, demo_url = None,
      image_url = None, start_date = None, endorsements = 0\<rparr>], next_pid = 1\<rparr> ''B'' 0
   = Inr \<lparr>proj_id = 0, proj_user_id = ''A'', proj_title = ''Compass'',
      proj_description = None, skills_used = [''Go''], github_url = None, demo_url = None,
      image_url = None, start_date = None, endorsements = 0\<rparr>"
proof -
  let ?p = "\<lparr>proj_id = 0, proj_user_id = ''A'', proj_title = ''Compass'',
      proj_description = None, skills_used = [''Go''], github_url = None, demo_url = None,
      image_url = None, start_date = None, endorsements = 0::nat\<rparr>"
  have wf: "proj_wf \<lparr>projects = [?p], next_pid = 1\<rparr>" by (simp add: proj_wf_def)
  from project_read_unguarded [OF wf, of ?p "''B''" undefined] show ?thesis by simp
qed

text \<open>
  C19: a partial update by the owner. A successful \<^verbatim>\<open>update_project\<close> was made by the
  project's owner. Each of the seven updatable fields takes the submitted value when
  the payload has it (for a nullable field, an explicit null included) and keeps its
  old value when the field was left unset; the id, the owner and the endorsement count
  are kept. The owner reads the updated project back, the store stays well-formed, and
  every other project is left as it was.
\<close>

theorem update_project_partial:
  assumes "proj_wf s" and "update_project s cur i u = Inr (p', s')"
  shows "(\<exists>p. crud_get_project s i = Some p \<and> proj_user_id p = cur \<and>
              proj_id p' = proj_id p \<and> proj_user_id p' = cur \<and> endorsements p' = endorsements p \<and>
              proj_title p' = (case pu_title u of None \<Rightarrow> proj_title p | Some v \<Rightarrow> v) \<and>
              proj_description p' = (case pu_description u of None \<Rightarrow> proj_description p | Some v \<Rightarrow> v) \<and>
              skills_used p' = (case pu_skills_used u of None \<Rightarrow> skills_used p | Some v \<Rightarrow> v) \<and>
              github_url p' = (case pu_github_url u of None \<Rightarrow> github_url p | Some v \<Rightarrow> v) \<and>
              demo_url p' = (case pu_demo_url u of None \<Rightarrow> demo_url p | Some v \<Rightarrow> v) \<and>
              image_url p' = (case pu_image_url u of None \<Rightarrow> image_url p | Some v \<Rightarrow> v) \<and>
              start_date p' = (case pu_start_date u of None \<Rightarrow> start_date p | Some v \<Rightarrow> v)) \<and>
         get_project s' cur i = Inr p' \<and> proj_wf s' \<and>
         filter (\<lambda>q. proj_id q \<noteq> i) (projects s') = filter (\<lambda>q. proj_id q \<noteq> i) (projects s)"
proof -
  from assms(2) obtain p where g: "crud_get_project s i = Some p" and o: "proj_user_id p = cur"
    and p': "p' = apply_project_update u p"
    and s': "s' = snd (crud_update_project s i u)"
    by (auto simp: update_project_def crud_update_project_def crud_modify_project_def
        split: option.splits if_splits)
  have "crud_get_project s' i = Some p'"
    using crud_get_after_modify [OF assms(1) g, of "apply_project_update u"] s' p'
    by (simp add: crud_update_project_def)
  moreover have "proj_wf s'"
    using proj_wf_modify [OF assms(1), of "apply_project_update u" i] s'
    by (simp add: crud_update_project_def)
  moreover have "filter (\<lambda>q. proj_id q \<noteq> i) (projects s') = filter (\<lambda>q. proj_id q \<noteq> i) (projects s)"
    using crud_modify_project_others [of "apply_project_update u" i s] s'
    by (simp add: crud_update_project_def)
  moreover have "proj_user_id p' = cur" "proj_id p' = proj_id p" "endorsements p' = endorsements p"
    using o p' by simp_all
  ultimately show ?thesis using g o p'
    by (simp add: get_project_def apply_project_update_def set_if_def)
qed

theorem update_project_partial_witness:
  "update_project \<lparr>projects = [\<lparr>proj_id = 0, proj_user_id = ''A'', proj_title = ''Compass'',
      proj_description = None, skills_used = [''Go''], github_url = None, demo_url = None,
      image_url = None, start_date = None, endorsements = 3\<rparr>], next_pid = 1\<rparr> ''A'' 0
     \<lparr>pu_title = Some ''CareerCompass'', pu_description = None, pu_skills_used = None,
      pu_github_url = None, pu_demo_url = Some (Some ''https://demo''), pu_image_url = None,
      pu_start_date = None\<rparr>
   = Inr (\<lparr>proj_id = 0, proj_user_id = ''A'', proj_title = ''CareerCompass'',
      proj_description = None, skills_used = [''Go''], github_url = None,
      demo_url = Some ''https://demo'', image_url = None, start_date = None, endorsements = 3\<rparr>,
      \<lparr>projects = [\<lparr>proj_id = 0, proj_user_id = ''A'', proj_title = ''CareerCompass'',
      proj_description = None, skills_used = [''Go''], github_url = None,
      demo_url = Some ''https://demo'', image_url = None, start_date = None, endorsements = 3\<rparr>],
      next_pid = 1\<rparr>) \<and>
   (\<exists>p. crud_get_project \<lparr>projects = [\<lparr>proj_id = 0, proj_user_id = ''A'', proj_title = ''Compass'',
      proj_description = None, skills_used = [''Go''], github_url = None, demo_url = None,
      image_url = None, start_date = None, endorsements = 3::nat\<rparr>], next_pid = 1\<rparr> 0 = Some p \<and>
      proj_user_id p = ''A'')"
proof -
  let ?p = "\<lparr>proj_id = 0, proj_user_id = ''A'', proj_title = ''Compass'',
      proj_description = None, skills_used = [''Go''], github_url = None, demo_url = None,
      image_url = None, start_date = None, endorsements = 3::nat\<rparr>"
  let ?s = "\<lparr>projects = [?p], next_pid = 1\<rparr>"
  let ?u = "\<lparr>pu_title = Some ''CareerCompass'', pu_description = None, pu_skills_used = None,
      pu_github_url = None, pu_demo_url = Some (Some ''https://demo''), pu_image_url = None,
      pu_start_date = None\<rparr>"
  let ?p' = "?p\<lparr>proj_title := ''CareerCompass'', demo_url := Some ''https://demo''\<rparr>"
  have wf: "proj_wf ?s" by (simp add: proj_wf_def)
  have u: "update_project ?s ''A'' 0 ?u = Inr (?p', \<lparr>projects = [?p'], next_pid = 1\<rparr>)"
    by (simp add: update_project_def crud_update_project_def crud_modify_project_def
        crud_get_project_def apply_project_update_def set_if_def)
  from update_project_partial [OF wf u] u show ?thesis by (simp add: crud_get_project_def)
qed

text \<open>
  C20: endorsements are counted per request, with no check of the endorser. Any
  sequence of endorsement requests on an existing project, by anybody, the owner and
  repeated callers included, succeeds and raises the count by the number of requests.
\<close>

theorem endorse_all_count:
  assumes "proj_wf s" and "crud_get_project s i = Some p"
  shows "\<exists>s'. endorse_all s cs i = Inr s' \<and>
           get_project s' c i = Inr (p\<lparr>endorsements := endorsements p + length cs\<rparr>)"
  using endorse_all_existing [OF assms, of cs] by (auto simp: get_project_def)

theorem endorse_all_count_witness:
  "\<exists>s'. endorse_all \<lparr>projects = [\<lparr>proj_id = 0, proj_user_id = ''A'', proj_title = ''Compass'',
      proj_description = None, skills_used = [], github_url = None, demo_url = None,
      image_url = None, start_date = None, endorsements = 0\<rparr>], next_pid = 1\<rparr> [''A'', ''A'', ''B''] 0
      = Inr s' \<and>
    get_project s' ''B'' 0 = Inr \<lparr>proj_id = 0, proj_user_id = ''A'', proj_title = ''Compass'',
      proj_description = None, skills_used = [], github_url = None, demo_url = None,
      image_url = None, start_date = None, endorsements = 3\<rparr>"
proof -
  let ?p = "\<lparr>proj_id = 0, proj_user_id = ''A'', proj_title = ''Compass'',
      proj_description = None, skills_used = [], github_url = None, demo_url = None,
      image_url = None, start_date = None, endorsements = 0::nat\<rparr>"
  let ?s = "\<lparr>projects = [?p], next_pid = 1\<rparr>"
  have wf: "proj_wf ?s" by (simp add: proj_wf_def)
  have g: "crud_get_project ?s 0 = Some ?p" by (simp add: crud_get_project_def)
  from endorse_all_count [OF wf g, of "[''A'', ''A'', ''B'']" "''B''"] show ?thesis
    by (simp add: numeral_3_eq_3)
qed

end
