(* ===== verification/Notifications.thy ===== *)
theory Notifications
  imports Prelude
begin

text \<open>
  The notifications router (\<^verbatim>\<open>api/endpoints/notifications.py\<close>). Notifications
  belong to a user and carry a read flag. The handlers page through the caller's
  notifications, mark them read one by one or in bulk, delete one, and count the
  unread ones. Two handlers search the caller's notifications with a \<^verbatim>\<open>for\<close> loop over
  a page returned by the data-access layer: \<^verbatim>\<open>mark_notification_read\<close> with the
  layer's default page size (a parameter \<open>dflt\<close> here: the module
  \<^verbatim>\<open>app.crud.notification\<close> is not among the sources) and \<^verbatim>\<open>delete_notification\<close>
  with an explicit page of 1000. The query parameters of \<^verbatim>\<open>get_notifications\<close> are
  Python ints validated by FastAPI (\<^verbatim>\<open>skip >= 0\<close>, \<^verbatim>\<open>1 <= limit <= 50\<close>; 422
  otherwise). The data-access functions are modelled from the specification's CRUD
  collaborator; the page of a user is taken in table order.
\<close>

record notification =
  nid :: rid
  n_user_id :: uid
  message :: string
  is_read :: bool

record notif_db =
  notifications :: "notification list"
  next_nid :: rid

record notification_list =
  nl_notifications :: "notification list"
  nl_total_count :: nat
  unread_count :: nat

definition crud_get_user_notifications ::
  "notif_db \<Rightarrow> uid \<Rightarrow> nat \<Rightarrow> nat \<Rightarrow> notification list" where
  "crud_get_user_notifications s u skip lim =
     take lim (drop skip (filter (\<lambda>n. n_user_id n = u) (notifications s)))"

definition crud_get_unread_count :: "notif_db \<Rightarrow> uid \<Rightarrow> nat" where
  "crud_get_unread_count s u =
     length (filter (\<lambda>n. n_user_id n = u \<and> \<not> is_read n) (notifications s))"

definition crud_mark_multiple_as_read :: "notif_db \<Rightarrow> rid list \<Rightarrow> nat \<times> notif_db" where
  "crud_mark_multiple_as_read s ids =
     (length (filter (\<lambda>n. nid n \<in> set ids) (notifications s)),
      s\<lparr>notifications :=
          map (\<lambda>n. if nid n \<in> set ids then n\<lparr>is_read := True\<rparr> else n) (notifications s)\<rparr>)"

definition crud_mark_as_read :: "notif_db \<Rightarrow> rid \<Rightarrow> notification option \<times> notif_db" where
  "crud_mark_as_read s i =
     (case find (\<lambda>n. nid n = i) (notifications s) of
        None \<Rightarrow> (None, s)
      | Some n \<Rightarrow> (Some (n\<lparr>is_read := True\<rparr>),
          s\<lparr>notifications :=
              map (\<lambda>m. if nid m = i then m\<lparr>is_read := True\<rparr> else m) (notifications s)\<rparr>))"

definition crud_delete_notification :: "notif_db \<Rightarrow> rid \<Rightarrow> notif_db" where
  "crud_delete_notification s i =
     s\<lparr>notifications := filter (\<lambda>n. nid n \<noteq> i) (notifications s)\<rparr>"

definition notif_wf :: "notif_db \<Rightarrow> bool" where
  "notif_wf s \<longleftrightarrow> distinct (map nid (notifications s))"

definition get_notifications ::
  "notif_db \<Rightarrow> uid \<Rightarrow> int \<Rightarrow> int \<Rightarrow> notification_list result" where
  "get_notifications s cur skip lim =
     (if skip < 0 \<or> lim < 1 \<or> 50 < lim then raise 422 ''Validation error''
      else
        (let ns = crud_get_user_notifications s cur (nat skip) (nat lim);
             unread = crud_get_unread_count s cur
         in Inr \<lparr>nl_notifications = ns, nl_total_count = length ns, unread_count = unread\<rparr>))"

definition mark_notifications_read :: "notif_db \<Rightarrow> uid \<Rightarrow> rid list \<Rightarrow> nat \<times> notif_db" where
  "mark_notifications_read s cur ids = crud_mark_multiple_as_read s ids"

text \<open>The \<^verbatim>\<open>for n in ...: if n.id == notification_id: ... break\<close> search.\<close>

fun search_loop :: "rid \<Rightarrow> notification list \<Rightarrow> notification option" where
  "search_loop i [] = None"
| "search_loop i (n # ns) = (if nid n = i then Some n else search_loop i ns)"

definition mark_notification_read ::
  "notif_db \<Rightarrow> nat \<Rightarrow> uid \<Rightarrow> rid \<Rightarrow> (notification \<times> notif_db) result" where
  "mark_notification_read s dflt cur i =
     (let ns = crud_get_user_notifications s cur 0 dflt
      in case search_loop i ns of
           None \<Rightarrow> raise 404 ''Notification not found''
         | Some _ \<Rightarrow>
             (case crud_mark_as_read s i of
                (Some n', s') \<Rightarrow> Inr (n', s')
              | (None, _) \<Rightarrow> raise 500 ''Internal server error''))"

definition delete_notification :: "notif_db \<Rightarrow> uid \<Rightarrow> rid \<Rightarrow> notif_db result" where
  "delete_notification s cur i =
     (let ns = crud_get_user_notifications s cur 0 1000
      in case search_loop i ns of
           Some _ \<Rightarrow> Inr (crud_delete_notification s i)
         | None \<Rightarrow> raise 404 ''Notification not found'')"

definition get_unread_count :: "notif_db \<Rightarrow> uid \<Rightarrow> nat" where
  "get_unread_count s cur = crud_get_unread_count s cur"

lemmas notification_endpoint_defs [endpoint_simps] =
  get_notifications_def mark_notifications_read_def mark_notification_read_def
  delete_notification_def get_unread_count_def

lemma search_loop_find: "search_loop i ns = find (\<lambda>n. nid n = i) ns"
  by (induction ns) auto

lemma search_loop_None_iff: "search_loop i ns = None \<longleftrightarrow> i \<notin> nid ` set ns"
  by (auto simp: search_loop_find find_None_iff')

lemma search_loop_Some: "search_loop i ns = Some n \<Longrightarrow> n \<in> set ns \<and> nid n = i"
  unfolding search_loop_find by (rule find_Some_in_set)

lemma user_page_owned:
  "n \<in> set (crud_get_user_notifications s u k l) \<Longrightarrow> n \<in> set (notifications s) \<and> n_user_id n = u"
  unfolding crud_get_user_notifications_def
  using set_take_subset [of l] set_drop_subset [of k] by fastforce

subsection \<open>Properties of the notifications router\<close>

text \<open>
  C21: marking notifications read in bulk checks no ownership. \<^verbatim>\<open>mark_notifications_read\<close>
  marks every listed notification read, whoever owns it and whoever calls.
\<close>

theorem mark_notifications_read_unguarded:
  assumes "n \<in> set (notifications s)" and "nid n \<in> set ids"
  shows "n\<lparr>is_read := True\<rparr> \<in> set (notifications (snd (mark_notifications_read s cur ids)))"
  using assms
  by (force simp: mark_notifications_read_def crud_mark_multiple_as_read_def)

theorem mark_notifications_read_unguarded_witness:
  "\<lparr>nid = 0, n_user_id = ''A'', message = ''hi'', is_read = True\<rparr> \<in>
     set (notifications (snd (mark_notifications_read
       \<lparr>notifications = [\<lparr>nid = 0, n_user_id = ''A'', message = ''hi'', is_read = False\<rparr>],
        next_nid = 1\<rparr> ''B'' [0])))"
  using mark_notifications_read_unguarded
    [of "\<lparr>nid = 0, n_user_id = ''A'', message = ''hi'', is_read = False\<rparr>"
        "\<lparr>notifications = [\<lparr>nid = 0, n_user_id = ''A'', message = ''hi'', is_read = False\<rparr>],
          next_nid = 1\<rparr>" "[0]" "''B''"]
  by simp

text \<open>
  C22: deleting a notification looks only at the caller's first 1000 notifications.
  \<^verbatim>\<open>delete_notification\<close> deletes the row exactly when its id is among the first 1000
  notifications of the caller, and answers 404 otherwise, also for the caller's own
  later notifications.
\<close>

theorem delete_notification_window:
  "delete_notification s cur i =
     (if i \<in> nid ` set (take 1000 (filter (\<lambda>n. n_user_id n = cur) (notifications s)))
      then Inr (crud_delete_notification s i)
      else raise 404 ''Notification not found'')"
proof (cases "search_loop i (take 1000 (filter (\<lambda>n. n_user_id n = cur) (notifications s)))")
  case None
  moreover from None
  have "i \<notin> nid ` set (take 1000 (filter (\<lambda>n. n_user_id n = cur) (notifications s)))"
    using search_loop_None_iff by blast
  ultimately show ?thesis
    by (simp add: delete_notification_def crud_get_user_notifications_def)
next
  case (Some n)
  then have "i \<in> nid ` set (take 1000 (filter (\<lambda>n. n_user_id n = cur) (notifications s)))"
    by (auto dest!: search_loop_Some)
  with Some show ?thesis
    by (simp add: delete_notification_def crud_get_user_notifications_def)
qed

text \<open>
  The 1001st notification of a user cannot be deleted by its owner: with 1001
  notifications of A, numbered 0 to 1000, A's request to delete number 1000 is
  answered 404.
\<close>

theorem delete_notification_beyond_window:
  "delete_notification
     \<lparr>notifications = map (\<lambda>k. \<lparr>nid = k, n_user_id = ''A'', message = ''hi'', is_read = False\<rparr>)
        [0..<1001], next_nid = 1001\<rparr> ''A'' 1000 = raise 404 ''Notification not found''"
proof -
  have "search_loop 1000 (map (\<lambda>k. \<lparr>nid = k, n_user_id = ''A'', message = ''hi'',
      is_read = False\<rparr>) [0..<1000]) = None"
    by (simp add: search_loop_None_iff image_image)
  then show ?thesis
    by (simp add: delete_notification_def crud_get_user_notifications_def take_map
        filter_map comp_def)
qed

text \<open>
  C23: the paging of \<^verbatim>\<open>get_notifications\<close>. Out-of-range parameters are refused with
  422; otherwise the response holds the page of the caller's notifications after
  \<open>skip\<close>, at most \<open>limit\<close> (so at most 50) of them, its \<open>total_count\<close> is the size of
  that page rather than the number of the caller's notifications, and
  \<open>unread_count\<close> counts all of the caller's unread notifications.
\<close>

theorem get_notifications_page:
  assumes "get_notifications s cur skip lim = Inr r"
  shows "0 \<le> skip \<and> 1 \<le> lim \<and> lim \<le> 50 \<and>
         nl_total_count r =
           min (nat lim) (length (filter (\<lambda>n. n_user_id n = cur) (notifications s)) - nat skip) \<and>
         nl_total_count r \<le> 50 \<and>
         unread_count r = length (filter (\<lambda>n. n_user_id n = cur \<and> \<not> is_read n) (notifications s))"
  using assms
  by (auto simp: get_notifications_def crud_get_user_notifications_def crud_get_unread_count_def
      Let_def split: if_splits)

theorem get_notifications_page_witness:
  "get_notifications
     \<lparr>notifications = [\<lparr>nid = 0, n_user_id = ''A'', message = ''a'', is_read = False\<rparr>,
        \<lparr>nid = 1, n_user_id = ''A'', message = ''b'', is_read = True\<rparr>,
        \<lparr>nid = 2, n_user_id = ''A'', message = ''c'', is_read = False\<rparr>], next_nid = 3\<rparr>
     ''A'' 0 2 =
   Inr \<lparr>nl_notifications = [\<lparr>nid = 0, n_user_id = ''A'', message = ''a'', is_read = False\<rparr>,
        \<lparr>nid = 1, n_user_id = ''A'', message = ''b'', is_read = True\<rparr>],
        nl_total_count = 2, unread_count = 2\<rparr> \<and>
   nl_total_count \<lparr>nl_notifications = [\<lparr>nid = 0, n_user_id = ''A'', message = ''a'', is_read = False\<rparr>,
        \<lparr>nid = 1, n_user_id = ''A'', message = ''b'', is_read = True\<rparr>],
        nl_total_count = 2, unread_count = 2\<rparr> = min (nat 2) (3 - nat 0)"
proof -
  let ?s = "\<lparr>notifications = [\<lparr>nid = 0, n_user_id = ''A'', message = ''a'', is_read = False\<rparr>,
        \<lparr>nid = 1, n_user_id = ''A'', message = ''b'', is_read = True\<rparr>,
        \<lparr>nid = 2, n_user_id = ''A'', message = ''c'', is_read = False\<rparr>], next_nid = 3\<rparr>"
  let ?r = "\<lparr>nl_notifications = [\<lparr>nid = 0, n_user_id = ''A'', message = ''a'', is_read = False\<rparr>,
        \<lparr>nid = 1, n_user_id = ''A'', message = ''b'', is_read = True\<rparr>],
        nl_total_count = 2, unread_count = 2\<rparr>"
  have g: "get_notifications ?s ''A'' 0 2 = Inr ?r"
    by (simp add: get_notifications_def crud_get_user_notifications_def crud_get_unread_count_def)
  from get_notifications_page [OF g] g show ?thesis by simp
qed

text \<open>
  C24: marking one notification read acts only on the caller's own notifications.
  A successful \<^verbatim>\<open>mark_notification_read\<close> returns the caller's notification with the
  requested id, now read, and the stored row is read too.
\<close>

theorem mark_notification_read_owned:
  assumes "notif_wf s" and "mark_notification_read s dflt cur i = Inr (n', s')"
  shows "n_user_id n' = cur \<and> nid n' = i \<and> is_read n' \<and> n' \<in> set (notifications s')"
proof -
  from assms(2) obtain n where sl: "search_loop i (crud_get_user_notifications s cur 0 dflt) = Some n"
    by (auto simp: mark_notification_read_def Let_def split: option.splits)
  then have n: "n \<in> set (notifications s)" "n_user_id n = cur" "nid n = i"
    by (auto dest!: search_loop_Some user_page_owned)
  with assms(1) have f: "find (\<lambda>m. nid m = i) (notifications s) = Some n"
    by (auto simp: notif_wf_def intro: find_key_distinct)
  with assms(2) sl have n': "n' = n\<lparr>is_read := True\<rparr>"
    and s': "s' = s\<lparr>notifications :=
       map (\<lambda>m. if nid m = i then m\<lparr>is_read := True\<rparr> else m) (notifications s)\<rparr>"
    by (auto simp: mark_notification_read_def crud_mark_as_read_def Let_def)
  from n n' s' have "n' \<in> set (notifications s')" by force
  with n n' show ?thesis by simp
qed

theorem mark_notification_read_owned_witness:
  "mark_notification_read
     \<lparr>notifications = [\<lparr>nid = 0, n_user_id = ''A'', message = ''hi'', is_read = False\<rparr>],
      next_nid = 1\<rparr> 10 ''A'' 0 =
   Inr (\<lparr>nid = 0, n_user_id = ''A'', message = ''hi'', is_read = True\<rparr>,
        \<lparr>notifications = [\<lparr>nid = 0, n_user_id = ''A'', message = ''hi'', is_read = True\<rparr>],
         next_nid = 1\<rparr>) \<and>
   is_read \<lparr>nid = 0, n_user_id = ''A'', message = ''hi'', is_read = True\<rparr>"
proof -
  let ?s = "\<lparr>notifications = [\<lparr>nid = 0, n_user_id = ''A'', message = ''hi'', is_read = False\<rparr>],
      next_nid = 1\<rparr>"
  let ?n = "\<lparr>nid = 0, n_user_id = ''A'', message = ''hi'', is_read = True\<rparr>"
  have wf: "notif_wf ?s" by (simp add: notif_wf_def)
  have m: "mark_notification_read ?s 10 ''A'' 0 =
      Inr (?n, \<lparr>notifications = [?n], next_nid = 1\<rparr>)"
    by (simp add: mark_notification_read_def crud_get_user_notifications_def crud_mark_as_read_def)
  from mark_notification_read_owned [OF wf m] m show ?thesis by simp
qed

end
