(* ===== verification/App_System.thy ===== *)
theory App_System
  imports App_Main Achievements Projects Notifications User_Settings
begin

text \<open>
  The whole backend as one state machine. The state holds the four databases the
  routers under \<^verbatim>\<open>src\<close> work on (mentorships with the users table, achievements,
  projects, notifications). One step is one HTTP request through the application of
  \<^verbatim>\<open>main.py\<close>: the route table of \<open>App_Routing\<close> picks the endpoint, FastAPI binds
  path, query and body to the handler's parameters (a body or query that does not fit
  the handler's signature is answered 422 before the handler runs), and the handler
  of the component's theory runs on its database. The routes of the routers outside
  \<^verbatim>\<open>src\<close> and the documentation routes are answered without touching these databases:
  their handlers are not among the sources. Notifications are created elsewhere, so a
  run starts from any well-formed notification table.
\<close>

record app_state =
  st_mentorship :: db
  st_achievements :: ach_db
  st_projects :: project_db
  st_notifications :: notif_db

datatype api_response =
    MentorshipAPI response
  | AchievementListAPI achievement_list
  | AchievementAPI achievement
  | ProjectListAPI project_list
  | ProjectAPI project
  | NotificationListAPI notification_list
  | NotificationAPI notification
  | MarkedCountAPI nat
  | UnreadCountAPI nat
  | SettingsAPI settings_response
  | EmptyAPI
  | ExternalAPI endpoint

subsection \<open>Binding of parameters\<close>

definition id_param :: "string \<Rightarrow> (string \<times> string) list \<Rightarrow> nat option" where
  "id_param n ps = (case map_of ps n of None \<Rightarrow> None | Some v \<Rightarrow> canonical_id v)"

text \<open>An optional string field: absent or null is \<open>None\<close>; \<open>None\<close> outside is a type error.\<close>

definition body_opt_str :: "http_request \<Rightarrow> string \<Rightarrow> string option option" where
  "body_opt_str req k =
     (case body_field req k of
        None \<Rightarrow> Some None
      | Some JNull \<Rightarrow> Some None
      | Some (JStr v) \<Rightarrow> Some (Some v)
      | Some _ \<Rightarrow> None)"

text \<open>A field of a partial update: absent is \<open>None\<close> (not set), null sets \<open>None\<close>.\<close>

definition body_set_str :: "http_request \<Rightarrow> string \<Rightarrow> string option option option" where
  "body_set_str req k =
     (case body_field req k of
        None \<Rightarrow> Some None
      | Some JNull \<Rightarrow> Some (Some None)
      | Some (JStr v) \<Rightarrow> Some (Some (Some v))
      | Some _ \<Rightarrow> None)"

fun json_strs :: "json list \<Rightarrow> string list option" where
  "json_strs [] = Some []"
| "json_strs (JStr v # js) = map_option (Cons v) (json_strs js)"
| "json_strs (_ # js) = None"

definition body_strs :: "http_request \<Rightarrow> string \<Rightarrow> string list option option" where
  "body_strs req k =
     (case body_field req k of
        None \<Rightarrow> Some None
      | Some (JArr js) \<Rightarrow> map_option Some (json_strs js)
      | Some _ \<Rightarrow> None)"

definition body_opt_nat :: "http_request \<Rightarrow> string \<Rightarrow> nat option option" where
  "body_opt_nat req k =
     (case body_field req k of
        None \<Rightarrow> Some None
      | Some JNull \<Rightarrow> Some None
      | Some (JInt n) \<Rightarrow> if 0 \<le> n then Some (Some (nat n)) else None
      | Some _ \<Rightarrow> None)"

definition body_set_nat :: "http_request \<Rightarrow> string \<Rightarrow> nat option option option" where
  "body_set_nat req k =
     (case body_field req k of
        None \<Rightarrow> Some None
      | Some JNull \<Rightarrow> Some (Some None)
      | Some (JInt n) \<Rightarrow> if 0 \<le> n then Some (Some (Some (nat n))) else None
      | Some _ \<Rightarrow> None)"

definition body_bool :: "http_request \<Rightarrow> string \<Rightarrow> bool \<Rightarrow> bool option" where
  "body_bool req k dflt =
     (case body_field req k of None \<Rightarrow> Some dflt | Some (JBool b) \<Rightarrow> Some b | Some _ \<Rightarrow> None)"

definition parse_int :: "string \<Rightarrow> int option" where
  "parse_int v =
     (case v of
        CHR ''-'' # ds \<Rightarrow> map_option (\<lambda>n. - int n) (parse_decimal ds)
      | _ \<Rightarrow> map_option int (parse_decimal v))"

definition query_int :: "http_request \<Rightarrow> string \<Rightarrow> int \<Rightarrow> int option" where
  "query_int req k dflt = (case query_str req k of None \<Rightarrow> Some dflt | Some v \<Rightarrow> parse_int v)"

text \<open>
  \<^verbatim>\<open>ProjectCreate\<close>, \<^verbatim>\<open>ProjectUpdate\<close>, \<^verbatim>\<open>NotificationMarkRead\<close> and the two
  settings schemas, bound from the body. Each is a required body parameter, so a
  request without a body is refused (422) even when every field of the schema has a
  default.
\<close>

definition bind_project_create :: "http_request \<Rightarrow> project_create option" where
  "bind_project_create req =
     (case (body_str req ''title'', body_opt_str req ''description'', body_strs req ''skills_used'',
            body_opt_str req ''github_url'', body_opt_str req ''demo_url'',
            body_opt_str req ''image_url'', body_opt_nat req ''start_date'') of
        (Some t, Some d, Some sk, Some g, Some dm, Some im, Some sd) \<Rightarrow>
          Some \<lparr>pc_title = t, pc_description = d, pc_skills_used = case_option [] id sk,
                pc_github_url = g, pc_demo_url = dm, pc_image_url = im, pc_start_date = sd\<rparr>
      | _ \<Rightarrow> None)"

definition bind_project_update :: "http_request \<Rightarrow> project_update option" where
  "bind_project_update req =
     (if hr_body req = None then None else
      case (body_field req ''title'', body_set_str req ''description'', body_strs req ''skills_used'',
            body_set_str req ''github_url'', body_set_str req ''demo_url'',
            body_set_str req ''image_url'', body_set_nat req ''start_date'') of
        (t, Some d, Some sk, Some g, Some dm, Some im, Some sd) \<Rightarrow>
          Option.bind
            (case t of
               None \<Rightarrow> Some None
             | Some (JStr v) \<Rightarrow> Some (Some v)
             | Some _ \<Rightarrow> None)
            (\<lambda>tt. Some \<lparr>pu_title = tt, pu_description = d, pu_skills_used = sk, pu_github_url = g,
                          pu_demo_url = dm, pu_image_url = im, pu_start_date = sd\<rparr>)
      | _ \<Rightarrow> None)"

definition bind_notification_ids :: "http_request \<Rightarrow> rid list option" where
  "bind_notification_ids req =
     (case body_field req ''notification_ids'' of
        Some (JArr js) \<Rightarrow> map_option (List.map_filter canonical_id) (json_strs js)
      | _ \<Rightarrow> None)"

definition bind_notification_settings :: "http_request \<Rightarrow> notification_settings option" where
  "bind_notification_settings req =
     (if hr_body req = None then None else
      case (body_bool req ''email_achievements'' True, body_bool req ''email_mentorship'' True,
            body_bool req ''email_courses'' True, body_bool req ''email_connections'' True,
            body_bool req ''push_enabled'' True) of
        (Some a, Some b, Some c, Some d, Some e) \<Rightarrow>
          Some \<lparr>email_achievements = a, email_mentorship = b, email_courses = c,
                email_connections = d, push_enabled = e\<rparr>
      | _ \<Rightarrow> None)"

definition bind_privacy_settings :: "http_request \<Rightarrow> privacy_settings option" where
  "bind_privacy_settings req =
     (if hr_body req = None then None else
      case (body_bool req ''profile_public'' True, body_bool req ''show_achievements'' True,
            body_bool req ''show_projects'' True, body_bool req ''show_skills'' True) of
        (Some a, Some b, Some c, Some d) \<Rightarrow>
          Some \<lparr>profile_public = a, show_achievements = b, show_projects = c, show_skills = d\<rparr>
      | _ \<Rightarrow> None)"

definition validation_error :: "'a result" where
  "validation_error = raise 422 ''Validation error''"

text \<open>
  A mentorship endpoint: the request of \<open>Mentorship_System\<close> bound by \<open>from_http\<close>
  and run by its router \<open>handle\<close>. Binding fails only on a bad body (422) or on an
  id that names no row (the handler's 404).
\<close>

definition mentorship_call ::
  "app_state \<Rightarrow> uid \<Rightarrow> nat \<Rightarrow> endpoint \<Rightarrow> (string \<times> string) list \<Rightarrow> http_request \<Rightarrow>
     (api_response \<times> app_state) result" where
  "mentorship_call s cur now e ps req =
     (case from_http e ps req of
        None \<Rightarrow>
          if e = E_create_mentorship \<or> (e = E_update_mentorship \<and> body_str req ''status'' = None)
          then validation_error else raise 404 ''Mentorship not found''
      | Some r \<Rightarrow>
          (case handle (st_mentorship s) cur now r of
             Inl x \<Rightarrow> Inl x
           | Inr (v, m') \<Rightarrow> Inr (MentorshipAPI v, s\<lparr>st_mentorship := m'\<rparr>)))"

text \<open>
  The handler behind each endpoint, with the database it works on. \<open>dflt\<close> is the
  default page size of \<^verbatim>\<open>notification_crud.get_user_notifications\<close>, which
  \<^verbatim>\<open>mark_notification_read\<close> relies on (the data-access module is not among the
  sources).
\<close>

fun app_handler ::
  "nat \<Rightarrow> app_state \<Rightarrow> uid \<Rightarrow> nat \<Rightarrow> endpoint \<Rightarrow> (string \<times> string) list \<Rightarrow> http_request \<Rightarrow>
     (api_response \<times> app_state) result" where
  "app_handler dflt s cur now E_get_my_mentees ps req = mentorship_call s cur now E_get_my_mentees ps req"
| "app_handler dflt s cur now E_get_my_mentors ps req = mentorship_call s cur now E_get_my_mentors ps req"
| "app_handler dflt s cur now E_get_available_mentors ps req =
     mentorship_call s cur now E_get_available_mentors ps req"
| "app_handler dflt s cur now E_create_mentorship ps req =
     mentorship_call s cur now E_create_mentorship ps req"
| "app_handler dflt s cur now E_get_mentorship ps req = mentorship_call s cur now E_get_mentorship ps req"
| "app_handler dflt s cur now E_update_mentorship ps req =
     mentorship_call s cur now E_update_mentorship ps req"
| "app_handler dflt s cur now E_cancel_mentorship ps req =
     mentorship_call s cur now E_cancel_mentorship ps req"
| "app_handler dflt s cur now E_get_my_achievements ps req =
     Inr (AchievementListAPI (get_my_achievements (st_achievements s) cur), s)"
| "app_handler dflt s cur now E_create_achievement ps req =
     (case (body_str req ''title'', body_opt_str req ''description'', body_opt_str req ''badge_name'',
            body_opt_str req ''icon_url'') of
        (Some t, Some d, Some b, Some ic) \<Rightarrow>
          (case create_achievement (st_achievements s) cur
                  \<lparr>ac_title = t, ac_description = d, ac_badge_name = b, ac_icon_url = ic\<rparr> of
             (a, a') \<Rightarrow> Inr (AchievementAPI a, s\<lparr>st_achievements := a'\<rparr>))
      | _ \<Rightarrow> validation_error)"
| "app_handler dflt s cur now E_get_achievement ps req =
     (case id_param ''achievement_id'' ps of
        None \<Rightarrow> raise 404 ''Achievement not found''
      | Some i \<Rightarrow>
          (case get_achievement (st_achievements s) cur i of
             Inl x \<Rightarrow> Inl x
           | Inr a \<Rightarrow> Inr (AchievementAPI a, s)))"
| "app_handler dflt s cur now E_delete_achievement ps req =
     (case id_param ''achievement_id'' ps of
        None \<Rightarrow> raise 404 ''Achievement not found''
      | Some i \<Rightarrow>
          (case delete_achievement (st_achievements s) cur i of
             Inl x \<Rightarrow> Inl x
           | Inr a' \<Rightarrow> Inr (EmptyAPI, s\<lparr>st_achievements := a'\<rparr>)))"
| "app_handler dflt s cur now E_get_my_projects ps req =
     Inr (ProjectListAPI (get_my_projects (st_projects s) cur), s)"
| "app_handler dflt s cur now E_create_project ps req =
     (case bind_project_create req of
        None \<Rightarrow> validation_error
      | Some c \<Rightarrow>
          (case create_project (st_projects s) cur c of
             (p, p') \<Rightarrow> Inr (ProjectAPI p, s\<lparr>st_projects := p'\<rparr>)))"
| "app_handler dflt s cur now E_get_project ps req =
     (case id_param ''project_id'' ps of
        None \<Rightarrow> raise 404 ''Project not found''
      | Some i \<Rightarrow>
          (case get_project (st_projects s) cur i of
             Inl x \<Rightarrow> Inl x
           | Inr p \<Rightarrow> Inr (ProjectAPI p, s)))"
| "app_handler dflt s cur now E_update_project ps req =
     (case bind_project_update req of
        None \<Rightarrow> validation_error
      | Some u \<Rightarrow>
          (case id_param ''project_id'' ps of
             None \<Rightarrow> raise 404 ''Project not found''
           | Some i \<Rightarrow>
               (case update_project (st_projects s) cur i u of
                  Inl x \<Rightarrow> Inl x
                | Inr (p, p') \<Rightarrow> Inr (ProjectAPI p, s\<lparr>st_projects := p'\<rparr>))))"
| "app_handler dflt s cur now E_delete_project ps req =
     (case id_param ''project_id'' ps of
        None \<Rightarrow> raise 404 ''Project not found''
      | Some i \<Rightarrow>
          (case delete_project (st_projects s) cur i of
             Inl x \<Rightarrow> Inl x
           | Inr p' \<Rightarrow> Inr (EmptyAPI, s\<lparr>st_projects := p'\<rparr>)))"
| "app_handler dflt s cur now E_endorse_project ps req =
     (case id_param ''project_id'' ps of
        None \<Rightarrow> raise 404 ''Project not found''
      | Some i \<Rightarrow>
          (case endorse_project (st_projects s) cur i of
             Inl x \<Rightarrow> Inl x
           | Inr (p, p') \<Rightarrow> Inr (ProjectAPI p, s\<lparr>st_projects := p'\<rparr>)))"
| "app_handler dflt s cur now E_get_notifications ps req =
     (case (query_int req ''skip'' 0, query_int req ''limit'' 10) of
        (Some sk, Some lim) \<Rightarrow>
          (case get_notifications (st_notifications s) cur sk lim of
             Inl x \<Rightarrow> Inl x
           | Inr l \<Rightarrow> Inr (NotificationListAPI l, s))
      | _ \<Rightarrow> validation_error)"
| "app_handler dflt s cur now E_mark_notifications_read ps req =
     (case bind_notification_ids req of
        None \<Rightarrow> validation_error
      | Some ids \<Rightarrow>
          (case mark_notifications_read (st_notifications s) cur ids of
             (k, n') \<Rightarrow> Inr (MarkedCountAPI k, s\<lparr>st_notifications := n'\<rparr>)))"
| "app_handler dflt s cur now E_mark_notification_read ps req =
     (case id_param ''notification_id'' ps of
        None \<Rightarrow> raise 404 ''Notification not found''
      | Some i \<Rightarrow>
          (case mark_notification_read (st_notifications s) dflt cur i of
             Inl x \<Rightarrow> Inl x
           | Inr (n, n') \<Rightarrow> Inr (NotificationAPI n, s\<lparr>st_notifications := n'\<rparr>)))"
| "app_handler dflt s cur now E_delete_notification ps req =
     (case id_param ''notification_id'' ps of
        None \<Rightarrow> raise 404 ''Notification not found''
      | Some i \<Rightarrow>
          (case delete_notification (st_notifications s) cur i of
             Inl x \<Rightarrow> Inl x
           | Inr n' \<Rightarrow> Inr (EmptyAPI, s\<lparr>st_notifications := n'\<rparr>)))"
| "app_handler dflt s cur now E_get_unread_count ps req =
     Inr (UnreadCountAPI (get_unread_count (st_notifications s) cur), s)"
| "app_handler dflt s cur now E_get_user_settings ps req =
     Inr (SettingsAPI (settings_handle cur GetSettings), s)"
| "app_handler dflt s cur now E_update_notification_settings ps req =
     (case bind_notification_settings req of
        None \<Rightarrow> validation_error
      | Some x \<Rightarrow> Inr (SettingsAPI (settings_handle cur (UpdateNotifications x)), s))"
| "app_handler dflt s cur now E_update_privacy_settings ps req =
     (case bind_privacy_settings req of
        None \<Rightarrow> validation_error
      | Some x \<Rightarrow> Inr (SettingsAPI (settings_handle cur (UpdatePrivacy x)), s))"
| "app_handler dflt s cur now E_change_password ps req =
     (case (query_str req ''current_password'', query_str req ''new_password'') of
        (Some p, Some q) \<Rightarrow> Inr (SettingsAPI (settings_handle cur (ChangePassword p q)), s)
      | _ \<Rightarrow> validation_error)"
| "app_handler dflt s cur now e ps req = Inr (ExternalAPI e, s)"

text \<open>
  One request to the application: the response of \<open>app_call\<close> (routing, CORS,
  timing) with the handlers above, and the state after it. A request that raises, or
  that the router or the CORS middleware answers itself, leaves the state as it was.
\<close>

definition app_serve ::
  "settings \<Rightarrow> (string \<Rightarrow> route list) \<Rightarrow> nat \<Rightarrow> app_state \<Rightarrow> uid \<Rightarrow> nat \<Rightarrow> string \<Rightarrow>
     http_request \<Rightarrow> api_response http_response \<times> app_state" where
  "app_serve cfg other dflt s cur now dur req =
     (app_call cfg other (\<lambda>r ps q. map_sum id fst (app_handler dflt s cur now (rt_endpoint r) ps q)) dur req,
      case dispatch (app_routes cfg other) (hr_method req) (hr_path req) of
        Matched r ps \<Rightarrow>
          (case app_handler dflt s cur now (rt_endpoint r) ps req of
             Inr (_, s') \<Rightarrow> s'
           | Inl _ \<Rightarrow> s)
      | _ \<Rightarrow> s)"

definition app_init :: "user list \<Rightarrow> notif_db \<Rightarrow> app_state" where
  "app_init us n0 =
     \<lparr>st_mentorship = empty_db us, st_achievements = \<lparr>achievements = [], next_aid = 0\<rparr>,
      st_projects = \<lparr>projects = [], next_pid = 0\<rparr>, st_notifications = n0\<rparr>"

inductive app_reachable ::
  "settings \<Rightarrow> (string \<Rightarrow> route list) \<Rightarrow> nat \<Rightarrow> user list \<Rightarrow> app_state \<Rightarrow> bool"
  for cfg other dflt us where
  init: "notif_wf n0 \<Longrightarrow> app_reachable cfg other dflt us (app_init us n0)"
| step: "app_reachable cfg other dflt us s \<Longrightarrow> app_serve cfg other dflt s cur now dur req = (resp, s') \<Longrightarrow>
           app_reachable cfg other dflt us s'"

text \<open>The component of the state each endpoint works on.\<close>

datatype component = CMentorship | CAchievements | CProjects | CNotifications | CNone

fun endpoint_component :: "endpoint \<Rightarrow> component" where
  "endpoint_component E_get_my_mentees = CMentorship"
| "endpoint_component E_get_my_mentors = CMentorship"
| "endpoint_component E_get_available_mentors = CMentorship"
| "endpoint_component E_create_mentorship = CMentorship"
| "endpoint_component E_get_mentorship = CMentorship"
| "endpoint_component E_update_mentorship = CMentorship"
| "endpoint_component E_cancel_mentorship = CMentorship"
| "endpoint_component E_get_my_achievements = CAchievements"
| "endpoint_component E_create_achievement = CAchievements"
| "endpoint_component E_get_achievement = CAchievements"
| "endpoint_component E_delete_achievement = CAchievements"
| "endpoint_component E_get_my_projects = CProjects"
| "endpoint_component E_create_project = CProjects"
| "endpoint_component E_get_project = CProjects"
| "endpoint_component E_update_project = CProjects"
| "endpoint_component E_delete_project = CProjects"
| "endpoint_component E_endorse_project = CProjects"
| "endpoint_component E_get_notifications = CNotifications"
| "endpoint_component E_mark_notifications_read = CNotifications"
| "endpoint_component E_mark_notification_read = CNotifications"
| "endpoint_component E_delete_notification = CNotifications"
| "endpoint_component E_get_unread_count = CNotifications"
| "endpoint_component _ = CNone"

subsection \<open>Lemmas\<close>

text \<open>The components' invariants, and that every handler keeps its component's.\<close>

definition app_inv :: "user list \<Rightarrow> app_state \<Rightarrow> bool" where
  "app_inv us s \<longleftrightarrow> reachable us (st_mentorship s) \<and> ach_wf (st_achievements s) \<and>
     proj_wf (st_projects s) \<and> notif_wf (st_notifications s)"

lemma proj_wf_create:
  assumes "proj_wf s" and "create_project s cur c = (p, s')"
  shows "proj_wf s'"
proof -
  have "proj_wf (snd (create_project s cur c))"
    using assms(1) by (auto simp: proj_wf_def create_project_def crud_create_project_def Let_def list_all_iff)
  with assms(2) show ?thesis by simp
qed

lemma proj_wf_update:
  "proj_wf s \<Longrightarrow> update_project s cur i u = Inr (p, s') \<Longrightarrow> proj_wf s'"
  using proj_wf_modify [of s "apply_project_update u" i]
  by (auto simp: update_project_def crud_update_project_def raise_def
      split: option.splits if_splits prod.splits)

lemma proj_wf_endorse:
  "proj_wf s \<Longrightarrow> endorse_project s cur i = Inr (p, s') \<Longrightarrow> proj_wf s'"
  using proj_wf_modify [of s "\<lambda>p. p\<lparr>endorsements := Suc (endorsements p)\<rparr>" i]
  by (auto simp: endorse_project_def crud_increment_endorsements_def raise_def
      split: option.splits prod.splits)

lemma proj_wf_delete:
  "proj_wf s \<Longrightarrow> delete_project s cur i = Inr s' \<Longrightarrow> proj_wf s'"
  by (auto simp: delete_project_def crud_delete_project_def proj_wf_def raise_def list_all_iff
      distinct_filter_map split: option.splits if_splits)

lemma ach_wf_delete_result:
  "ach_wf s \<Longrightarrow> delete_achievement s cur i = Inr s' \<Longrightarrow> ach_wf s'"
  using ach_wf_delete [of s i]
  by (auto simp: delete_achievement_def raise_def split: option.splits if_splits)

lemma map_nid_mark [simp]:
  "map nid (map (\<lambda>n. if P n then n\<lparr>is_read := True\<rparr> else n) ns) = map nid ns"
  by (induction ns) auto

lemma notif_wf_mark_many:
  "notif_wf s \<Longrightarrow> mark_notifications_read s cur ids = (k, s') \<Longrightarrow> notif_wf s'"
  by (auto simp: notif_wf_def mark_notifications_read_def crud_mark_multiple_as_read_def)

lemma ach_wf_create_result:
  "ach_wf s \<Longrightarrow> create_achievement s cur a = (x, s') \<Longrightarrow> ach_wf s'"
  using ach_wf_create [of s cur a] by simp

lemma notif_wf_mark_one:
  "notif_wf s \<Longrightarrow> mark_notification_read s dflt cur i = Inr (n, s') \<Longrightarrow> notif_wf s'"
  by (auto simp: notif_wf_def mark_notification_read_def crud_mark_as_read_def raise_def Let_def
      split: option.splits prod.splits)

lemma notif_wf_delete:
  "notif_wf s \<Longrightarrow> delete_notification s cur i = Inr s' \<Longrightarrow> notif_wf s'"
  by (auto simp: notif_wf_def delete_notification_def crud_delete_notification_def raise_def Let_def
      distinct_map_filter split: option.splits)

lemma mentorship_call_Inr:
  assumes "mentorship_call s cur now e ps req = Inr (v, s')"
  shows "\<exists>r x. from_http e ps req = Some r \<and> handle (st_mentorship s) cur now r = Inr (x, st_mentorship s') \<and>
           v = MentorshipAPI x \<and> s' = s\<lparr>st_mentorship := st_mentorship s'\<rparr>"
  using assms
  by (auto simp: mentorship_call_def validation_error_def raise_def split: option.splits sum.splits if_splits)

lemma mentorship_call_Some:
  "from_http e ps req = Some r \<Longrightarrow>
   mentorship_call s cur now e ps req =
     (case handle (st_mentorship s) cur now r of
        Inl x \<Rightarrow> Inl x | Inr (v, m') \<Rightarrow> Inr (MentorshipAPI v, s\<lparr>st_mentorship := m'\<rparr>))"
  by (simp add: mentorship_call_def)

lemma from_http_mentorship:
  "from_http e ps req = Some r \<Longrightarrow> endpoint_component e = CMentorship"
  by (cases e) auto

lemma app_handler_mentorship:
  "endpoint_component e = CMentorship \<Longrightarrow>
   app_handler dflt s cur now e ps req = mentorship_call s cur now e ps req"
  by (cases e) simp_all

lemmas app_handler_splits = option.splits sum.splits prod.splits

lemma app_handler_inv:
  assumes inv: "app_inv us s" and h: "app_handler dflt s cur now e ps req = Inr (v, s')"
  shows "app_inv us s'"
proof (cases "endpoint_component e = CMentorship")
  case True
  with h mentorship_call_Inr obtain r x where
    "handle (st_mentorship s) cur now r = Inr (x, st_mentorship s')" "s' = s\<lparr>st_mentorship := st_mentorship s'\<rparr>"
    by (simp add: app_handler_mentorship) blast
  with inv reachable.step show ?thesis by (metis app_inv_def app_state.select_convs app_state.surjective app_state.update_convs(1))
next
  case False
  with inv h show ?thesis
    by (cases e) (auto simp: app_inv_def validation_error_def raise_def
        dest: ach_wf_create_result proj_wf_create notif_wf_mark_many proj_wf_update proj_wf_endorse proj_wf_delete ach_wf_delete_result notif_wf_mark_one
        notif_wf_delete split: app_handler_splits)
qed

lemma app_serve_state:
  "snd (app_serve cfg other dflt s cur now dur req) =
     (case dispatch (app_routes cfg other) (hr_method req) (hr_path req) of
        Matched r ps \<Rightarrow>
          (case app_handler dflt s cur now (rt_endpoint r) ps req of Inr (_, s') \<Rightarrow> s' | Inl _ \<Rightarrow> s)
      | _ \<Rightarrow> s)"
  by (simp add: app_serve_def)

lemma app_inv_serve:
  "app_inv us s \<Longrightarrow> app_inv us (snd (app_serve cfg other dflt s cur now dur req))"
  by (auto simp: app_serve_state dest: app_handler_inv split: dispatch_result.splits sum.splits prod.splits)

text \<open>The HTTP form of a mentorship request is routed to a route whose binding gives it back.\<close>

lemma to_http_matched:
  assumes cfg: "API_V1_STR cfg = ''/api/v1''"
  shows "\<exists>rt ps. dispatch (app_routes cfg other) (hr_method (to_http cfg req)) (hr_path (to_http cfg req)) =
           Matched rt ps \<and> from_http (rt_endpoint rt) ps (to_http cfg req) = Some req"
proof -
  have d: "dispatch (app_routes cfg other) (hr_method (to_http cfg req)) (hr_path (to_http cfg req)) =
      dispatch (include_router (mentorships_prefix cfg) mentorship_routes)
        (hr_method (to_http cfg req)) (hr_path (to_http cfg req))"
    using mentorship_dispatch [OF cfg] cfg by (simp add: mentorships_prefix_def)
  let ?i = "case req of GetMentorship i \<Rightarrow> i | UpdateMentorship i _ \<Rightarrow> i
      | CancelMentorship i \<Rightarrow> i | _ \<Rightarrow> 0"
  obtain c cs where dec: "decimal ?i = c # cs" and c: "c \<noteq> CHR ''m''" "c \<noteq> CHR ''a''"
    and sl: "CHR ''/'' \<notin> set (c # cs)"
    by (rule decimal_Cons)
  have seg: "tmatch [TParam n] (c # cs) = Some [(n, c # cs)]" for n
    using sl by (rule tmatch_param_segment) simp
  note pm = path_params_mounted [OF mentorships_prefix_literal [OF cfg]]
  show ?thesis
    unfolding d
    using dec c seg canonical_id_decimal [of ?i]
    by (cases req) (simp_all add: mounted_mentorship_simps pm mentorship_id_param_def body_str_def body_field_def
        query_str_def
        map_of_optional_param)
qed

subsection \<open>Properties of the composed application\<close>

text \<open>
  C10: the composed application keeps every component's invariant. Start the
  application on an empty mentorship database over a user table, empty achievement and
  project tables, and a notification table with distinct ids. Then send any sequence of
  HTTP requests, from any users, through the application: routing, CORS, timing,
  parameter binding and the five routers under \<^verbatim>\<open>src\<close>. In every state reached this
  way, the mentorship database is one that the mentorship router reaches by itself, so
  it satisfies that router's system invariant. The achievement, project and
  notification tables keep unique ids, and achievement and project ids stay below their
  counters.
\<close>

theorem app_reachable_invariant:
  assumes "app_reachable cfg other dflt us s"
  shows "reachable us (st_mentorship s) \<and> sys_inv us (st_mentorship s) \<and>
         ach_wf (st_achievements s) \<and> proj_wf (st_projects s) \<and> notif_wf (st_notifications s)"
proof -
  from assms have "app_inv us s"
  proof induction
    case (init n0)
    then show ?case by (simp add: app_inv_def app_init_def reachable.init ach_wf_def proj_wf_def)
  next
    case (step s cur now dur req resp s')
    then show ?case by (metis app_inv_serve snd_conv)
  qed
  then show ?thesis by (simp add: app_inv_def reachable_sys_inv)
qed

text \<open>
  C15: the application implements the mentorship model. Take any request of the
  mentorship router model (\<open>Mentorship_System.handle\<close>) and send it as HTTP through the
  whole application: any routes outside \<^verbatim>\<open>src\<close>, any state of the other tables. The
  response carries the model's error detail or its result as payload, and the
  application adds only its timing header. The mentorship database becomes the one the
  model computes; on an error, nothing changes.
\<close>

theorem app_serve_refines_handle:
  assumes cfg: "API_V1_STR cfg = ''/api/v1''"
  shows "resp_body (fst (app_serve cfg other dflt s cur now dur (to_http cfg r))) =
           (case handle (st_mentorship s) cur now r of
              Inl (HTTPException c d) \<Rightarrow> Detail d | Inr (v, _) \<Rightarrow> Payload (MentorshipAPI v)) \<and>
         resp_headers (fst (app_serve cfg other dflt s cur now dur (to_http cfg r))) =
           [(''X-Process-Time'', dur)] \<and>
         snd (app_serve cfg other dflt s cur now dur (to_http cfg r)) =
           (case handle (st_mentorship s) cur now r of
              Inl _ \<Rightarrow> s | Inr (_, m') \<Rightarrow> s\<lparr>st_mentorship := m'\<rparr>)"
proof -
  obtain rt ps where d: "dispatch (app_routes cfg other) (hr_method (to_http cfg r)) (hr_path (to_http cfg r)) =
      Matched rt ps" and b: "from_http (rt_endpoint rt) ps (to_http cfg r) = Some r"
    using to_http_matched [OF cfg] by blast
  have h: "app_handler dflt s cur now (rt_endpoint rt) ps (to_http cfg r) =
     (case handle (st_mentorship s) cur now r of
        Inl x \<Rightarrow> Inl x | Inr (v, m') \<Rightarrow> Inr (MentorshipAPI v, s\<lparr>st_mentorship := m'\<rparr>))"
    using app_handler_mentorship [OF from_http_mentorship [OF b]] mentorship_call_Some [OF b] by simp
  have nh: "hr_headers (to_http cfg r) = []" by (cases r) simp_all
  show ?thesis
    by (simp add: app_serve_def app_call_def router_response_def cors_middleware_def nh d h
        add_request_timing_def endpoint_response_def split: sum.split prod.split http_exception.split)
qed

subsection \<open>Witnesses\<close>

definition witness_mentor :: user where
  "witness_mentor = \<lparr>user_id = ''M'', full_name = ''Mentor M'', title = None, bio = None,
     avatar_url = None, skills = []\<rparr>"

definition witness_start :: app_state where
  "witness_start = app_init [witness_mentor] \<lparr>notifications = [], next_nid = 0\<rparr>"

theorem app_reachable_invariant_witness:
  "reachable [witness_mentor] (st_mentorship (snd (app_serve (projr (build_settings (\<lambda>_. None)))
      (\<lambda>_. []) 10 witness_start ''A'' 1 ''0.001''
      (to_http (projr (build_settings (\<lambda>_. None))) (CreateMentorship ''M'' ''Go''))))) \<and>
   proj_wf (st_projects (snd (app_serve (projr (build_settings (\<lambda>_. None)))
      (\<lambda>_. []) 10 witness_start ''A'' 1 ''0.001''
      (to_http (projr (build_settings (\<lambda>_. None))) (CreateMentorship ''M'' ''Go'')))))"
proof -
  have i: "app_reachable (projr (build_settings (\<lambda>_. None))) (\<lambda>_. []) 10 [witness_mentor] witness_start"
    unfolding witness_start_def by (rule app_reachable.init) (simp add: notif_wf_def)
  have "app_reachable (projr (build_settings (\<lambda>_. None))) (\<lambda>_. []) 10 [witness_mentor]
      (snd (app_serve (projr (build_settings (\<lambda>_. None))) (\<lambda>_. []) 10 witness_start ''A'' 1 ''0.001''
        (to_http (projr (build_settings (\<lambda>_. None))) (CreateMentorship ''M'' ''Go''))))"
    by (rule app_reachable.step [OF i prod.collapse [symmetric]])
  from app_reachable_invariant [OF this] show ?thesis by simp
qed

theorem app_serve_refines_handle_witness:
  "resp_body (fst (app_serve (projr (build_settings (\<lambda>_. None))) (\<lambda>_. []) 10 witness_start ''A'' 1 ''0.001''
      (to_http (projr (build_settings (\<lambda>_. None))) (CreateMentorship ''M'' ''Go'')))) =
     Payload (MentorshipAPI (MentorshipResponse \<lparr>mid = 0, mentor_id = ''M'', mentee_id = ''A'',
        skill_focus = ''Go'', status = ''pending'', created_at = 1\<rparr>)) \<and>
   st_mentorship (snd (app_serve (projr (build_settings (\<lambda>_. None))) (\<lambda>_. []) 10 witness_start ''A'' 1 ''0.001''
      (to_http (projr (build_settings (\<lambda>_. None))) (CreateMentorship ''M'' ''Go'')))) =
     \<lparr>users = [witness_mentor], mentorships = [\<lparr>mid = 0, mentor_id = ''M'', mentee_id = ''A'',
        skill_focus = ''Go'', status = ''pending'', created_at = 1\<rparr>], next_mid = 1\<rparr>"
  using app_serve_refines_handle [OF default_settings_api,
      of "\<lambda>_. []" 10 witness_start "''A''" 1 "''0.001''" "CreateMentorship ''M'' ''Go''"]
  by (simp add: witness_start_def app_init_def empty_db_def witness_mentor_def mentorship_endpoint_defs
      crud_defs status_pending_def raise_def Let_def)

end
