(* ===== verification/App_Logging.thy ===== *)
theory App_Logging
  imports App_Routing "HOL-Library.AList"
begin

text \<open>
  The request log of \<^verbatim>\<open>main.py\<close>. \<^verbatim>\<open>structlog.configure\<close> sets two processors,
  \<^verbatim>\<open>TimeStamper(fmt="iso")\<close> and \<^verbatim>\<open>JSONRenderer()\<close>, and a \<^verbatim>\<open>PrintLoggerFactory\<close>.
  A call \<^verbatim>\<open>logger.info(event, k1=v1, ...)\<close> builds the event dict (the keyword
  arguments in order, then \<^verbatim>\<open>event\<close>), the time stamper sets \<^verbatim>\<open>timestamp\<close>, and the
  renderer prints \<^verbatim>\<open>json.dumps\<close> of the dict on one line. A Python dict is an
  association list here: assigning a key keeps its position if present and appends it
  otherwise, which is \<open>AList.update\<close>. \<^verbatim>\<open>json.dumps\<close> writes strings with
  \<^verbatim>\<open>ensure_ascii\<close>: backslash and quote escaped, the named control characters as
  \<^verbatim>\<open>\n\<close>, \<^verbatim>\<open>\r\<close>, \<^verbatim>\<open>\t\<close>, \<^verbatim>\<open>\b\<close>, \<^verbatim>\<open>\f\<close>, every other character outside space to
  tilde as \<^verbatim>\<open>\u\<close> with four lower-case hex digits. A character is a code point
  below 256 here. The parser below reads such a line back; it is the inverse the
  round trip is stated with, not code of the application.
\<close>

definition hex_digit :: "nat \<Rightarrow> char" where
  "hex_digit k = ''0123456789abcdef'' ! k"

definition json_escape_char :: "char \<Rightarrow> string" where
  "json_escape_char c =
     (if c = CHR 0x5C then [CHR 0x5C, CHR 0x5C]
      else if c = CHR 0x22 then [CHR 0x5C, CHR 0x22]
      else if c = CHR 0x0A then [CHR 0x5C, CHR ''n'']
      else if c = CHR 0x0D then [CHR 0x5C, CHR ''r'']
      else if c = CHR 0x09 then [CHR 0x5C, CHR ''t'']
      else if c = CHR 0x08 then [CHR 0x5C, CHR ''b'']
      else if c = CHR 0x0C then [CHR 0x5C, CHR ''f'']
      else if of_char c < (0x20::nat) \<or> (0x7F::nat) \<le> of_char c
      then [CHR 0x5C, CHR ''u'', CHR ''0'', CHR ''0'',
            hex_digit (of_char c div 16), hex_digit (of_char c mod 16)]
      else [c])"

definition json_string :: "string \<Rightarrow> string" where
  "json_string s = CHR 0x22 # concat (map json_escape_char s) @ [CHR 0x22]"

text \<open>Python's \<^verbatim>\<open>sep.join(items)\<close>.\<close>

fun sep_join :: "string \<Rightarrow> string list \<Rightarrow> string" where
  "sep_join sep [] = []"
| "sep_join sep [x] = x"
| "sep_join sep (x # y # zs) = x @ sep @ sep_join sep (y # zs)"

text \<open>\<^verbatim>\<open>json.dumps\<close> of a dict of strings, with the default separators.\<close>

definition json_member :: "string \<times> string \<Rightarrow> string" where
  "json_member kv = json_string (fst kv) @ '': '' @ json_string (snd kv)"

definition render_json_object :: "(string \<times> string) list \<Rightarrow> string" where
  "render_json_object kvs = CHR ''{'' # sep_join '', '' (map json_member kvs) @ ''}''"

text \<open>\<^verbatim>\<open>logger.info(event, **kw)\<close> through the two configured processors.\<close>

definition event_dict :: "string \<Rightarrow> (string \<times> string) list \<Rightarrow> (string \<times> string) list" where
  "event_dict ev kw = AList.update ''event'' ev kw"

definition time_stamper :: "string \<Rightarrow> (string \<times> string) list \<Rightarrow> (string \<times> string) list" where
  "time_stamper ts d = AList.update ''timestamp'' ts d"

definition log_line :: "string \<Rightarrow> string \<Rightarrow> (string \<times> string) list \<Rightarrow> string" where
  "log_line ts ev kw = render_json_object (time_stamper ts (event_dict ev kw))"

text \<open>
  The line of \<^verbatim>\<open>add_request_timing\<close>:
  \<^verbatim>\<open>logger.info("request", method=request.method, path=request.url.path,
  duration_ms=f"{duration*1000:.2f}")\<close>. The formatted duration is a parameter.
\<close>

definition request_log_line :: "string \<Rightarrow> http_method \<Rightarrow> string \<Rightarrow> string \<Rightarrow> string" where
  "request_log_line ts m path dur_ms =
     log_line ts ''request'' [(''method'', method_name m), (''path'', path), (''duration_ms'', dur_ms)]"

subsection \<open>Reading a line back\<close>

definition hex_val :: "char \<Rightarrow> nat option" where
  "hex_val c = (let k = of_char c :: nat in
     if 48 \<le> k \<and> k \<le> 57 then Some (k - 48)
     else if 97 \<le> k \<and> k \<le> 102 then Some (k - 87)
     else if 65 \<le> k \<and> k \<le> 70 then Some (k - 55) else None)"

definition simple_unescape :: "char \<Rightarrow> char option" where
  "simple_unescape d =
     map_of [(CHR 0x5C, CHR 0x5C), (CHR 0x22, CHR 0x22), (CHR 0x2F, CHR 0x2F), (CHR ''n'', CHR 0x0A),
             (CHR ''r'', CHR 0x0D), (CHR ''t'', CHR 0x09), (CHR ''b'', CHR 0x08), (CHR ''f'', CHR 0x0C)] d"

text \<open>The body of a string literal up to its closing quote, and what follows it.\<close>

fun json_unescape :: "string \<Rightarrow> (string \<times> string) option" where
  "json_unescape [] = None"
| "json_unescape (c # cs) =
     (if c = CHR 0x22 then Some ([], cs)
      else if c = CHR 0x5C then
        (case cs of
           [] \<Rightarrow> None
         | d # ds \<Rightarrow>
             if d = CHR ''u'' then
               (case ds of
                  h1 # h2 # h3 # h4 # r \<Rightarrow>
                    (case (hex_val h1, hex_val h2, hex_val h3, hex_val h4) of
                       (Some a, Some b, Some x, Some y) \<Rightarrow>
                         if a = 0 \<and> b = 0
                         then map_option (apfst (Cons (char_of (16 * x + y)))) (json_unescape r)
                         else None
                     | _ \<Rightarrow> None)
                | _ \<Rightarrow> None)
             else
               (case simple_unescape d of
                  Some e \<Rightarrow> map_option (apfst (Cons e)) (json_unescape ds)
                | None \<Rightarrow> None))
      else map_option (apfst (Cons c)) (json_unescape cs))"

definition parse_json_string :: "string \<Rightarrow> (string \<times> string) option" where
  "parse_json_string s = (case s of c # cs \<Rightarrow> if c = CHR 0x22 then json_unescape cs else None | [] \<Rightarrow> None)"

definition expect :: "string \<Rightarrow> string \<Rightarrow> string option" where
  "expect p s = (if take (length p) s = p then Some (drop (length p) s) else None)"

lemma json_unescape_shorter: "json_unescape s = Some (v, r) \<Longrightarrow> length r < length s"
proof (induction s arbitrary: v rule: length_induct)
  case (1 s)
  have IH: "json_unescape ys = Some (w, r) \<Longrightarrow> length ys < length s \<Longrightarrow> length r < length ys" for ys w
    using 1(1) by blast
  show ?case
  proof (cases s)
    case Nil
    with 1(2) show ?thesis by simp
  next
    case (Cons c cs)
    with 1(2) IH show ?thesis
      by (fastforce split: if_splits list.splits option.splits prod.splits)
  qed
qed

lemma parse_json_string_shorter: "parse_json_string s = Some (v, r) \<Longrightarrow> length r < length s"
  by (auto simp: parse_json_string_def dest: json_unescape_shorter split: list.splits if_splits)

lemma expect_shorter: "expect p s = Some r \<Longrightarrow> length r \<le> length s"
  by (auto simp: expect_def split: if_splits)

text \<open>The members of an object, \<^verbatim>\<open>"k": "v"\<close> separated by \<^verbatim>\<open>, \<close>, and what follows them.\<close>

function parse_members :: "string \<Rightarrow> ((string \<times> string) list \<times> string) option" where
  "parse_members s =
     (case parse_json_string s of
        None \<Rightarrow> None
      | Some (k, r1) \<Rightarrow>
          (case expect '': '' r1 of
             None \<Rightarrow> None
           | Some r2 \<Rightarrow>
               (case parse_json_string r2 of
                  None \<Rightarrow> None
                | Some (v, r3) \<Rightarrow>
                    (case expect '', '' r3 of
                       Some r4 \<Rightarrow> map_option (\<lambda>(kvs, r). ((k, v) # kvs, r)) (parse_members r4)
                     | None \<Rightarrow> Some ([(k, v)], r3)))))"
  by pat_completeness auto
termination
proof (relation "measure length", simp, clarsimp)
  fix s k r1 r2 v r3 r4
  assume "parse_json_string s = Some (k, r1)" "expect '': '' r1 = Some r2"
    "parse_json_string r2 = Some (v, r3)" "expect '', '' r3 = Some r4"
  then show "length r4 < length s"
    using parse_json_string_shorter expect_shorter by (metis le_less_trans less_trans)
qed

declare parse_members.simps [simp del]

definition parse_json_object :: "string \<Rightarrow> (string \<times> string) list option" where
  "parse_json_object s =
     (case expect ''{'' s of
        None \<Rightarrow> None
      | Some r \<Rightarrow>
          if r = ''}'' then Some []
          else (case parse_members r of Some (kvs, rest) \<Rightarrow> if rest = ''}'' then Some kvs else None | None \<Rightarrow> None))"

subsection \<open>Lemmas\<close>

lemma hex_digit_val:
  assumes "k < 16"
  shows "hex_val (hex_digit k) = Some k \<and> 32 \<le> (of_char (hex_digit k) :: nat) \<and>
    (of_char (hex_digit k) :: nat) < 127"
proof -
  from assms have "k \<in> set [0..<16]" by simp
  then show ?thesis by (auto simp: hex_digit_def hex_val_def upt_rec)
qed

lemma json_unescape_escape_char:
  "json_unescape (json_escape_char c @ t) = map_option (apfst (Cons c)) (json_unescape t)"
proof -
  let ?k = "of_char c :: nat"
  have k: "?k < 256" by (rule nat_of_char_less_256)
  then have d: "?k div 16 < 16" "?k mod 16 < 16" by (simp_all add: less_mult_imp_div_less)
  have k16: "16 * (?k div 16) + ?k mod 16 = ?k" by simp
  show ?thesis
    using hex_digit_val [OF d(1)] hex_digit_val [OF d(2)] k16
    by (auto simp: json_escape_char_def simple_unescape_def hex_val_def)
qed

lemma json_unescape_escaped:
  "json_unescape (concat (map json_escape_char s) @ CHR 0x22 # rest) = Some (s, rest)"
  by (induction s) (simp_all add: json_unescape_escape_char)

lemma parse_json_string_json_string [simp]:
  "parse_json_string (json_string s @ rest) = Some (s, rest)"
  by (simp add: parse_json_string_def json_string_def json_unescape_escaped)

lemma expect_append [simp]: "expect p (p @ s) = Some s"
  by (simp add: expect_def)

lemma expect_Cons [simp]:
  "expect [] s = Some s"
  "expect (c # p) [] = None"
  "expect (c # p) (d # s) = (if c = d then expect p s else None)"
  by (auto simp: expect_def)

lemma json_string_Cons: "\<exists>cs. json_string s = CHR 0x22 # cs"
  by (simp add: json_string_def)

lemma parse_members_member:
  "parse_members (json_member (k, v) @ rest) =
     (case expect '', '' rest of
        Some r4 \<Rightarrow> map_option (\<lambda>(kvs, r). ((k, v) # kvs, r)) (parse_members r4)
      | None \<Rightarrow> Some ([(k, v)], rest))"
  by (subst parse_members.simps) (simp add: json_member_def)

lemma parse_members_join:
  "kvs \<noteq> [] \<Longrightarrow> expect '', '' rest = None \<Longrightarrow>
   parse_members (sep_join '', '' (map json_member kvs) @ rest) = Some (kvs, rest)"
proof (induction kvs rule: induct_list012)
  case (2 x)
  then show ?case by (cases x) (simp add: parse_members_member)
next
  case (3 x y zs)
  then show ?case by (cases x) (simp add: parse_members_member)
qed simp

lemma parse_json_object_render: "parse_json_object (render_json_object kvs) = Some kvs"
proof (cases kvs)
  case Nil
  then show ?thesis by (simp add: parse_json_object_def render_json_object_def)
next
  case (Cons kv kvs')
  obtain cs where "json_member kv = CHR 0x22 # cs"
    using json_string_Cons [of "fst kv"] by (auto simp: json_member_def)
  then have ne: "sep_join '', '' (map json_member kvs) @ ''}'' \<noteq> ''}''"
    using Cons by (cases kvs') auto
  have pm: "parse_members (sep_join '', '' (map json_member kvs) @ ''}'') = Some (kvs, ''}'')"
    by (rule parse_members_join) (simp_all add: Cons)
  from pm ne show ?thesis
    by (simp add: parse_json_object_def render_json_object_def del: sep_join.simps)
qed

definition printable :: "char \<Rightarrow> bool" where
  "printable c \<longleftrightarrow> 32 \<le> (of_char c :: nat) \<and> (of_char c :: nat) < 127"

lemma printable_escape_char: "list_all printable (json_escape_char c)"
proof -
  have "(of_char c :: nat) < 256" by (rule nat_of_char_less_256)
  then have "(of_char c :: nat) div 16 < 16" "(of_char c :: nat) mod 16 < 16"
    by (simp_all add: less_mult_imp_div_less)
  with hex_digit_val show ?thesis
    by (auto simp: json_escape_char_def printable_def not_less)
qed

lemma printable_json_string: "list_all printable (json_string s)"
proof -
  have "list_all printable (concat (map json_escape_char s))"
    using printable_escape_char by (simp add: list_all_iff)
  then show ?thesis by (simp add: json_string_def printable_def)
qed

lemma printable_sep_join:
  "list_all printable sep \<Longrightarrow> list_all (list_all printable) xs \<Longrightarrow> list_all printable (sep_join sep xs)"
  by (induction sep xs rule: sep_join.induct) auto

lemma printable_render: "list_all printable (render_json_object kvs)"
proof -
  have "list_all (list_all printable) (map json_member kvs)"
    using printable_json_string by (auto simp: list_all_iff json_member_def printable_def)
  then show ?thesis
    by (simp add: render_json_object_def printable_sep_join printable_def)
qed

subsection \<open>Properties of the log\<close>

text \<open>
  C11: a log line reads back and cannot be forged. Take any event and any keyword
  values, including quotes, backslashes, line breaks and other control or non-ASCII
  characters in a request path. The printed line parses back to exactly the event
  dict: the keywords in order, then \<^verbatim>\<open>event\<close>, then \<^verbatim>\<open>timestamp\<close>. It consists of
  printable ASCII only, so one request never prints a second line or an extra
  field. For the request log of \<^verbatim>\<open>add_request_timing\<close> the fields read back are
  the method, the path, the duration, the event name and the timestamp.
\<close>

theorem log_line_roundtrip:
  "parse_json_object (log_line ts ev kw) = Some (AList.update ''timestamp'' ts (AList.update ''event'' ev kw)) \<and>
   list_all printable (log_line ts ev kw) \<and>
   parse_json_object (request_log_line ts m path dur_ms) =
     Some [(''method'', method_name m), (''path'', path), (''duration_ms'', dur_ms),
           (''event'', ''request''), (''timestamp'', ts)]"
  by (simp add: log_line_def request_log_line_def event_dict_def time_stamper_def
      parse_json_object_render printable_render)

end
