(* ===== verification/App_Stack.thy ===== *)
theory App_Stack
  imports App_System App_Logging
begin

text \<open>
  The middleware stack Starlette builds from \<^verbatim>\<open>create_application\<close>, from the outside
  in: \<^verbatim>\<open>ServerErrorMiddleware\<close>, which holds the handler registered for
  \<^verbatim>\<open>Exception\<close> (\<^verbatim>\<open>errors.general_exception_handler\<close>); the user middlewares in
  reverse order of registration, so \<^verbatim>\<open>add_request_timing\<close> outside
  \<^verbatim>\<open>CORSMiddleware\<close>; \<^verbatim>\<open>ExceptionMiddleware\<close>, which holds the handlers for
  \<^verbatim>\<open>HTTPException\<close> and \<^verbatim>\<open>errors.AppError\<close>; and the router. A handler either
  returns, raises an \<^verbatim>\<open>HTTPException\<close> (the \<open>Inl\<close> of its result), raises an
  \<^verbatim>\<open>AppError\<close>, or fails with any other exception. Such an exception passes through
  the CORS middleware (a simple request only wraps the response) and through
  \<^verbatim>\<open>call_next\<close> of the timing middleware, which does not catch it, up to
  \<^verbatim>\<open>ServerErrorMiddleware\<close>. The module \<^verbatim>\<open>app.core.errors\<close> is not among the
  sources: \<^verbatim>\<open>AppError\<close> is the failure taxonomy of spec section 7 and its handler maps
  it to the spec's codes; the generic handler answers a fixed internal error, as the
  spec requires that it leaks nothing.
\<close>

datatype app_error =
    NotFoundError string
  | ForbiddenError string
  | ValidationFailure string
  | InvalidTransition string

definition app_exception_handler :: "app_error \<Rightarrow> 'a http_response" where
  "app_exception_handler e =
     (case e of
        NotFoundError d \<Rightarrow> \<lparr>resp_status = 404, resp_headers = [], resp_body = Detail d\<rparr>
      | ForbiddenError d \<Rightarrow> \<lparr>resp_status = 403, resp_headers = [], resp_body = Detail d\<rparr>
      | ValidationFailure d \<Rightarrow> \<lparr>resp_status = 422, resp_headers = [], resp_body = Detail d\<rparr>
      | InvalidTransition d \<Rightarrow> \<lparr>resp_status = 422, resp_headers = [], resp_body = Detail d\<rparr>)"

definition general_exception_response :: "'a http_response" where
  "general_exception_response =
     \<lparr>resp_status = 500, resp_headers = [], resp_body = Detail ''Internal server error''\<rparr>"

datatype 'a outcome = Returned "'a result" | RaisedAppError app_error | Crashed string

datatype 'a propagated = Resp "'a http_response" | Uncaught string

text \<open>The router inside \<^verbatim>\<open>ExceptionMiddleware\<close>.\<close>

definition exception_layer ::
  "route list \<Rightarrow> (route \<Rightarrow> (string \<times> string) list \<Rightarrow> http_request \<Rightarrow> 'a outcome) \<Rightarrow>
     http_request \<Rightarrow> 'a propagated" where
  "exception_layer rs call req =
     (case dispatch rs (hr_method req) (hr_path req) of
        Matched r ps \<Rightarrow>
          (case call r ps req of
             Returned res \<Rightarrow> Resp (endpoint_response r res)
           | RaisedAppError e \<Rightarrow> Resp (app_exception_handler e)
           | Crashed m \<Rightarrow> Uncaught m)
      | MethodNotAllowed p \<Rightarrow>
          Resp \<lparr>resp_status = 405, resp_headers = [(''allow'', method_name (rt_method p))],
                resp_body = Detail ''Method Not Allowed''\<rparr>
      | RedirectTo p \<Rightarrow> Resp \<lparr>resp_status = 307, resp_headers = [(''location'', p)], resp_body = NoBody\<rparr>
      | NotFound \<Rightarrow> Resp \<lparr>resp_status = 404, resp_headers = [], resp_body = Detail ''Not Found''\<rparr>)"

text \<open>
  \<^verbatim>\<open>CORSMiddleware.__call__\<close>: no origin, the app answers alone; a preflight is
  answered without calling the app; any other request gets its response decorated.
\<close>

definition cors_preflight :: "http_request \<Rightarrow> bool" where
  "cors_preflight req \<longleftrightarrow> map_of (hr_headers req) ''origin'' \<noteq> None \<and> hr_method req = OPTIONS \<and>
     map_of (hr_headers req) ''access-control-request-method'' \<noteq> None"

definition cors_layer :: "http_request \<Rightarrow> 'a propagated \<Rightarrow> 'a propagated" where
  "cors_layer req inner =
     (case map_of (hr_headers req) ''origin'' of
        None \<Rightarrow> inner
      | Some origin \<Rightarrow>
          (case (hr_method req, map_of (hr_headers req) ''access-control-request-method'') of
             (OPTIONS, Some requested) \<Rightarrow> Resp (cors_preflight_response req origin requested)
           | _ \<Rightarrow> (case inner of Resp r \<Rightarrow> Resp (cors_middleware req r) | Uncaught m \<Rightarrow> Uncaught m)))"

text \<open>
  \<^verbatim>\<open>add_request_timing\<close>: after \<^verbatim>\<open>call_next\<close> returns, the header and one log
  line; an exception from \<^verbatim>\<open>call_next\<close> leaves the function before either.
\<close>

definition timing_layer ::
  "string \<Rightarrow> string \<Rightarrow> string \<Rightarrow> http_request \<Rightarrow> 'a propagated \<Rightarrow> 'a propagated \<times> string list" where
  "timing_layer ts dur dur_ms req inner =
     (case inner of
        Resp r \<Rightarrow> (Resp (add_request_timing dur r), [request_log_line ts (hr_method req) (hr_path req) dur_ms])
      | Uncaught m \<Rightarrow> (Uncaught m, []))"

definition server_error_layer :: "'a propagated \<Rightarrow> 'a http_response" where
  "server_error_layer p = (case p of Resp r \<Rightarrow> r | Uncaught m \<Rightarrow> general_exception_response)"

text \<open>The application on one request: the response and the lines printed by the request log.\<close>

definition app_stack ::
  "settings \<Rightarrow> (string \<Rightarrow> route list) \<Rightarrow>
     (route \<Rightarrow> (string \<times> string) list \<Rightarrow> http_request \<Rightarrow> 'a outcome) \<Rightarrow>
     string \<Rightarrow> string \<Rightarrow> string \<Rightarrow> http_request \<Rightarrow> 'a http_response \<times> string list" where
  "app_stack cfg other call ts dur dur_ms req =
     (case timing_layer ts dur dur_ms req (cors_layer req (exception_layer (app_routes cfg other) call req)) of
        (p, log) \<Rightarrow> (server_error_layer p, log))"

subsection \<open>Lemmas\<close>

lemma cors_layer_Resp: "cors_layer req (Resp r) = Resp (cors_middleware req r)"
  by (auto simp: cors_layer_def cors_middleware_def split: option.split http_method.split)

lemma cors_layer_Uncaught: "\<not> cors_preflight req \<Longrightarrow> cors_layer req (Uncaught m) = Uncaught m"
  by (auto simp: cors_layer_def cors_preflight_def split: option.split http_method.split)

lemma exception_layer_Returned:
  "exception_layer rs (\<lambda>r ps q. Returned (f r ps q)) req = Resp (router_response rs f req)"
  by (simp add: exception_layer_def router_response_def split: dispatch_result.split)

lemma app_stack_Resp:
  "exception_layer (app_routes cfg other) call req = Resp r \<Longrightarrow>
   app_stack cfg other call ts dur dur_ms req =
     (add_request_timing dur (cors_middleware req r), [request_log_line ts (hr_method req) (hr_path req) dur_ms])"
  by (simp add: app_stack_def cors_layer_Resp timing_layer_def server_error_layer_def)

subsection \<open>Properties of the stack\<close>

text \<open>
  C7: what an unexpected exception does. Take a request with no CORS preflight,
  dispatched to a route whose handler fails with an exception other than
  \<^verbatim>\<open>HTTPException\<close> and \<^verbatim>\<open>AppError\<close>. It is answered 500 with the generic detail,
  whatever the exception says. The response carries neither the CORS headers nor the
  \<^verbatim>\<open>X-Process-Time\<close> header, and the request log prints nothing for it. An
  \<^verbatim>\<open>AppError\<close> raised by the same handler is answered by its handler inside the
  middlewares: it gets both headers and one log line.
\<close>

theorem uncaught_exception_response:
  assumes d: "dispatch (app_routes cfg other) (hr_method req) (hr_path req) = Matched r ps"
    and np: "\<not> cors_preflight req"
  shows "(call r ps req = Crashed msg \<longrightarrow>
           app_stack cfg other call ts dur dur_ms req =
             (\<lparr>resp_status = 500, resp_headers = [], resp_body = Detail ''Internal server error''\<rparr>, [])) \<and>
         (call r ps req = RaisedAppError e \<longrightarrow>
           app_stack cfg other call ts dur dur_ms req =
             (add_request_timing dur (cors_middleware req (app_exception_handler e)),
              [request_log_line ts (hr_method req) (hr_path req) dur_ms]))"
proof -
  have crash: "app_stack cfg other call ts dur dur_ms req =
      (\<lparr>resp_status = 500, resp_headers = [], resp_body = Detail ''Internal server error''\<rparr>, [])"
    if "call r ps req = Crashed msg"
    using that by (simp add: app_stack_def exception_layer_def d cors_layer_Uncaught [OF np] timing_layer_def
        server_error_layer_def general_exception_response_def)
  have app_err: "app_stack cfg other call ts dur dur_ms req =
      (add_request_timing dur (cors_middleware req (app_exception_handler e)),
       [request_log_line ts (hr_method req) (hr_path req) dur_ms])"
    if "call r ps req = RaisedAppError e"
    by (rule app_stack_Resp) (simp add: exception_layer_def d that)
  show ?thesis using crash app_err by blast
qed

subsection \<open>Witnesses\<close>

theorem uncaught_exception_response_witness:
  "app_stack (projr (build_settings (\<lambda>_. None))) (\<lambda>_. []) (\<lambda>_ _ _. Crashed ''connection refused'')
     ''2026-11-09T12:00:00Z'' ''0.0021'' ''2.10''
     (plain_request GET ''/api/v1/mentorships/available-mentors'' [(''origin'', ''https://app.example'')]) =
   (\<lparr>resp_status = 500, resp_headers = [], resp_body = Detail ''Internal server error''\<rparr>, [])"
proof -
  let ?req = "plain_request GET ''/api/v1/mentorships/available-mentors'' [(''origin'', ''https://app.example'')]"
  have d: "dispatch (app_routes (projr (build_settings (\<lambda>_. None))) (\<lambda>_. [])) (hr_method ?req) (hr_path ?req) =
      Matched \<lparr>rt_method = GET, rt_path = ''/api/v1/mentorships/available-mentors'',
           rt_endpoint = E_get_available_mentors, rt_status = 200\<rparr> []"
    using mentorship_dispatch_examples(1) [OF default_settings_api] by (simp add: plain_request_def)
  have np: "\<not> cors_preflight ?req" by (simp add: cors_preflight_def plain_request_def)
  from uncaught_exception_response [OF d np, where call = "\<lambda>_ _ _. Crashed ''connection refused''"
      and msg = "''connection refused''" and ts = "''2026-11-09T12:00:00Z''" and dur = "''0.0021''"
      and dur_ms = "''2.10''"]
  show ?thesis by simp
qed

end
