(* ===== verification/Spec2Isabelle.thy ===== *)
theory Spec2Isabelle
  imports Mentorship_System User_Settings App_Stack
begin

text \<open>
  \<^bold>\<open>A verification model of the careercompass backend.\<close>

  The repository is a FastAPI backend (\<^verbatim>\<open>src/backend/app\<close>). Its only component
  with state and policy is the mentorship subsystem
  (\<^verbatim>\<open>api/endpoints/mentorship.py\<close>): a mentee requests a mentorship from a mentor,
  the mentor moves its status, either participant cancels it, and anybody can search
  the directory of mentors having a skill. The handlers call the data-access module
  \<^verbatim>\<open>app.crud.mentorship\<close> and the ORM models, which are not among the sources and
  are modelled from the specification. The other routers (achievements, projects,
  notifications, settings) are single-entity CRUD with ownership checks (some
  missing, see below).

  \<^bold>\<open>Theories and what they model.\<close>
  \<^item> \<open>Prelude\<close>: the exception \<^verbatim>\<open>HTTPException(status_code, detail)\<close> as the
    datatype \<open>http_exception\<close>, results as \<open>http_exception + 'a\<close> (\<open>Inl\<close> is a raise),
    the list lemmas shared by the components (lookup by a unique key, key-preserving
    updates, filters).
  \<^item> \<open>Mentorship_Store\<close> (Mentorship Store, spec 4.4): the ORM rows \<open>user\<close>,
    \<open>skill\<close>, \<open>mentorship\<close> as records, the session as the record \<open>db\<close> (users, mentorship
    rows in insertion order, the id counter), the six data-access functions
    \<open>crud_*\<close>, the store invariant \<open>store_wf\<close> (unique ids below the counter) and its
    preservation, reads after writes; the data of the scenario of spec section 8.
  \<^item> \<open>Access_Guard\<close> (spec 4.1): the inline checks of the handlers
    (\<open>not_participant\<close>, \<open>not_mentor\<close>) and the spec's role-by-action matrix
    \<open>authorize\<close>; they agree.
  \<^item> \<open>Mentorship_Endpoints\<close> (Lifecycle Manager as written): one definition per
    handler of \<^verbatim>\<open>mentorship.py\<close> (\<open>get_my_mentees\<close>, \<open>get_my_mentors\<close>,
    \<open>create_mentorship\<close>, \<open>get_mentorship\<close>, \<open>update_mentorship\<close>,
    \<open>cancel_mentorship\<close>), each taking the database and the caller's id and returning the
    response with the new database or the raised exception, guards in the source's
    order (existence, then role).
  \<^item> \<open>Mentor_Directory\<close> (spec 4.3): \<open>get_available_mentors\<close> with its \<^verbatim>\<open>for\<close> loop as
    the accumulator function \<open>available_loop\<close>.
  \<^item> \<open>Mentorship_Lifecycle\<close> (spec 4.2): the five statuses, the transition table as the
    inductive relation \<open>lifecycle_step\<close> (with the executable \<open>allowed_transition\<close>),
    and \<open>update_status_checked\<close>, the hardened update the spec asks for, built on the
    source's handler.
  \<^item> \<open>Mentorship_System\<close>: the router as the datatype \<open>request\<close> and the dispatch
    \<open>handle\<close>; runs of requests (\<open>run\<close>); the reachable databases as the inductive
    \<open>reachable\<close> (and \<open>reachable_checked\<close> for the hardened router); invariants by rule
    induction.

  \<^bold>\<open>What the lemmas show.\<close> Only the mentor changes a status (C1), and a row never
  changes otherwise (C9); cancellation deletes (C2); reads are for
  participants only (C6); create/read round trip (C5); the
  directory never lists the caller and counts every row naming the mentor, whatever
  its status (C3, C4), and its loop equals a filter and a map over the users table (C13);
  the store invariant and referential integrity of mentors hold in every reachable
  database (C8). Against the specification: the source accepts self-mentorship (C12)
  and checks no transition (\<open>update_mentorship\<close> writes any status string); under the
  hardened update a row in a terminal status never changes, while other rows of the
  same mentor still move (C14), and an unfinished mentorship can always be finished
  (C30).

  \<^bold>\<open>Choices.\<close> Mentorship ids are natural numbers from a counter of the store (the
  source uses opaque string keys; only uniqueness matters); user ids are strings. The
  creation time is a parameter of the request (the clock is read in the data-access
  layer). No loop needs fuel: the only loop runs over a list. Concurrency is not
  modelled beyond the sequential interleaving of requests (\<open>run\<close>, \<open>reachable\<close>):
  each handler performs at most one write, so a request is atomic (spec 5).

  \<^bold>\<open>Not modelled.\<close> Authentication (\<^verbatim>\<open>deps.get_current_user\<close>: the caller's id is a
  parameter); the printing itself and the float formatting of the durations
  (\<^verbatim>\<open>str(duration)\<close> and \<^verbatim>\<open>f"{duration*1000:.2f}"\<close> are parameters); the log
  calls inside the handlers (their values include integers, which the renderer prints
  as JSON numbers; their string fields obey C11); the \<^verbatim>\<open>uvicorn\<close> entry point;
  \<^verbatim>\<open>HEAD\<close> requests and the scheme and host of redirect URLs; string-to-int coercion
  of environment values and the sources of \<^verbatim>\<open>model_config\<close> (the environment, then
  \<^verbatim>\<open>.env\<close>, matched case-sensitively: \<open>build_settings\<close> takes the merged source as
  its parameter). The routers' database sessions are separate records; a handler that
  fails unexpectedly is modelled at the stack only (C7), where it changes no table.

  \<^bold>\<open>The CRUD routers.\<close> Each is one theory over its own store record (rows in
  insertion order and an id counter), with the data-access module modelled from the
  spec's CRUD collaborator and every handler from the source:
  \<^item> \<open>Achievements\<close> (\<^verbatim>\<open>achievements.py\<close>): reads and deletes are for the owner only
    (C16); create/read round trip (C17).
  \<^item> \<open>Projects\<close> (\<^verbatim>\<open>projects.py\<close>): the partial update (\<^verbatim>\<open>exclude_unset\<close>) as option
    fields; single reads are not guarded while updates and deletes are (C18); the update
    sets exactly the submitted fields (C19); endorsements count every request, the
    owner's and repeated ones included (C20, over \<open>endorse_all\<close>, a sequence of requests).
  \<^item> \<open>Notifications\<close> (\<^verbatim>\<open>notifications.py\<close>): the \<^verbatim>\<open>Query\<close> bounds as a 422 guard and
    the ownership loop of \<^verbatim>\<open>mark_notification_read\<close> as \<open>search_loop\<close>. The bulk mark checks
    no ownership (C21); deletion looks only at the caller's first 1000 notifications
    (C22), so the 1001st cannot be deleted; paging and counts (C23); the single
    mark acts on own notifications only (C24).
  \<^item> \<open>User_Settings\<close> (\<^verbatim>\<open>settings.py\<close>, \<^verbatim>\<open>schemas/user.py\<close>): the settings schemas
    with their defaults and the four handlers, which keep no state: settings are not
    stored. The user schemas are extensible records (\<open>user_profile\<close> and
    \<open>user_create\<close> extend \<open>user_base\<close>, as the classes do) with validating
    constructors: the skill level bound 1 to 10, a profile valid exactly when all its
    skills are, the defaults of absent fields, the required password. Required fields
    are taken as present or absent and values as already of their type: Pydantic's
    coercion of JSON values is not modelled.

  \<^bold>\<open>The application.\<close>
  \<^item> \<open>App_Config\<close> (\<^verbatim>\<open>core/config.py\<close>): \<^verbatim>\<open>Settings()\<close> as Pydantic builds it, the
    fields validated one by one in declaration order (\<open>validate_fields\<close>, threading
    \<^verbatim>\<open>info.data\<close>). The weak-key validator can never see \<^verbatim>\<open>ENVIRONMENT\<close>, declared
    after \<^verbatim>\<open>SECRET_KEY\<close>, so it never fires (C25); the environment is always one of
    its literals (C26).
  \<^item> \<open>App_Routing\<close> (\<^verbatim>\<open>main.py\<close> with Starlette's router): path templates and their
    matching (a \<open>function\<close> with a termination proof by a length measure, and a
    backtracking matcher). The parser's termination is also proved from its domain
    predicate by induction on the length, with the round trip through
    \<open>render_template\<close>. First-match dispatch with 405 and the trailing-slash
    redirect, the route tables of the five routers read from their decorators, and the
    application's route list built by the \<^verbatim>\<open>include_router\<close> calls in order. The
    routers outside \<^verbatim>\<open>src\<close> are a parameter, so every result holds for any routes they
    have; the lemmas show that routes that cannot match a path leave dispatch unchanged
    (as the first-match lemmas of flow tables do) and that mount prefixes isolate.
  \<^item> \<open>App_Main\<close>: FastAPI's answer for a handler's result or a routing failure, the CORS
    and timing middlewares, the application on one request (\<open>app_call\<close>), and the
    bridge to \<open>Mentorship_System\<close>: every mentorship request reaches its handler intact
    through the real route table (C27); the routers under \<^verbatim>\<open>src\<close> are isolated (C28);
    405 with its \<^verbatim>\<open>Allow\<close> header, redirect, timing and CORS behaviour, the preflight
    as Starlette's \<^verbatim>\<open>CORSMiddleware\<close> answers it (C29).
  \<^item> \<open>App_System\<close>: the whole backend as one state machine. The state
    \<open>app_state\<close> holds the four databases (mentorships with users, achievements,
    projects, notifications). One step, \<open>app_serve\<close>, is one HTTP request through
    \<open>app_call\<close>: the route table picks the endpoint, FastAPI's binding of path, query
    and JSON body (\<open>id_param\<close>, \<open>query_int\<close>, \<open>bind_project_create\<close>, ...; 422 when
    the request does not fit the signature) feeds the handler \<open>app_handler\<close> of the
    component's theory, and the handler's database replaces its own table. Path ids are
    strings in the source: only the decimal form of a row id names that row
    (\<open>canonical_id\<close>). \<open>app_reachable\<close> is every state reached from startup by any
    sequence of requests by any users. There every component's invariant holds, and
    the mentorship database is one the mentorship router reaches alone (C10). A
    mentorship request sent as HTTP through the whole application behaves as the model
    \<open>handle\<close> does, in body and in state (C15).
  \<^item> \<open>App_Logging\<close>: the request log. \<^verbatim>\<open>structlog.configure\<close> chains
    \<open>time_stamper\<close> and \<^verbatim>\<open>JSONRenderer\<close>, that is \<^verbatim>\<open>json.dumps\<close> with ASCII escaping
    (\<open>json_escape_char\<close>, \<open>render_json_object\<close>), over the event dict, a Python dict
    as \<open>AList.update\<close>. \<open>log_line\<close> is one printed line and \<open>request_log_line\<close>
    the line of \<^verbatim>\<open>add_request_timing\<close>. A parser (\<open>parse_json_object\<close>, a
    \<open>function\<close> whose termination follows from the string parser consuming input)
    reads a line back. Every line parses back to its event dict and is printable ASCII, so
    no request path forges a log line or a field (C11).
  \<^item> \<open>App_Stack\<close>: the middleware stack in Starlette's order, from the outside in:
    \<^verbatim>\<open>ServerErrorMiddleware\<close> with the \<^verbatim>\<open>Exception\<close> handler, the timing
    middleware, CORS, \<^verbatim>\<open>ExceptionMiddleware\<close> with the \<^verbatim>\<open>HTTPException\<close> and
    \<^verbatim>\<open>AppError\<close> handlers, and the router. A handler's \<open>outcome\<close> is a return, an
    \<^verbatim>\<open>AppError\<close> or an unexpected exception; a layer passes on a response or the
    exception (\<open>propagated\<close>). An unexpected exception is answered 500 outside CORS and
    timing, so without their headers and without a log line (C7).
  \<^item> C30 (in \<open>Mentorship_System\<close>): progress of the lifecycle under the hardened
    router: an unfinished mentorship can always be finished by its mentor in one
    request and cancelled by its mentee.

  \<^bold>\<open>Remaining plan.\<close> Binding of the JSON body beyond strings, integers, booleans and
  string lists (dates are integers here); the handlers' own log events with JSON numbers.
\<close>

end
